(* ===== verification/Prelude.thy ===== *)
theory Prelude
  imports Main "HOL-Library.Multiset" "HOL-Library.Sublist" "HOL-Library.Char_ord"
    "HOL-Library.List_Lexorder"
begin

text \<open>
  Shared vocabulary of the development: the JavaScript built-ins that \<open>src/app.js\<close>
  calls on strings, arrays and plain objects, written as executable HOL functions, and
  the generic lemmas about them that the component theories use.
  \<^item> strings are \<open>string\<close> (a list of 8-bit characters); \<open>toLowerCase\<close> and
    \<open>trim\<close> are modelled on the ASCII range;
  \<^item> \<open>localeCompare\<close> is the code-point lexicographic order of \<open>List_Lexorder\<close>;
  \<^item> \<open>Array.prototype.sort\<close> with a comparator is a stable insertion sort, the
    unique result that ECMAScript 2019 prescribes for a consistent comparator;
  \<^item> a plain object used as a dictionary is an association list in key-insertion
    order, and \<open>Object.entries\<close> lists integer-like keys first, as ECMAScript does;
  \<^item> \<open>parseInt\<close> returns \<open>None\<close> for \<open>NaN\<close>.
\<close>

named_theorems js_simps "evaluation rules for the modelled JavaScript built-ins"
named_theorems cmp_facts "facts about the comparators handed to Array.prototype.sort"

section \<open>Strings\<close>

definition js_lower_char :: "char \<Rightarrow> char" where
  "js_lower_char c =
     (if CHR ''A'' \<le> c \<and> c \<le> CHR ''Z'' then char_of (of_char c + (32::nat)) else c)"

definition js_lower :: "string \<Rightarrow> string" where
  "js_lower s = map js_lower_char s"

definition js_space :: "char \<Rightarrow> bool" where
  "js_space c \<longleftrightarrow> c \<in> set [CHR '' '', CHR 0x09, CHR 0x0A, CHR 0x0B, CHR 0x0C, CHR 0x0D]"

definition js_trim :: "string \<Rightarrow> string" where
  "js_trim s = rev (dropWhile js_space (rev (dropWhile js_space s)))"

text \<open>\<open>s.includes(q)\<close>: \<open>q\<close> occurs in \<open>s\<close> at some position.\<close>

fun js_includes :: "string \<Rightarrow> string \<Rightarrow> bool" where
  "js_includes [] q \<longleftrightarrow> q = []"
| "js_includes (c # cs) q \<longleftrightarrow> prefix q (c # cs) \<or> js_includes cs q"

text \<open>\<open>a.localeCompare(b)\<close>, read as a three-way comparison of strings.\<close>

definition locale_compare :: "string \<Rightarrow> string \<Rightarrow> int" where
  "locale_compare a b = (if a < b then -1 else if a = b then 0 else 1)"

lemma js_lower_Nil [simp, js_simps]: "js_lower [] = []"
  and js_lower_Cons [simp, js_simps]: "js_lower (c # cs) = js_lower_char c # js_lower cs"
  by (simp_all add: js_lower_def)

lemma length_js_lower [simp]: "length (js_lower s) = length s"
  by (simp add: js_lower_def)

lemma js_lower_char_idem [simp]: "js_lower_char (js_lower_char c) = js_lower_char c"
proof -
  have "of_char c < (256::nat)" by (rule nat_of_char_less_256)
  then show ?thesis
    by (auto simp: js_lower_char_def less_eq_char_def)
qed

lemma js_lower_idem [simp]: "js_lower (js_lower s) = js_lower s"
  by (simp add: js_lower_def comp_def)

lemma js_includes_sublist: "js_includes s q \<longleftrightarrow> sublist q s"
  by (induction s) (simp_all add: sublist_Cons_right)

lemma js_includes_Nil [simp]: "js_includes s []"
  by (simp add: js_includes_sublist)

lemma locale_compare_le [simp, cmp_facts]: "locale_compare a b \<le> 0 \<longleftrightarrow> a \<le> b"
  by (auto simp: locale_compare_def)

lemma locale_compare_zero [simp, cmp_facts]: "locale_compare a b = 0 \<longleftrightarrow> a = b"
  by (simp add: locale_compare_def)

lemma all_dropWhile: "(\<forall>x \<in> set (dropWhile P s). P x) \<longleftrightarrow> (\<forall>x \<in> set s. P x)"
  by (induction s) auto

lemma js_trim_Nil_iff: "js_trim s = [] \<longleftrightarrow> list_all js_space s"
  by (simp add: js_trim_def dropWhile_eq_Nil_conv list_all_iff all_dropWhile)

lemma js_space_iff: "js_space c \<longleftrightarrow> (of_char c :: nat) \<in> {32, 9, 10, 11, 12, 13}"
  by (auto simp del: of_char_eq_iff
      simp add: js_space_def of_char_eq_iff [where ?'a = nat, symmetric])

lemma dropWhile_none: "list_all (\<lambda>c. \<not> P c) s \<Longrightarrow> dropWhile P s = s"
  by (cases s) auto

lemma js_trim_id: "list_all (\<lambda>c. \<not> js_space c) s \<Longrightarrow> js_trim s = s"
  by (simp add: js_trim_def dropWhile_none list_all_iff)

lemma last_dropWhile: "dropWhile P xs \<noteq> [] \<Longrightarrow> last (dropWhile P xs) = last xs"
  by (induction xs) auto

lemma js_trim_ends: "js_trim s \<noteq> [] \<Longrightarrow> \<not> js_space (hd (js_trim s)) \<and> \<not> js_space (last (js_trim s))"
proof -
  assume ne: "js_trim s \<noteq> []"
  let ?t = "dropWhile js_space s" and ?u = "dropWhile js_space (rev (dropWhile js_space s))"
  have u: "?u \<noteq> []" using ne by (simp add: js_trim_def)
  have t: "?t \<noteq> []"
  proof
    assume e: "?t = []"
    have "?u = []" by (simp only: e rev.simps(1) dropWhile.simps(1))
    with u show False by contradiction
  qed
  have "last ?u = hd ?t" using u t by (simp add: last_dropWhile last_rev)
  then show ?thesis
    using u t hd_dropWhile [OF u] hd_dropWhile [OF t] by (simp add: js_trim_def hd_rev last_rev)
qed

lemma dropWhile_hd_id: "xs = [] \<or> \<not> P (hd xs) \<Longrightarrow> dropWhile P xs = xs"
  by (cases xs) auto

lemma js_trim_id_ends: "s = [] \<or> (\<not> js_space (hd s) \<and> \<not> js_space (last s)) \<Longrightarrow> js_trim s = s"
proof -
  assume a: "s = [] \<or> (\<not> js_space (hd s) \<and> \<not> js_space (last s))"
  then have "dropWhile js_space s = s" and "dropWhile js_space (rev s) = rev s"
    by (auto intro: dropWhile_hd_id simp: hd_rev)
  then show ?thesis by (simp add: js_trim_def)
qed

lemma js_trim_idem [simp]: "js_trim (js_trim s) = js_trim s"
  using js_trim_ends [of s] by (metis js_trim_id_ends)
section \<open>Array.prototype.sort with a comparator\<close>

text \<open>
  \<open>xs.sort(cmp)\<close> places \<open>x\<close> before \<open>y\<close> when \<open>cmp(x, y) \<le> 0\<close> and keeps
  the input order of elements that compare equal. Insertion from the right gives exactly
  that order. A comparator is consistent (\<open>cmp_weak_order\<close>) when it is total,
  transitive and symmetric on ties; for such comparators the sort is a permutation,
  sorted, and stable.
\<close>
fun js_insert :: "('a \<Rightarrow> 'a \<Rightarrow> int) \<Rightarrow> 'a \<Rightarrow> 'a list \<Rightarrow> 'a list" where
  "js_insert cmp x [] = [x]"
| "js_insert cmp x (y # ys) =
     (if cmp x y \<le> 0 then x # y # ys else y # js_insert cmp x ys)"

fun js_sort :: "('a \<Rightarrow> 'a \<Rightarrow> int) \<Rightarrow> 'a list \<Rightarrow> 'a list" where
  "js_sort cmp [] = []"
| "js_sort cmp (x # xs) = js_insert cmp x (js_sort cmp xs)"

definition cmp_weak_order :: "('a \<Rightarrow> 'a \<Rightarrow> int) \<Rightarrow> bool" where
  "cmp_weak_order cmp \<longleftrightarrow>
     (\<forall>x y. cmp x y \<le> 0 \<or> cmp y x \<le> 0) \<and>
     (\<forall>x y z. cmp x y \<le> 0 \<longrightarrow> cmp y z \<le> 0 \<longrightarrow> cmp x z \<le> 0) \<and>
     (\<forall>x y. cmp x y = 0 \<longrightarrow> cmp y x = 0)"

lemma mset_js_insert [simp]: "mset (js_insert cmp x xs) = add_mset x (mset xs)"
  by (induction xs) simp_all

lemma mset_js_sort [simp, cmp_facts]: "mset (js_sort cmp xs) = mset xs"
  by (induction xs) simp_all

lemma set_js_sort [simp]: "set (js_sort cmp xs) = set xs"
  by (metis mset_js_sort set_mset_mset)

lemma length_js_sort [simp]: "length (js_sort cmp xs) = length xs"
  by (metis mset_js_sort size_mset)

lemma set_js_insert [simp]: "set (js_insert cmp x xs) = insert x (set xs)"
  by (metis mset_js_insert set_mset_mset set_mset_add_mset_insert)

lemma cmp_weak_orderD:
  assumes "cmp_weak_order cmp"
  shows "\<not> cmp x y \<le> 0 \<Longrightarrow> cmp y x \<le> 0"
    and "cmp x y \<le> 0 \<Longrightarrow> cmp y z \<le> 0 \<Longrightarrow> cmp x z \<le> 0"
    and "cmp x y = 0 \<Longrightarrow> cmp y x = 0"
  using assms unfolding cmp_weak_order_def by blast+

lemma sorted_js_insert:
  assumes "cmp_weak_order cmp" "sorted_wrt (\<lambda>a b. cmp a b \<le> 0) xs"
  shows "sorted_wrt (\<lambda>a b. cmp a b \<le> 0) (js_insert cmp x xs)"
  using assms(2)
proof (induction xs)
  case Nil
  then show ?case by simp
next
  case (Cons y ys)
  show ?case
  proof (cases "cmp x y \<le> 0")
    case True
    with Cons.prems show ?thesis
      by (auto intro: cmp_weak_orderD(2)[OF assms(1)])
  next
    case False
    then have "cmp y x \<le> 0" by (rule cmp_weak_orderD(1)[OF assms(1)])
    with Cons False show ?thesis by auto
  qed
qed

lemma sorted_js_sort:
  "cmp_weak_order cmp \<Longrightarrow> sorted_wrt (\<lambda>a b. cmp a b \<le> 0) (js_sort cmp xs)"
  by (induction xs) (simp_all add: sorted_js_insert)

lemma js_insert_is_Cons:
  "\<forall>y \<in> set xs. cmp x y \<le> 0 \<Longrightarrow> js_insert cmp x xs = x # xs"
  by (cases xs) auto

lemma js_sort_sorted_id:
  "sorted_wrt (\<lambda>a b. cmp a b \<le> 0) xs \<Longrightarrow> js_sort cmp xs = xs"
  by (induction xs) (simp_all add: js_insert_is_Cons)

lemma filter_js_insert_neg:
  "\<not> P x \<Longrightarrow> filter P (js_insert cmp x xs) = filter P xs"
  by (induction xs) simp_all

lemma filter_js_insert_pos:
  assumes "cmp_weak_order cmp" "sorted_wrt (\<lambda>a b. cmp a b \<le> 0) xs" "P x"
  shows "filter P (js_insert cmp x xs) = js_insert cmp x (filter P xs)"
  using assms(2)
proof (induction xs)
  case Nil
  with assms(3) show ?case by simp
next
  case (Cons y ys)
  show ?case
  proof (cases "cmp x y \<le> 0")
    case True
    have "\<forall>z \<in> set (filter P (y # ys)). cmp x z \<le> 0"
      using True Cons.prems by (auto intro: cmp_weak_orderD(2)[OF assms(1)])
    with True assms(3) show ?thesis by (simp add: js_insert_is_Cons)
  next
    case False
    with Cons show ?thesis by simp
  qed
qed

lemma js_sort_stable:
  assumes "cmp_weak_order cmp"
  shows "filter (\<lambda>y. cmp y k = 0) (js_sort cmp xs) = filter (\<lambda>y. cmp y k = 0) xs"
proof (induction xs)
  case Nil
  then show ?case by simp
next
  case (Cons a xs)
  show ?case
  proof (cases "cmp a k = 0")
    case False
    with Cons.IH show ?thesis by (simp add: filter_js_insert_neg)
  next
    case True
    have srt: "sorted_wrt (\<lambda>a b. cmp a b \<le> 0) (js_sort cmp xs)"
      by (rule sorted_js_sort[OF assms])
    have "\<forall>z \<in> set (filter (\<lambda>y. cmp y k = 0) xs). cmp a z \<le> 0"
    proof
      fix z assume "z \<in> set (filter (\<lambda>y. cmp y k = 0) xs)"
      then have "cmp k z = 0" by (auto intro: cmp_weak_orderD(3)[OF assms])
      with True show "cmp a z \<le> 0" by (simp add: cmp_weak_orderD(2)[OF assms, of a k z])
    qed
    then show ?thesis
      using True Cons.IH by (simp add: filter_js_insert_pos[OF assms srt] js_insert_is_Cons)
  qed
qed

section \<open>Plain objects as dictionaries, parseInt\<close>

text \<open>
  \<open>m[k] = (m[k] || 0) + 1\<close> on a fresh object: \<open>al_bump\<close> increments the entry of
  \<open>k\<close> in place or appends \<open>(k, 1)\<close>, so keys stay in first-insertion order.
  \<open>Object.entries\<close> (\<open>js_entries\<close>) lists the keys that are array indices
  (canonical decimals below \<open>2^32 - 1\<close>) first, in ascending numeric order, then
  the others in insertion order.
\<close>
fun al_bump :: "('k \<times> nat) list \<Rightarrow> 'k \<Rightarrow> ('k \<times> nat) list" where
  "al_bump [] k = [(k, 1)]"
| "al_bump ((k', n) # al) k =
     (if k' = k then (k', Suc n) # al else (k', n) # al_bump al k)"

definition count_keys :: "'k list \<Rightarrow> ('k \<times> nat) list" where
  "count_keys ks = foldl al_bump [] ks"

definition al_count :: "('k \<times> nat) list \<Rightarrow> 'k \<Rightarrow> nat" where
  "al_count al k = (case map_of al k of None \<Rightarrow> 0 | Some n \<Rightarrow> n)"

definition is_digit :: "char \<Rightarrow> bool" where
  "is_digit c \<longleftrightarrow> CHR ''0'' \<le> c \<and> c \<le> CHR ''9''"

definition dec_val :: "string \<Rightarrow> int" where
  "dec_val s = foldl (\<lambda>n c. 10 * n + (int (of_char c) - 48)) 0 s"

definition js_array_index :: "string \<Rightarrow> bool" where
  "js_array_index s \<longleftrightarrow>
     s \<noteq> [] \<and> list_all is_digit s \<and> (s = ''0'' \<or> CHR ''0'' < hd s) \<and>
     dec_val s < 4294967295"

definition js_entries :: "(string \<times> 'v) list \<Rightarrow> (string \<times> 'v) list" where
  "js_entries al =
     sort_key (\<lambda>e. dec_val (fst e)) (filter (\<lambda>e. js_array_index (fst e)) al) @
     filter (\<lambda>e. \<not> js_array_index (fst e)) al"

definition js_parse_int :: "string \<Rightarrow> int option" where
  "js_parse_int s =
     (let t = dropWhile js_space s;
          (sg, r) = (case t of
                       c # cs \<Rightarrow> if c = CHR ''-'' then (-1::int, cs)
                                else if c = CHR ''+'' then (1, cs) else (1, t)
                     | [] \<Rightarrow> (1, []));
          ds = takeWhile is_digit r
      in if ds = [] then None else Some (sg * dec_val ds))"

definition or_zero :: "int option \<Rightarrow> int" where
  "or_zero v = (case v of None \<Rightarrow> 0 | Some n \<Rightarrow> n)"

text \<open>\<open>Object.entries(counts).sort((a, b) => b[1] - a[1]).slice(0, k)\<close> on a dictionary
  that counted the keys \<open>ks\<close>: the \<open>k\<close> most frequent keys with their counts.\<close>

definition top_counts :: "nat \<Rightarrow> string list \<Rightarrow> (string \<times> nat) list" where
  "top_counts k ks = take k (js_sort (\<lambda>a b. int (snd b) - int (snd a)) (js_entries (count_keys ks)))"

lemma map_fst_al_bump:
  "map fst (al_bump al k) = (if k \<in> set (map fst al) then map fst al else map fst al @ [k])"
  by (induction al k rule: al_bump.induct) auto

lemma al_count_al_bump [simp]:
  "al_count (al_bump al k) j = al_count al j + (if j = k then 1 else 0)"
  by (induction al k rule: al_bump.induct) (auto simp: al_count_def split: option.splits)

lemma al_count_foldl:
  "al_count (foldl al_bump al ks) j = al_count al j + count_list ks j"
  by (induction ks arbitrary: al) auto

lemma al_count_count_keys [simp]: "al_count (count_keys ks) j = count_list ks j"
  unfolding count_keys_def al_count_foldl by (simp add: al_count_def)

lemma keys_al_bump [simp]: "fst ` set (al_bump al k) = insert k (fst ` set al)"
  by (induction al k rule: al_bump.induct) auto

lemma set_map_fst_foldl:
  "set (map fst (foldl al_bump al ks)) = set (map fst al) \<union> set ks"
  by (induction ks arbitrary: al) (auto simp: map_fst_al_bump)

lemma distinct_map_fst_foldl:
  "distinct (map fst al) \<Longrightarrow> distinct (map fst (foldl al_bump al ks))"
  by (induction ks arbitrary: al) (auto simp: map_fst_al_bump)

lemma keys_count_keys [simp]: "set (map fst (count_keys ks)) = set ks"
  using set_map_fst_foldl [of "[]" ks] by (simp add: count_keys_def)

lemma distinct_count_keys [simp]: "distinct (map fst (count_keys ks))"
  by (simp add: count_keys_def distinct_map_fst_foldl)

lemma mset_js_entries [simp]: "mset (js_entries al) = mset al"
  by (simp add: js_entries_def)

lemma count_desc_weak_order [cmp_facts]:
  "cmp_weak_order (\<lambda>a b :: 'k \<times> nat. int (snd b) - int (snd a))"
  by (auto simp: cmp_weak_order_def)

lemma in_count_keys:
  "(k, n) \<in> set (count_keys ks) \<longleftrightarrow> k \<in> set ks \<and> n = count_list ks k"
proof
  assume kn: "(k, n) \<in> set (count_keys ks)"
  then have "map_of (count_keys ks) k = Some n"
    by (simp add: map_of_is_SomeI)
  then have "n = count_list ks k"
    using al_count_count_keys [of ks k] by (simp add: al_count_def)
  moreover have "k \<in> set ks"
    using kn keys_count_keys [of ks] by force
  ultimately show "k \<in> set ks \<and> n = count_list ks k" by simp
next
  assume "k \<in> set ks \<and> n = count_list ks k"
  then obtain m where m: "(k, m) \<in> set (count_keys ks)" and n: "n = count_list ks k"
    using keys_count_keys [of ks] by force
  then have "map_of (count_keys ks) k = Some m"
    by (simp add: map_of_is_SomeI)
  then have "m = count_list ks k"
    using al_count_count_keys [of ks k] by (simp add: al_count_def)
  with m n show "(k, n) \<in> set (count_keys ks)" by simp
qed

lemma sorted_wrt_take_drop:
  "sorted_wrt P xs \<Longrightarrow> x \<in> set (take n xs) \<Longrightarrow> y \<in> set (drop n xs) \<Longrightarrow> P x y"
  by (metis append_take_drop_id sorted_wrt_append)

lemma count_list_filter_pos: "P x \<Longrightarrow> count_list (filter P xs) x = count_list xs x"
  by (induction xs) auto

lemma set_js_entries [simp]: "set (js_entries al) = set al"
  by (metis mset_js_entries set_mset_mset)

lemma length_js_entries [simp]: "length (js_entries al) = length al"
  by (metis mset_js_entries size_mset)

lemma set_sort_counts:
  "set (js_sort (\<lambda>a b. int (snd b) - int (snd a)) (js_entries (count_keys ks))) = set (count_keys ks)"
  by simp

lemma top_counts_mem:
  "(k, n) \<in> set (top_counts m ks) \<Longrightarrow> k \<in> set ks \<and> n = count_list ks k"
  unfolding top_counts_def by (metis in_set_takeD set_sort_counts in_count_keys)

lemma length_top_counts: "length (top_counts m ks) = min m (card (set ks))"
proof -
  have "length (count_keys ks) = card (set ks)"
    using distinct_card [OF distinct_count_keys [of ks]] keys_count_keys [of ks] by simp
  then show ?thesis
    by (simp add: top_counts_def)
qed

lemma sorted_top_counts:
  "sorted_wrt (\<lambda>x y. snd y \<le> snd x) (top_counts m ks)"
proof -
  have "sorted_wrt (\<lambda>x y. int (snd y) - int (snd x) \<le> 0)
          (js_sort (\<lambda>a b. int (snd b) - int (snd a)) (js_entries (count_keys ks)))"
    by (rule sorted_js_sort [OF count_desc_weak_order])
  then show ?thesis
    unfolding top_counts_def by (auto intro: sorted_wrt_take simp: sorted_wrt_mono_rel)
qed

text \<open>A key left out of the top \<open>m\<close> never occurs more often than a key kept.\<close>

lemma top_counts_top:
  assumes "a \<in> set (map fst (top_counts m ks))" and "a' \<in> set ks"
    and "a' \<notin> set (map fst (top_counts m ks))"
  shows "count_list ks a' \<le> count_list ks a"
proof -
  let ?S = "js_sort (\<lambda>a b. int (snd b) - int (snd a)) (js_entries (count_keys ks))"
  from assms(1) obtain n where an: "(a, n) \<in> set (take m ?S)"
    by (auto simp: top_counts_def)
  have a'S: "(a', count_list ks a') \<in> set ?S"
    using assms(2) by (simp add: set_sort_counts in_count_keys)
  have "(a', count_list ks a') \<notin> set (take m ?S)"
    using assms(3) by (force simp: top_counts_def)
  with a'S have a'D: "(a', count_list ks a') \<in> set (drop m ?S)"
    by (metis Un_iff append_take_drop_id set_append)
  have "sorted_wrt (\<lambda>x y. int (snd y) - int (snd x) \<le> 0) ?S"
    by (rule sorted_js_sort [OF count_desc_weak_order])
  from sorted_wrt_take_drop [OF this an a'D] have "count_list ks a' \<le> n"
    by simp
  moreover have "n = count_list ks a"
    using top_counts_mem [of a n m ks] an by (simp add: top_counts_def)
  ultimately show ?thesis by simp
qed

section \<open>String.prototype.split and Array.prototype.join\<close>

text \<open>\<open>s.split(sep)\<close> for a non-empty separator: the pieces between the occurrences of
  \<open>sep\<close> found from the left; \<open>cur\<close> collects the current piece in reverse.\<close>

function js_split_aux :: "string \<Rightarrow> string \<Rightarrow> string \<Rightarrow> string list" where
  "js_split_aux sep [] cur = [rev cur]"
| "js_split_aux sep (c # cs) cur =
     (if sep \<noteq> [] \<and> prefix sep (c # cs) then rev cur # js_split_aux sep (drop (length sep) (c # cs)) []
      else js_split_aux sep cs (c # cur))"
  by pat_completeness auto
termination
  by (relation "measure (\<lambda>(sep, s, cur). length s)") auto

definition js_split :: "string \<Rightarrow> string \<Rightarrow> string list" where
  "js_split sep s = js_split_aux sep s []"

text \<open>\<open>xs.join(sep)\<close>.\<close>

fun js_join :: "string \<Rightarrow> string list \<Rightarrow> string" where
  "js_join sep [] = []"
| "js_join sep [x] = x"
| "js_join sep (x # y # zs) = x @ sep @ js_join sep (y # zs)"

lemma js_split_aux_skip:
  "sep \<noteq> [] \<Longrightarrow> hd sep \<notin> set x \<Longrightarrow> js_split_aux sep (x @ r) cur = js_split_aux sep r (rev x @ cur)"
proof (induction x arbitrary: cur)
  case (Cons c x)
  have "\<not> prefix sep (c # x @ r)"
    using Cons.prems by (cases sep) auto
  then show ?case using Cons by simp
qed simp

lemma js_split_aux_sep:
  "sep \<noteq> [] \<Longrightarrow> js_split_aux sep (sep @ r) cur = rev cur # js_split_aux sep r []"
  by (cases sep) simp_all

lemma js_split_join:
  assumes "sep \<noteq> []" and "xs \<noteq> []" and "\<forall>x \<in> set xs. hd sep \<notin> set x"
  shows "js_split sep (js_join sep xs) = xs"
proof -
  have "js_split_aux sep (js_join sep xs) cur = (rev cur @ hd xs) # tl xs" for cur
    using assms(2,3)
  proof (induction xs arbitrary: cur rule: induct_list012)
    case (2 x)
    then show ?case using js_split_aux_skip [OF assms(1), of x "[]" cur] by simp
  next
    case (3 x y zs)
    have "js_split_aux sep (x @ sep @ js_join sep (y # zs)) cur =
          (rev cur @ x) # js_split_aux sep (js_join sep (y # zs)) []"
      using 3 js_split_aux_skip [OF assms(1)] js_split_aux_sep [OF assms(1)] by simp
    then show ?case using 3 by simp
  qed simp
  from this [of "[]"] show ?thesis using assms(2) by (simp add: js_split_def)
qed

section \<open>Number.prototype.toString, Math.round, dictionaries updated in place\<close>

text \<open>\<open>String(n)\<close> for an integer: its canonical decimal form.\<close>

definition digit_char :: "nat \<Rightarrow> char" where
  "digit_char d = ''0123456789'' ! d"

fun dec_string :: "nat \<Rightarrow> string" where
  "dec_string n =
     (if n < 10 then [digit_char n] else dec_string (n div 10) @ [digit_char (n mod 10)])"

definition js_int_string :: "int \<Rightarrow> string" where
  "js_int_string i = (if i < 0 then CHR ''-'' # dec_string (nat (- i)) else dec_string (nat i))"

text \<open>\<open>Math.round(a / b)\<close> in exact arithmetic: \<open>floor (a / b + 1/2)\<close> for \<open>b \<noteq> 0\<close>.\<close>

definition js_round_div :: "int \<Rightarrow> int \<Rightarrow> int" where
  "js_round_div a b = (2 * a + b) div (2 * b)"

text \<open>\<open>if (!m[k]) m[k] = init; update m[k]\<close>: the entry of \<open>k\<close> is changed in place, or
  appended when \<open>k\<close> is new.\<close>

fun al_modify :: "('k \<times> 'v) list \<Rightarrow> 'k \<Rightarrow> 'v \<Rightarrow> ('v \<Rightarrow> 'v) \<Rightarrow> ('k \<times> 'v) list" where
  "al_modify [] k i f = [(k, f i)]"
| "al_modify ((k', v) # al) k i f = (if k' = k then (k', f v) # al else (k', v) # al_modify al k i f)"

text \<open>\<open>a || b\<close> on values that are strings or undefined.\<close>

definition js_or_str :: "string option \<Rightarrow> string option \<Rightarrow> string option" where
  "js_or_str a b = (case a of Some x \<Rightarrow> if x = [] then b else a | None \<Rightarrow> b)"

definition str_or :: "string option \<Rightarrow> string \<Rightarrow> string" where
  "str_or a d = (case js_or_str a None of Some x \<Rightarrow> x | None \<Rightarrow> d)"

declare dec_string.simps [simp del]

lemma dec_string_ne [simp]: "dec_string n \<noteq> []"
  by (subst dec_string.simps) simp

lemma of_char_digit: "n < 10 \<Longrightarrow> (of_char (digit_char n) :: nat) = 48 + n"
proof -
  assume "n < 10"
  then have "n \<in> {0, 1, 2, 3, 4, 5, 6, 7, 8, 9}" by auto
  then show ?thesis by (auto simp: digit_char_def)
qed

lemma int_div_mod_10: "10 * int (n div 10) + int (n mod 10) = int n"
  using div_mult_mod_eq [of n 10] by (metis of_nat_add of_nat_mult of_nat_numeral mult.commute)

lemma is_digit_char: "n < 10 \<Longrightarrow> is_digit (digit_char n)"
  by (simp add: is_digit_def less_eq_char_def of_char_digit)

lemma digits_dec_string: "list_all is_digit (dec_string n)"
  by (induction n rule: dec_string.induct) (subst dec_string.simps, simp add: is_digit_char)

lemma dec_val_snoc: "dec_val (xs @ [c]) = 10 * dec_val xs + (int (of_char c) - 48)"
  by (simp add: dec_val_def)

lemma dec_val_dec_string [simp]: "dec_val (dec_string n) = int n"
proof (induction n rule: dec_string.induct)
  case (1 n)
  show ?case
  proof (cases "n < 10")
    case True
    then show ?thesis
      by (subst dec_string.simps) (simp add: dec_val_def of_char_digit)
  next
    case False
    then have "dec_val (dec_string n) = 10 * int (n div 10) + int (n mod 10)"
      using 1 by (subst dec_string.simps) (simp add: dec_val_snoc of_char_digit)
    also have "\<dots> = int n" by (rule int_div_mod_10)
    finally show ?thesis .
  qed
qed

lemma hd_dec_string: "0 < n \<Longrightarrow> CHR ''0'' < hd (dec_string n)"
proof (induction n rule: dec_string.induct)
  case (1 n)
  then show ?case
    by (subst dec_string.simps) (auto simp: less_char_def of_char_digit)
qed

lemma dec_string_0: "dec_string 0 = ''0''"
  by (subst dec_string.simps) (simp add: digit_char_def)

lemma js_array_index_int_string:
  assumes "0 \<le> y" "y < 4294967295"
  shows "js_array_index (js_int_string y)"
proof -
  have "nat y = 0 \<or> 0 < nat y" by auto
  then have "dec_string (nat y) = ''0'' \<or> CHR ''0'' < hd (dec_string (nat y))"
    using hd_dec_string dec_string_0 by auto
  then show ?thesis
    using assms by (simp add: js_array_index_def js_int_string_def digits_dec_string)
qed

lemma dec_val_int_string: "0 \<le> y \<Longrightarrow> dec_val (js_int_string y) = y"
  by (simp add: js_int_string_def)

lemma js_int_string_neg: "i < 0 \<Longrightarrow> js_int_string i = CHR ''-'' # dec_string (nat (- i))"
  and js_int_string_nonneg: "0 \<le> i \<Longrightarrow> js_int_string i = dec_string (nat i)"
  by (simp_all add: js_int_string_def)

lemma hd_dec_string_digit: "is_digit (hd (dec_string n))"
  using digits_dec_string [of n] dec_string_ne [of n] by (cases "dec_string n") auto

lemma js_int_string_inj_all: "js_int_string x = js_int_string y \<longleftrightarrow> x = y"
proof
  assume e: "js_int_string x = js_int_string y"
  have minus: "\<not> is_digit CHR ''-''" by (simp add: is_digit_def)
  show "x = y"
  proof (cases "x < 0"; cases "y < 0")
    assume "x < 0" "y < 0"
    then have "dec_val (dec_string (nat (- x))) = dec_val (dec_string (nat (- y)))"
      using e by (simp add: js_int_string_neg)
    with \<open>x < 0\<close> \<open>y < 0\<close> show ?thesis by simp
  next
    assume "\<not> x < 0" "\<not> y < 0"
    then show ?thesis using e dec_val_int_string by (metis not_less)
  next
    assume "x < 0" "\<not> y < 0"
    then have "dec_string (nat y) = CHR ''-'' # dec_string (nat (- x))"
      using e by (simp add: js_int_string_neg js_int_string_nonneg)
    then show ?thesis using hd_dec_string_digit [of "nat y"] minus by simp
  next
    assume "\<not> x < 0" "y < 0"
    then have "dec_string (nat x) = CHR ''-'' # dec_string (nat (- y))"
      using e by (simp add: js_int_string_neg js_int_string_nonneg)
    then show ?thesis using hd_dec_string_digit [of "nat x"] minus by simp
  qed
qed simp

lemma js_entries_index_sorted:
  assumes "\<forall>e \<in> set al. js_array_index (fst e)" and "sorted (map (\<lambda>e. dec_val (fst e)) al)"
  shows "js_entries al = al"
proof -
  have "filter (\<lambda>e. js_array_index (fst e)) al = al" and "filter (\<lambda>e. \<not> js_array_index (fst e)) al = []"
    using assms(1) by (simp_all add: filter_id_conv)
  then show ?thesis
    using assms(2) by (simp add: js_entries_def sort_key_id_if_sorted)
qed

lemma js_round_div_nonneg: "0 \<le> a \<Longrightarrow> 0 < b \<Longrightarrow> 0 \<le> js_round_div a b"
  by (simp add: js_round_div_def pos_imp_zdiv_nonneg_iff)

lemma js_round_div_le:
  assumes "a \<le> k * b" and "0 < b"
  shows "js_round_div a b \<le> k"
proof -
  let ?x = "2 * a + b" and ?y = "2 * b"
  have y: "0 < ?y" using assms(2) by simp
  have "?x div ?y * ?y = ?x - ?x mod ?y"
    by (simp add: minus_mod_eq_mult_div mult.commute)
  also have "\<dots> \<le> ?x" using y by simp
  also have "?x < (k + 1) * ?y" using assms by (simp add: algebra_simps)
  finally have "?x div ?y < k + 1"
    using y by (simp add: mult_less_cancel_right)
  then show ?thesis by (simp add: js_round_div_def)
qed

lemma js_round_div_ge:
  assumes "k * b \<le> a" and "0 < b"
  shows "k \<le> js_round_div a b"
proof -
  have y: "0 < 2 * b" using assms(2) by simp
  have "k * (2 * b) \<le> 2 * a + b" using assms by (simp add: algebra_simps)
  then have "k * (2 * b) div (2 * b) \<le> (2 * a + b) div (2 * b)"
    using y by (rule zdiv_mono1)
  then show ?thesis using y by (simp add: js_round_div_def)
qed

lemma map_of_al_modify:
  "map_of (al_modify al k i f) x = (if x = k then Some (f (case map_of al k of None \<Rightarrow> i | Some v \<Rightarrow> v)) else map_of al x)"
  by (induction al) auto

lemma keys_al_modify: "fst ` set (al_modify al k i f) = insert k (fst ` set al)"
  by (induction al k i f rule: al_modify.induct) auto

lemma distinct_al_modify: "distinct (map fst al) \<Longrightarrow> distinct (map fst (al_modify al k i f))"
proof (induction al k i f rule: al_modify.induct)
  case (2 k' v al k i f)
  have "k' \<notin> fst ` set (al_modify al k i f)" if "k' \<noteq> k"
    using 2 that by (simp add: keys_al_modify)
  with 2 show ?case by auto
qed simp

lemma count_list_map: "count_list (map f xs) y = length (filter (\<lambda>x. f x = y) xs)"
  by (induction xs) auto

lemma sum_list_le_const: "(\<And>x. x \<in> set xs \<Longrightarrow> f x \<le> (D::int)) \<Longrightarrow> sum_list (map f xs) \<le> D * int (length xs)"
proof (induction xs)
  case (Cons a xs)
  then have "f a \<le> D" and "sum_list (map f xs) \<le> D * int (length xs)" by simp_all
  then show ?case by (simp add: algebra_simps)
qed simp

section \<open>Folds over event and key lists\<close>

text \<open>Invariants and frame facts of a \<open>foldl\<close>, the shape of every \<open>forEach\<close> loop
  that threads state.\<close>

lemma foldl_invariant: "(\<And>s x. P s \<Longrightarrow> P (f s x)) \<Longrightarrow> P s \<Longrightarrow> P (foldl f s xs)"
  by (induction xs arbitrary: s) auto

lemma foldl_id: "(\<And>s x. P s \<Longrightarrow> f s x = s) \<Longrightarrow> P s \<Longrightarrow> foldl f s xs = s"
  by (induction xs) auto

lemma mset_map_js_sort [simp]: "mset (map f (js_sort cmp xs)) = mset (map f xs)"
  by (metis mset_js_sort mset_map)

lemma foldl_bucket:
  assumes step: "\<And>c b. length c = n \<Longrightarrow> step c b = (case g b of Some i \<Rightarrow> c[i := Suc (c ! i)] | None \<Rightarrow> c)"
    and rng: "\<And>b i. g b = Some i \<Longrightarrow> i < n"
    and len: "length c0 = n"
  shows "length (foldl step c0 bs) = n \<and>
         (\<forall>i < n. foldl step c0 bs ! i = c0 ! i + length (filter (\<lambda>b. g b = Some i) bs))"
  using len
proof (induction bs arbitrary: c0)
  case Nil
  then show ?case by simp
next
  case (Cons b bs)
  let ?c1 = "step c0 b"
  have l1: "length ?c1 = n"
    using Cons.prems step [OF Cons.prems] rng by (simp split: option.splits)
  have c1: "\<forall>i < n. ?c1 ! i = c0 ! i + (if g b = Some i then 1 else 0)"
    using Cons.prems step [OF Cons.prems] rng by (auto simp: nth_list_update split: option.splits)
  show ?case
    using Cons.IH [OF l1] c1 by auto
qed

lemma map_of_foldl_modify:
  "map_of (foldl (\<lambda>m b. if Q b then m else al_modify m (key b) i (g b)) [] bs) a =
   (if \<exists>b \<in> set bs. \<not> Q b \<and> key b = a
    then Some (foldl (\<lambda>d b. g b d) i (filter (\<lambda>b. \<not> Q b \<and> key b = a) bs)) else None)"
proof (induction bs rule: rev_induct)
  case (snoc b bs)
  then show ?case by (auto simp: map_of_al_modify)
qed simp

end
