(* ===== verification/Books.thy ===== *)
theory Books
  imports Prelude
begin

text \<open>
  The data model of \<open>src/app.js\<close>: the book objects written by \<open>saveBook\<close> and the
  importers, the collection objects of \<open>saveCollection\<close>, and the settings object.
  JavaScript objects are loosely typed; the record fields carry the values the code
  writes, and a missing field is its falsy default (\<open>''''\<close>, \<open>0\<close>, \<open>False\<close>,
  \<open>[]\<close>), which is how every reader in the code treats it (\<open>b.rating || 0\<close>,
  \<open>b.tags || []\<close>, \<open>b.dateRead || ''''\<close>).
\<close>

section \<open>Books\<close>

text \<open>The five values of the status select and of \<open>statusLabel\<close>.\<close>

datatype status = Want | Reading | Read | Dnf | Borrowed

fun status_label :: "status \<Rightarrow> string" where
  "status_label Want = ''Want to Read''"
| "status_label Reading = ''Reading''"
| "status_label Read = ''Read''"
| "status_label Dnf = ''DNF''"
| "status_label Borrowed = ''Borrowed''"

record book =
  book_id :: string
  title :: string
  author :: string
  genre :: string
  isbn :: string
  status :: status
  dateRead :: string
  dateStarted :: string
  tags :: "string list"
  pages :: int
  pagesRead :: int
  rating :: int
  ownPhysical :: bool
  ownDigital :: bool
  ownBorrowed :: bool
  copies :: int
  borrowedFrom :: string
  book_notes :: string
  coverUrl :: string
  collections :: "string list"
  description :: string
  dateAdded :: int
  updatedAt :: int

text \<open>A book object with every field at its falsy default; the status of a book the
  code creates is always set, \<open>Want\<close> being the form's default.\<close>

definition default_book :: book where
  "default_book =
     \<lparr>book_id = [], title = [], author = [], genre = [], isbn = [], status = Want,
      dateRead = [], dateStarted = [], tags = [], pages = 0, pagesRead = 0, rating = 0,
      ownPhysical = False, ownDigital = False, ownBorrowed = False, copies = 0,
      borrowedFrom = [], book_notes = [], coverUrl = [], collections = [], description = [],
      dateAdded = 0, updatedAt = 0\<rparr>"

section \<open>Collections\<close>

record collection =
  col_id :: string
  col_name :: string
  emoji :: string
  createdAt :: int

section \<open>Settings\<close>

text \<open>
  The settings object is shallow-merged (\<open>{ ...settings, ...other }\<close>) with the
  remote document, the local-storage copy and imported backups, so a field may be
  absent: each field is an option, and the merge takes the right-hand value where it is
  present.
\<close>

record settings =
  theme :: "string option"
  goal :: "int option"
  goalYear :: "int option"
  displayName :: "string option"

definition initial_settings :: "int \<Rightarrow> settings" where
  "initial_settings year =
     \<lparr>theme = Some ''dark'', goal = Some 0, goalYear = Some year, displayName = None\<rparr>"

definition merge_opt :: "'a option \<Rightarrow> 'a option \<Rightarrow> 'a option" where
  "merge_opt a b = (case b of Some v \<Rightarrow> Some v | None \<Rightarrow> a)"

definition merge_settings :: "settings \<Rightarrow> settings \<Rightarrow> settings" where
  "merge_settings s d =
     \<lparr>theme = merge_opt (theme s) (theme d), goal = merge_opt (goal s) (goal d),
      goalYear = merge_opt (goalYear s) (goalYear d),
      displayName = merge_opt (displayName s) (displayName d)\<rparr>"

definition THEMES :: "string list" where
  "THEMES = [''dark'', ''light'', ''midnight'', ''forest'', ''rose'', ''slate'']"

text \<open>\<open>applyTheme\<close>: the theme actually shown; an unknown or missing theme shows as dark.\<close>

definition applied_theme :: "settings \<Rightarrow> string" where
  "applied_theme s =
     (case theme s of Some t \<Rightarrow> if t \<in> set THEMES then t else ''dark'' | None \<Rightarrow> ''dark'')"

lemma merge_opt_simps [simp]:
  "merge_opt a None = a" "merge_opt a (Some v) = Some v"
  by (simp_all add: merge_opt_def)

lemma merge_settings_assoc:
  "merge_settings (merge_settings a b) c = merge_settings a (merge_settings b c)"
  by (simp add: merge_settings_def merge_opt_def split: option.splits)

lemma merge_settings_idem [simp]: "merge_settings (merge_settings a b) b = merge_settings a b"
  by (simp add: merge_settings_def merge_opt_def split: option.splits)

lemma merge_settings_self [simp]: "merge_settings x x = x"
  by (simp add: merge_settings_def merge_opt_def split: option.splits)

lemma applied_theme_in_THEMES: "applied_theme s \<in> set THEMES"
  by (simp add: applied_theme_def THEMES_def split: option.splits)

end
