(* ===== verification/Stats.thy ===== *)
theory Stats
  imports Complex_Main Books
begin


text \<open>
  The statistics aggregator of \<open>src/app.js\<close>: the counts and goal progress of
  \<open>refreshDashboard\<close>, and every aggregate of \<open>renderStats\<close> (average rating, year and
  month histograms, genre and author rankings, rating distribution, best-rated leaderboard,
  per-author data, pages, reading pace, formats). The charts' HTML is not modelled; each
  aggregate is the list or number it is drawn from.
\<close>


section \<open>Dashboard\<close>

definition read_books :: "book list \<Rightarrow> book list" where
  "read_books bs = filter (\<lambda>b. status b = Read) bs"

text \<open>\<open>b.dateRead && b.dateRead.startsWith(year.toString())\<close>.\<close>

definition read_in_year :: "int \<Rightarrow> book list \<Rightarrow> book list" where
  "read_in_year y bs = filter (\<lambda>b. dateRead b \<noteq> [] \<and> prefix (js_int_string y) (dateRead b)) (read_books bs)"

datatype goal_view = NoGoal | GoalProgress int nat int int

definition goal_view :: "int \<Rightarrow> nat \<Rightarrow> goal_view" where
  "goal_view g n =
     (if 0 < g then GoalProgress (min 100 (js_round_div (100 * int n) g)) n g (g - int n) else NoGoal)"

record dashboard =
  d_total :: nat
  d_read :: nat
  d_read_year :: nat
  d_reading :: nat
  d_want :: nat
  d_goal :: goal_view

definition dashboard :: "int \<Rightarrow> settings \<Rightarrow> book list \<Rightarrow> dashboard" where
  "dashboard y st bs =
     \<lparr>d_total = length bs, d_read = length (read_books bs), d_read_year = length (read_in_year y bs),
      d_reading = length (filter (\<lambda>b. status b = Reading) bs),
      d_want = length (filter (\<lambda>b. status b = Want) bs),
      d_goal = goal_view (or_zero (goal st)) (length (read_in_year y bs))\<rparr>"

definition reading_progress :: "book \<Rightarrow> int" where
  "reading_progress b =
     (if pages b \<noteq> 0 \<and> pagesRead b \<noteq> 0 then js_round_div (100 * pagesRead b) (pages b) else 0)"

definition collection_count :: "book list \<Rightarrow> collection \<Rightarrow> nat" where
  "collection_count bs c = length (filter (\<lambda>b. col_id c \<in> set (collections b)) bs)"

section \<open>Statistics page\<close>

definition rated_read :: "book list \<Rightarrow> book list" where
  "rated_read bs = filter (\<lambda>b. rating b \<noteq> 0 \<and> 0 < rating b) (read_books bs)"

definition avg_rating :: "book list \<Rightarrow> rat option" where
  "avg_rating bs =
     (let r = rated_read bs in
      if r = [] then None else Some (Fract (sum_list (map rating r)) (int (length r))))"

definition genre_total :: "book list \<Rightarrow> nat" where
  "genre_total bs = length (remdups (filter (\<lambda>g. g \<noteq> []) (map genre (read_books bs))))"

text \<open>\<open>if (m[k] !== undefined) m[k]++\<close>: only keys already present are counted.\<close>

fun al_incr_present :: "('k \<times> nat) list \<Rightarrow> 'k \<Rightarrow> ('k \<times> nat) list" where
  "al_incr_present [] k = []"
| "al_incr_present ((k', n) # al) k =
     (if k' = k then (k', Suc n) # al else (k', n) # al_incr_present al k)"

definition year_of :: "book \<Rightarrow> int option" where
  "year_of b = js_parse_int (take 4 (dateRead b))"

definition year_chart :: "int \<Rightarrow> book list \<Rightarrow> (string \<times> nat) list" where
  "year_chart cur bs =
     js_entries (foldl (\<lambda>m b. if dateRead b = [] then m
                              else case year_of b of None \<Rightarrow> m | Some y \<Rightarrow> al_incr_present m (js_int_string y))
                  (map (\<lambda>y. (js_int_string y, 0)) [cur - 4..cur]) (read_books bs))"

definition month_of :: "book \<Rightarrow> int option" where
  "month_of b = js_parse_int (take 2 (drop 5 (dateRead b)))"

definition month_chart :: "int \<Rightarrow> book list \<Rightarrow> nat list" where
  "month_chart cur bs =
     foldl (\<lambda>c b. if dateRead b \<noteq> [] \<and> prefix (js_int_string cur) (dateRead b) then
                    (case month_of b of
                       None \<Rightarrow> c
                     | Some m \<Rightarrow> if 0 \<le> m - 1 \<and> m - 1 < 12 then c[nat (m - 1) := Suc (c ! nat (m - 1))] else c)
                  else c)
       (replicate 12 0) (read_books bs)"

definition top_genres :: "book list \<Rightarrow> (string \<times> nat) list" where
  "top_genres bs = top_counts 6 (filter (\<lambda>g. g \<noteq> []) (map genre (read_books bs)))"

definition top_authors :: "book list \<Rightarrow> (string \<times> nat) list" where
  "top_authors bs = top_counts 5 (filter (\<lambda>a. a \<noteq> []) (map author (read_books bs)))"


fun board_cmp :: "book \<Rightarrow> book \<Rightarrow> int" where
  "board_cmp a b =
     (if rating b \<noteq> rating a then rating b - rating a else locale_compare (dateRead b) (dateRead a))"

definition leaderboard :: "book list \<Rightarrow> book list" where
  "leaderboard bs = take 10 (js_sort board_cmp (filter (\<lambda>b. 0 < rating b) (read_books bs)))"

text \<open>\<open>authorData\<close>: one record per author, created on first sight.\<close>

record author_stat =
  a_count :: nat
  a_books :: "book list"
  a_total :: int
  a_rated :: nat

definition empty_stat :: author_stat where
  "empty_stat = \<lparr>a_count = 0, a_books = [], a_total = 0, a_rated = 0\<rparr>"

definition add_book :: "book \<Rightarrow> author_stat \<Rightarrow> author_stat" where
  "add_book b d =
     d\<lparr>a_count := Suc (a_count d), a_books := a_books d @ [b],
       a_total := (if rating b \<noteq> 0 then a_total d + rating b else a_total d),
       a_rated := (if rating b \<noteq> 0 then Suc (a_rated d) else a_rated d)\<rparr>"

definition author_stats :: "book list \<Rightarrow> (string \<times> author_stat) list" where
  "author_stats bs =
     foldl (\<lambda>m b. if author b = [] then m else al_modify m (author b) empty_stat (add_book b))
       [] (read_books bs)"

definition most_read_authors :: "book list \<Rightarrow> (string \<times> author_stat) list" where
  "most_read_authors bs =
     take 8 (js_sort (\<lambda>a b. int (a_count (snd b)) - int (a_count (snd a))) (js_entries (author_stats bs)))"

definition author_avg :: "author_stat \<Rightarrow> rat option" where
  "author_avg d = (if a_rated d = 0 then None else Some (Fract (a_total d) (int (a_rated d))))"

text \<open>\<open>new Date(s)\<close> on the date strings the app stores: the ISO date-only forms
  \<open>YYYY\<close>, \<open>YYYY-MM\<close>, \<open>YYYY-MM-DD\<close> (UTC), and \<open>YYYY/MM/DD\<close> as exported by Goodreads, which
  browsers read as local midnight (the time zone is taken to be UTC). A day beyond the
  month's end rolls over into the next month, as \<open>MakeDay\<close> does.\<close>

definition days_from_civil :: "int \<Rightarrow> int \<Rightarrow> int \<Rightarrow> int" where
  "days_from_civil y m d =
     (let y' = (if m \<le> 2 then y - 1 else y); era = y' div 400; yoe = y' - era * 400;
          mp = (m + 9) mod 12; doy = (153 * mp + 2) div 5 + d - 1;
          doe = yoe * 365 + yoe div 4 - yoe div 100 + doy
      in era * 146097 + doe - 719468)"

definition digits_val :: "string \<Rightarrow> int option" where
  "digits_val s = (if s \<noteq> [] \<and> list_all is_digit s then Some (dec_val s) else None)"

definition date_fields :: "string \<Rightarrow> (int \<times> int \<times> int) option" where
  "date_fields s =
     (if length s = 4 then map_option (\<lambda>y. (y, 1, 1)) (digits_val s)
      else if length s = 7 \<and> s ! 4 = CHR ''-'' then
        (case (digits_val (take 4 s), digits_val (drop 5 s)) of
           (Some y, Some m) \<Rightarrow> Some (y, m, 1)
         | _ \<Rightarrow> None)
      else if length s = 10 \<and> ((s ! 4 = CHR ''-'' \<and> s ! 7 = CHR ''-'') \<or> (s ! 4 = CHR ''/'' \<and> s ! 7 = CHR ''/'')) then
        (case (digits_val (take 4 s), digits_val (take 2 (drop 5 s)), digits_val (drop 8 s)) of
           (Some y, Some m, Some d) \<Rightarrow> Some (y, m, d)
         | _ \<Rightarrow> None)
      else None)"

definition date_day :: "string \<Rightarrow> int option" where
  "date_day s =
     (case date_fields s of
        Some (y, m, d) \<Rightarrow> if 1 \<le> m \<and> m \<le> 12 \<and> 1 \<le> d \<and> d \<le> 31 then Some (days_from_civil y m d) else None
      | None \<Rightarrow> None)"

text \<open>\<open>diff = (new Date(dateRead) - new Date(dateStarted)) / 86400000\<close>, counted when
  positive: an unparsable date gives NaN, which counts as 0.\<close>

definition span_days :: "book \<Rightarrow> int" where
  "span_days b =
     (case (date_day (dateRead b), date_day (dateStarted b)) of
        (Some r, Some s) \<Rightarrow> if 0 < r - s then r - s else 0
      | _ \<Rightarrow> 0)"

definition avg_days :: "book list \<Rightarrow> int" where
  "avg_days bs =
     (let w = filter (\<lambda>b. dateStarted b \<noteq> [] \<and> dateRead b \<noteq> []) (read_books bs) in
      if w = [] then 0 else js_round_div (sum_list (map span_days w)) (int (length w)))"

definition total_pages :: "book list \<Rightarrow> int" where
  "total_pages bs = sum_list (map pages (read_books bs))"


section \<open>Chart scaling\<close>










section \<open>Sample libraries\<close>

definition stats_sample :: "book list" where
  "stats_sample =
     [default_book\<lparr>book_id := ''s1'', status := Read, author := ''Le Guin'', genre := ''SF'', rating := 4,
                   dateRead := ''2026-05-02''\<rparr>,
      default_book\<lparr>book_id := ''s2'', status := Read, author := ''Le Guin'', genre := ''SF'',
                   dateRead := ''2025-11-20''\<rparr>,
      default_book\<lparr>book_id := ''s3'', status := Read, author := ''Eco'', genre := ''Mystery'', rating := 5,
                   dateRead := ''2026-05-14''\<rparr>,
      default_book\<lparr>book_id := ''s4'', status := Reading, author := ''Eco'', genre := ''Essay''\<rparr>]"

definition board_sample :: "book list" where
  "board_sample =
     map (\<lambda>i. default_book\<lparr>book_id := js_int_string i, status := Read, rating := (if i = 11 then 2 else 4)\<rparr>)
       [1..11]"

definition pace_sample :: "book list" where
  "pace_sample =
     [default_book\<lparr>book_id := ''p1'', status := Read, dateStarted := ''2024-01-11'', dateRead := ''2024-01-01''\<rparr>,
      default_book\<lparr>book_id := ''p2'', status := Read, dateStarted := ''2024-01-01'', dateRead := ''2024-01-21''\<rparr>]"



section \<open>Helper lemmas\<close>

lemma al_incr_present_map:
  "distinct ks \<Longrightarrow>
   al_incr_present (map (\<lambda>k. (k, c k)) ks) x = map (\<lambda>k. (k, if k = x then Suc (c k) else c k)) ks"
  by (induction ks) auto

lemma foldl_al_incr_present:
  assumes "distinct ks"
  shows "foldl (\<lambda>m b. case f b of None \<Rightarrow> m | Some k \<Rightarrow> al_incr_present m k) (map (\<lambda>k. (k, c k)) ks) bs =
         map (\<lambda>k. (k, c k + length (filter (\<lambda>b. f b = Some k) bs))) ks"
proof (induction bs arbitrary: c)
  case Nil
  then show ?case by simp
next
  case (Cons b bs)
  show ?case
  proof (cases "f b")
    case None
    then show ?thesis using Cons.IH [of c] by simp
  next
    case (Some x)
    then show ?thesis
      using Cons.IH [of "\<lambda>k. if k = x then Suc (c k) else c k"] assms
      by (simp add: al_incr_present_map)
  qed
qed

lemma month_step:
  "length c = 12 \<Longrightarrow>
   (if dateRead b \<noteq> [] \<and> prefix (js_int_string cur) (dateRead b) then
      (case month_of b of
         None \<Rightarrow> c
       | Some m \<Rightarrow> if 0 \<le> m - 1 \<and> m - 1 < 12 then c[nat (m - 1) := Suc (c ! nat (m - 1))] else c)
    else c) =
   (case (if dateRead b \<noteq> [] \<and> prefix (js_int_string cur) (dateRead b) then
            (case month_of b of None \<Rightarrow> None | Some m \<Rightarrow> if 1 \<le> m \<and> m \<le> 12 then Some (nat (m - 1)) else None)
          else None) of
      Some i \<Rightarrow> c[i := Suc (c ! i)] | None \<Rightarrow> c)"
  by (simp split: option.splits)


lemma board_cmp_le: "board_cmp a b \<le> 0 \<longleftrightarrow> rating b < rating a \<or> (rating a = rating b \<and> dateRead b \<le> dateRead a)"
  by auto

lemma board_cmp_weak_order: "cmp_weak_order board_cmp"
  unfolding cmp_weak_order_def board_cmp_le by auto

lemma foldl_add_book:
  "foldl (\<lambda>d b. add_book b d) d0 xs =
   d0\<lparr>a_count := a_count d0 + length xs, a_books := a_books d0 @ xs,
      a_total := a_total d0 + sum_list (map rating (filter (\<lambda>b. rating b \<noteq> 0) xs)),
      a_rated := a_rated d0 + length (filter (\<lambda>b. rating b \<noteq> 0) xs)\<rparr>"
  by (induction xs arbitrary: d0) (simp_all add: add_book_def)

lemma span_days_nonneg: "0 \<le> span_days b"
  by (simp add: span_days_def split: option.splits)


text \<open>The progress shown for a book being read is not clamped: more pages read than the
  book has gives more than 100 percent.\<close>

lemma reading_progress_unclamped:
  "reading_progress (default_book\<lparr>pages := 200, pagesRead := 300\<rparr>) = 150"
  by (simp add: reading_progress_def js_round_div_def)








section \<open>Properties of the statistics\<close>


text \<open>C17. Yearly histogram: for a current year between 4 and 2^32 - 2, the chart has exactly five buckets, the years from \<open>cur - 4\<close> to \<open>cur\<close> in ascending order (the integer keys of \<open>yearCounts\<close> come out of \<open>Object.entries\<close> in numeric order), each counting the read books whose \<open>dateRead\<close> starts with that year.\<close>

theorem year_chart_spec:
  assumes "4 \<le> cur" and "cur < 4294967295"
  shows "year_chart cur bs =
           map (\<lambda>y. (js_int_string y, length (filter (\<lambda>b. dateRead b \<noteq> [] \<and> year_of b = Some y) (read_books bs))))
             [cur - 4..cur] \<and>
         length (year_chart cur bs) = 5"
proof -
  let ?ys = "[cur - 4..cur]"
  let ?f = "\<lambda>b. if dateRead b = [] then None else map_option js_int_string (year_of b)"
  have step: "(\<lambda>m b. if dateRead b = [] then m
                   else case year_of b of None \<Rightarrow> m | Some y \<Rightarrow> al_incr_present m (js_int_string y)) =
              (\<lambda>m b. case ?f b of None \<Rightarrow> m | Some k \<Rightarrow> al_incr_present m k)"
    by (intro ext) (simp split: option.splits)
  have d: "distinct (map js_int_string ?ys)"
    by (simp add: distinct_map inj_on_def js_int_string_inj_all)
  have init: "map (\<lambda>y. (js_int_string y, 0::nat)) ?ys = map (\<lambda>k. (k, (\<lambda>_. 0) k)) (map js_int_string ?ys)"
    by simp
  have cnt: "\<And>y. filter (\<lambda>b. ?f b = Some (js_int_string y)) bs' =
                 filter (\<lambda>b. dateRead b \<noteq> [] \<and> year_of b = Some y) bs'" for bs'
    by (rule filter_cong) (auto simp: js_int_string_inj_all)
  have fold: "foldl (\<lambda>m b. if dateRead b = [] then m
                   else case year_of b of None \<Rightarrow> m | Some y \<Rightarrow> al_incr_present m (js_int_string y))
                (map (\<lambda>y. (js_int_string y, 0)) ?ys) (read_books bs) =
              map (\<lambda>y. (js_int_string y, length (filter (\<lambda>b. dateRead b \<noteq> [] \<and> year_of b = Some y) (read_books bs)))) ?ys"
    unfolding step init foldl_al_incr_present [OF d] by (simp add: cnt)
  have idx: "\<forall>e \<in> set (map (\<lambda>y. (js_int_string y, n y)) ?ys). js_array_index (fst e)" for n :: "int \<Rightarrow> nat"
    using assms by (auto intro: js_array_index_int_string)
  have srt: "sorted (map (\<lambda>e. dec_val (fst e)) (map (\<lambda>y. (js_int_string y, n y)) ?ys))" for n :: "int \<Rightarrow> nat"
  proof -
    have "map (\<lambda>e. dec_val (fst e)) (map (\<lambda>y. (js_int_string y, n y)) ?ys) = ?ys"
      unfolding map_map by (intro map_idI) (use assms in \<open>simp add: dec_val_int_string\<close>)
    then show ?thesis by simp
  qed
  show ?thesis
    unfolding year_chart_def fold js_entries_index_sorted [OF idx srt] by simp
qed

theorem year_chart_spec_witness:
  "4 \<le> (2026::int) \<and> (2026::int) < 4294967295 \<and>
   map fst (year_chart 2026 stats_sample) = [''2022'', ''2023'', ''2024'', ''2025'', ''2026''] \<and>
   length (year_chart 2026 stats_sample) = 5"
proof -
  have h: "4 \<le> (2026::int)" "(2026::int) < 4294967295" by simp_all
  have "map fst (year_chart 2026 stats_sample) = map js_int_string [2022..2026]"
    using year_chart_spec [OF h, of stats_sample] by (simp add: comp_def)
  also have "\<dots> = [''2022'', ''2023'', ''2024'', ''2025'', ''2026'']"
    by (simp add: upto.simps js_int_string_def dec_string.simps digit_char_def)
  finally show ?thesis using h year_chart_spec [OF h, of stats_sample] by simp
qed

text \<open>Monthly histogram: there are twelve buckets, and bucket \<open>i\<close> counts the read books of the current year whose month field (characters 5-6 of \<open>dateRead\<close>) parses to \<open>i + 1\<close>; other month values are dropped.\<close>

lemma month_chart_spec:
  assumes "i < 12"
  shows "length (month_chart cur bs) = 12 \<and>
         month_chart cur bs ! i =
           length (filter (\<lambda>b. dateRead b \<noteq> [] \<and> prefix (js_int_string cur) (dateRead b) \<and>
                                month_of b = Some (int i + 1)) (read_books bs))"
proof -
  let ?g = "\<lambda>b. if dateRead b \<noteq> [] \<and> prefix (js_int_string cur) (dateRead b) then
            (case month_of b of None \<Rightarrow> None | Some m \<Rightarrow> if 1 \<le> m \<and> m \<le> 12 then Some (nat (m - 1)) else None)
          else None"
  have rng: "?g b = Some j \<Longrightarrow> j < 12" for b j
    by (auto split: if_splits option.splits)
  let ?step = "\<lambda>c b. if dateRead b \<noteq> [] \<and> prefix (js_int_string cur) (dateRead b) then
                    (case month_of b of
                       None \<Rightarrow> c
                     | Some m \<Rightarrow> if 0 \<le> m - 1 \<and> m - 1 < 12 then c[nat (m - 1) := Suc (c ! nat (m - 1))] else c)
                  else c"
  have fb: "length (foldl ?step (replicate 12 0) (read_books bs)) = 12 \<and>
      (\<forall>i < 12. foldl ?step (replicate 12 0) (read_books bs) ! i =
                replicate 12 0 ! i + length (filter (\<lambda>b. ?g b = Some i) (read_books bs)))"
    by (rule foldl_bucket [where g = ?g]) (simp_all only: month_step rng length_replicate)
  have "filter (\<lambda>b. ?g b = Some i) (read_books bs) =
        filter (\<lambda>b. dateRead b \<noteq> [] \<and> prefix (js_int_string cur) (dateRead b) \<and> month_of b = Some (int i + 1))
          (read_books bs)"
    using assms by (intro filter_cong) (auto split: option.splits)
  then show ?thesis
    using fb assms by (simp add: month_chart_def)
qed

theorem month_chart_spec_witness:
  "(4::nat) < 12 \<and> month_chart 2026 stats_sample ! 4 = 2"
proof -
  have h: "(4::nat) < 12" by simp
  have "length (filter (\<lambda>b. dateRead b \<noteq> [] \<and> prefix (js_int_string 2026) (dateRead b) \<and>
                            month_of b = Some (int 4 + 1)) (read_books stats_sample)) = 2"
    by code_simp
  then show ?thesis using month_chart_spec [OF h, of 2026 stats_sample] by simp
qed





text \<open>Best-rated leaderboard: a rated read book left out of the ten shown ranks no higher than any book shown, ranking by rating and then by \<open>dateRead\<close>, both descending.\<close>

lemma leaderboard_top:
  assumes "b \<in> set (read_books bs)" and "0 < rating b" and "b \<notin> set (leaderboard bs)"
    and "x \<in> set (leaderboard bs)"
  shows "rating b < rating x \<or> (rating x = rating b \<and> dateRead b \<le> dateRead x)"
proof -
  let ?S = "js_sort board_cmp (filter (\<lambda>b. 0 < rating b) (read_books bs))"
  have bS: "b \<in> set ?S" using assms(1,2) by simp
  have bD: "b \<in> set (drop 10 ?S)"
    using bS assms(3) unfolding leaderboard_def by (metis Un_iff append_take_drop_id set_append)
  have xT: "x \<in> set (take 10 ?S)" using assms(4) by (simp add: leaderboard_def)
  have "sorted_wrt (\<lambda>a b. board_cmp a b \<le> 0) ?S"
    by (rule sorted_js_sort [OF board_cmp_weak_order])
  from sorted_wrt_take_drop [OF this xT bD] show ?thesis
    by (simp only: board_cmp_le)
qed

theorem leaderboard_top_witness:
  "default_book\<lparr>book_id := ''11'', status := Read, rating := 2\<rparr> \<in> set (read_books board_sample) \<and>
   0 < rating (default_book\<lparr>book_id := ''11'', status := Read, rating := 2\<rparr>) \<and>
   default_book\<lparr>book_id := ''11'', status := Read, rating := 2\<rparr> \<notin> set (leaderboard board_sample) \<and>
   default_book\<lparr>book_id := ''1'', status := Read, rating := 4\<rparr> \<in> set (leaderboard board_sample) \<and>
   rating (default_book\<lparr>book_id := ''11'', status := Read, rating := 2\<rparr>) <
     rating (default_book\<lparr>book_id := ''1'', status := Read, rating := 4\<rparr>)"
proof -
  have h: "default_book\<lparr>book_id := ''11'', status := Read, rating := 2\<rparr> \<in> set (read_books board_sample)"
    "0 < rating (default_book\<lparr>book_id := ''11'', status := Read, rating := 2\<rparr>)"
    "default_book\<lparr>book_id := ''11'', status := Read, rating := 2\<rparr> \<notin> set (leaderboard board_sample)"
    "default_book\<lparr>book_id := ''1'', status := Read, rating := 4\<rparr> \<in> set (leaderboard board_sample)"
    by code_simp+
  show ?thesis using h leaderboard_top [OF h] by simp
qed

text \<open>Genre ranking: every genre shown is non-empty and carries the number of read books of that genre; at most six are shown, in descending order of count.\<close>

lemma top_genres_spec:
  assumes "(g, c) \<in> set (top_genres bs)"
  shows "g \<noteq> [] \<and> c = length (filter (\<lambda>b. genre b = g) (read_books bs)) \<and> length (top_genres bs) \<le> 6 \<and>
         sorted_wrt (\<lambda>x y. snd y \<le> snd x) (top_genres bs)"
proof -
  let ?L = "filter (\<lambda>g. g \<noteq> []) (map genre (read_books bs))"
  have "(g, c) \<in> set (top_counts 6 ?L)"
    using assms by (simp add: top_genres_def)
  from top_counts_mem [OF this] have m: "g \<in> set ?L \<and> c = count_list ?L g" .
  then have "c = count_list (map genre (read_books bs)) g"
    by (simp add: count_list_filter_pos)
  then show ?thesis
    using m by (simp add: top_genres_def count_list_map length_top_counts sorted_top_counts)
qed


text \<open>Most-read authors: each of the (at most eight) entries holds exactly that author's read books, in list order, their count, and the sum and count of their non-zero ratings; the average is defined exactly when some book is rated, so the division is guarded.\<close>

lemma most_read_authors_spec:
  assumes "(a, d) \<in> set (most_read_authors bs)"
  shows "a \<noteq> [] \<and> a_books d = filter (\<lambda>b. author b = a) (read_books bs) \<and> a_count d = length (a_books d) \<and>
         a_rated d = length (filter (\<lambda>b. rating b \<noteq> 0) (a_books d)) \<and>
         a_total d = sum_list (map rating (filter (\<lambda>b. rating b \<noteq> 0) (a_books d))) \<and>
         (author_avg d = None \<longleftrightarrow> a_rated d = 0) \<and> length (most_read_authors bs) \<le> 8"
proof -
  let ?st = "\<lambda>m b. if author b = [] then m else al_modify m (author b) empty_stat (add_book b)"
  have dist: "distinct (map fst (author_stats bs))"
    unfolding author_stats_def
    by (rule foldl_invariant [where P = "\<lambda>m. distinct (map fst m)"]) (simp_all add: distinct_al_modify)
  have "(a, d) \<in> set (author_stats bs)"
    using assms by (auto simp: most_read_authors_def dest: in_set_takeD)
  then have "map_of (author_stats bs) a = Some d"
    using dist by simp
  moreover have "map_of (author_stats bs) a =
      (if \<exists>b \<in> set (read_books bs). author b \<noteq> [] \<and> author b = a
       then Some (foldl (\<lambda>d b. add_book b d) empty_stat (filter (\<lambda>b. author b \<noteq> [] \<and> author b = a) (read_books bs)))
       else None)"
    unfolding author_stats_def
    by (rule map_of_foldl_modify [where Q = "\<lambda>b. author b = []" and key = author])
  ultimately have ne: "a \<noteq> []" and
    d: "d = foldl (\<lambda>d b. add_book b d) empty_stat (filter (\<lambda>b. author b \<noteq> [] \<and> author b = a) (read_books bs))"
    by (auto split: if_splits)
  have f: "filter (\<lambda>b. author b \<noteq> [] \<and> author b = a) (read_books bs) = filter (\<lambda>b. author b = a) (read_books bs)"
    using ne by (intro filter_cong) auto
  show ?thesis
    using ne unfolding d f foldl_add_book
    by (simp add: empty_stat_def author_avg_def most_read_authors_def)
qed

theorem most_read_authors_spec_witness:
  "(''Le Guin'', \<lparr>a_count = 2, a_books = take 2 stats_sample, a_total = 4, a_rated = 1\<rparr>)
     \<in> set (most_read_authors stats_sample) \<and>
   author_avg \<lparr>a_count = 2, a_books = take 2 stats_sample, a_total = 4, a_rated = 1\<rparr> = Some 4"
proof -
  have h: "(''Le Guin'', \<lparr>a_count = 2, a_books = take 2 stats_sample, a_total = 4, a_rated = 1\<rparr>)
     \<in> set (most_read_authors stats_sample)" by code_simp
  have "author_avg \<lparr>a_count = 2, a_books = take 2 stats_sample, a_total = 4, a_rated = 1\<rparr> = Some 4"
    by code_simp
  then show ?thesis using h most_read_authors_spec [OF h] by simp
qed

text \<open>Reading pace: the average number of days per book is never negative and never above the longest span; a negative span (read before started) counts as 0 days but the book stays in the average.\<close>

lemma avg_days_bounds:
  assumes "\<forall>b \<in> set (read_books bs). span_days b \<le> D"
  shows "0 \<le> avg_days bs \<and> avg_days bs \<le> max 0 D"
proof (cases "filter (\<lambda>b. dateStarted b \<noteq> [] \<and> dateRead b \<noteq> []) (read_books bs) = []")
  case True
  then show ?thesis by (simp add: avg_days_def)
next
  case False
  let ?w = "filter (\<lambda>b. dateStarted b \<noteq> [] \<and> dateRead b \<noteq> []) (read_books bs)"
  have n: "0 < int (length ?w)" using False by simp
  have "0 \<le> sum_list (map span_days ?w)"
    by (rule sum_list_nonneg) (auto simp: span_days_nonneg)
  then have lo: "0 \<le> js_round_div (sum_list (map span_days ?w)) (int (length ?w))"
    using n by (rule js_round_div_nonneg)
  have "sum_list (map span_days ?w) \<le> max 0 D * int (length ?w)"
    using assms by (intro sum_list_le_const) fastforce
  then have hi: "js_round_div (sum_list (map span_days ?w)) (int (length ?w)) \<le> max 0 D"
    using n by (rule js_round_div_le)
  show ?thesis using lo hi False by (simp add: avg_days_def Let_def)
qed

theorem avg_days_bounds_witness:
  "avg_days pace_sample = 10 \<and>
   0 \<le> avg_days pace_sample \<and> avg_days pace_sample \<le> max 0 20"
proof -
  have h: "\<forall>b \<in> set (read_books pace_sample). span_days b \<le> 20" by code_simp
  have "avg_days pace_sample = 10" by code_simp
  then show ?thesis using h avg_days_bounds [OF h] by simp
qed

text \<open>The specification's scenario: read books rated 5, 5, 3, 0 and 4 have an average rating of 17/4 = 4.25 over the four rated books; the unrated book is left out.\<close>

lemma avg_rating_scenario:
  "avg_rating (map (\<lambda>r. default_book\<lparr>status := Read, rating := r\<rparr>) [5, 5, 3, 0, 4]) = Some (17 / 4) \<and>
   length (rated_read (map (\<lambda>r. default_book\<lparr>status := Read, rating := r\<rparr>) [5, 5, 3, 0, 4])) = 4"
  by code_simp


end
