(* ===== verification/Sync.thy ===== *)
theory Sync
  imports Books "HOL-Library.AList"
begin

text \<open>
  The reconciliation layer of \<open>src/app.js\<close>: the module-level state (\<open>books\<close>,
  \<open>collections\<close>, \<open>settings\<close>, \<open>currentUser\<close>, \<open>unsubscribeBooks\<close>,
  \<open>unsubscribeCollections\<close>, \<open>syncTimeout\<close>), the local-storage cache
  (\<open>saveLocal\<close>, \<open>loadLocal\<close>, \<open>save\<close>), the Firestore writes
  (\<open>saveBookToFirestore\<close>, \<open>deleteBookFromFirestore\<close>,
  \<open>saveCollectionToFirestore\<close>, the debounced \<open>saveSettingsToFirestore\<close>), the
  realtime listeners of \<open>subscribeToData\<close>, \<open>loadSettings\<close>, the auth handlers
  \<open>_onAuthReady\<close> and \<open>authSignOut\<close>, and the settings actions \<open>setTheme\<close>,
  \<open>toggleTheme\<close>, \<open>saveDisplayName\<close>, \<open>saveGoal\<close>, \<open>clearAllData\<close>.

  The browser runs one event at a time; each event is a pair of its time in
  milliseconds and what happens. Before an event runs, the debounce timer fires if its
  deadline has passed. The remote store is one document set per user; a collection
  snapshot lists the documents in the order of their ids, as Firestore does. A listener
  whose user is no longer the signed-in user is refused by the store (the per-user
  security rules, which are not in the repository), so its snapshot is an error.
  Every remote write is also appended to a log, so that properties can count writes.
\<close>

section \<open>State\<close>

datatype sync_status = Synced | Syncing | SyncError

record user_data =
  r_books :: "(string \<times> book) list"
  r_cols :: "(string \<times> collection) list"
  r_settings :: "settings option"

record local_store =
  sw_books :: "book list option"
  sw_collections :: "collection list option"
  sw_settings :: "settings option"

datatype remote_write =
    WBook string book
  | WDeleteBook string string
  | WCollection string collection
  | WDeleteCollection string string
  | WSettings string settings

record session =
  s_books :: "book list"
  s_collections :: "collection list"
  s_settings :: settings
  current_user :: "string option"
  sub_books :: "string option"
  sub_cols :: "string option"
  sync_timer :: "int option"
  clock :: int
  cur_year :: int
  sync_state :: sync_status
  cache :: local_store
  remote :: "string \<Rightarrow> user_data"
  write_log :: "remote_write list"

datatype event =
    AuthReady "string option"
  | SignOut
  | BooksSnapshot
  | CollectionsSnapshot
  | SaveBook book bool
  | DeleteBook string bool
  | SaveCollection collection
  | SaveGoal string
  | SetTheme string
  | ToggleTheme
  | SaveDisplayName string
  | ClearAllData
  | Idle

section \<open>Local storage\<close>

definition save_local :: "session \<Rightarrow> session" where
  "save_local s =
     s\<lparr>cache := \<lparr>sw_books = Some (s_books s), sw_collections = Some (s_collections s),
                  sw_settings = Some (s_settings s)\<rparr>\<rparr>"

text \<open>\<open>DOMContentLoaded\<close>: \<open>loadLocal()\<close> on the initial state.\<close>

definition boot :: "local_store \<Rightarrow> (string \<Rightarrow> user_data) \<Rightarrow> int \<Rightarrow> session" where
  "boot l r year =
     \<lparr>s_books = (case sw_books l of Some bs \<Rightarrow> bs | None \<Rightarrow> []),
      s_collections = (case sw_collections l of Some cs \<Rightarrow> cs | None \<Rightarrow> []),
      s_settings = (case sw_settings l of Some st \<Rightarrow> merge_settings (initial_settings year) st
                    | None \<Rightarrow> initial_settings year),
      current_user = None, sub_books = None, sub_cols = None, sync_timer = None, clock = 0,
      cur_year = year, sync_state = Synced, cache = l, remote = r, write_log = []\<rparr>"

section \<open>Remote writes\<close>

definition update_user :: "session \<Rightarrow> string \<Rightarrow> (user_data \<Rightarrow> user_data) \<Rightarrow> session" where
  "update_user s u f = s\<lparr>remote := (remote s)(u := f (remote s u))\<rparr>"

text \<open>\<open>saveSettingsToFirestore\<close>: without a user it returns; otherwise the pending
  timer is cancelled and a new one is set 800 ms ahead.\<close>

definition schedule_settings_write :: "session \<Rightarrow> session" where
  "schedule_settings_write s =
     (if current_user s = None then s else s\<lparr>sync_timer := Some (clock s + 800)\<rparr>)"

text \<open>The timer's callback writes the settings object as it is when the timer fires,
  to the document of the user signed in at that moment; with no user, \<open>settingsDoc()\<close>
  throws inside the \<open>try\<close> and nothing is written.\<close>

definition fire_timer :: "session \<Rightarrow> session" where
  "fire_timer s =
     (case sync_timer s of
        None \<Rightarrow> s
      | Some d \<Rightarrow>
          if clock s < d then s
          else (case current_user s of
                  None \<Rightarrow> s\<lparr>sync_timer := None\<rparr>
                | Some u \<Rightarrow>
                    (update_user s u (\<lambda>ud. ud\<lparr>r_settings := Some (s_settings s)\<rparr>))
                      \<lparr>sync_timer := None, write_log := write_log s @ [WSettings u (s_settings s)]\<rparr>))"

definition save :: "session \<Rightarrow> session" where
  "save s = schedule_settings_write (save_local s)"

text \<open>\<open>saveBookToFirestore\<close>: the document is the book with \<open>updatedAt\<close> set to the
  server time; the outcome of the write (\<open>ok\<close>) decides the sync indicator.\<close>

definition save_book_remote :: "session \<Rightarrow> book \<Rightarrow> bool \<Rightarrow> session" where
  "save_book_remote s b ok =
     (case current_user s of
        None \<Rightarrow> s
      | Some u \<Rightarrow>
          if ok then
            (update_user s u (\<lambda>ud. ud\<lparr>r_books := AList.update (book_id b)
                                          (b\<lparr>updatedAt := clock s\<rparr>) (r_books ud)\<rparr>))
              \<lparr>sync_state := Synced,
               write_log := write_log s @ [WBook u (b\<lparr>updatedAt := clock s\<rparr>)]\<rparr>
          else s\<lparr>sync_state := SyncError\<rparr>)"

definition delete_book_remote :: "session \<Rightarrow> string \<Rightarrow> bool \<Rightarrow> session" where
  "delete_book_remote s i ok =
     (case current_user s of
        None \<Rightarrow> s
      | Some u \<Rightarrow>
          if ok then
            (update_user s u (\<lambda>ud. ud\<lparr>r_books := AList.delete i (r_books ud)\<rparr>))
              \<lparr>sync_state := Synced, write_log := write_log s @ [WDeleteBook u i]\<rparr>
          else s\<lparr>sync_state := SyncError\<rparr>)"

definition save_collection_remote :: "session \<Rightarrow> collection \<Rightarrow> session" where
  "save_collection_remote s c =
     (case current_user s of
        None \<Rightarrow> s
      | Some u \<Rightarrow>
          (update_user s u (\<lambda>ud. ud\<lparr>r_cols := AList.update (col_id c) c (r_cols ud)\<rparr>))
            \<lparr>write_log := write_log s @ [WCollection u c]\<rparr>)"

definition delete_collection_remote :: "session \<Rightarrow> string \<Rightarrow> session" where
  "delete_collection_remote s i =
     (case current_user s of
        None \<Rightarrow> s
      | Some u \<Rightarrow>
          (update_user s u (\<lambda>ud. ud\<lparr>r_cols := AList.delete i (r_cols ud)\<rparr>))
            \<lparr>write_log := write_log s @ [WDeleteCollection u i]\<rparr>)"

section \<open>Listeners and authentication\<close>

text \<open>The books listener: \<open>books = snap.docs.map(d => ({ ...d.data(), id: d.id }))\<close>,
  then a stable sort by \<open>dateAdded\<close>, newest first.\<close>

definition snapshot_books :: "(string \<times> book) list \<Rightarrow> book list" where
  "snapshot_books docs =
     js_sort (\<lambda>a b. dateAdded b - dateAdded a)
       (map (\<lambda>(i, d). d\<lparr>book_id := i\<rparr>) (sort_key fst docs))"

definition snapshot_cols :: "(string \<times> collection) list \<Rightarrow> collection list" where
  "snapshot_cols docs = map (\<lambda>(i, c). c\<lparr>col_id := i\<rparr>) (sort_key fst docs)"

definition books_snapshot :: "session \<Rightarrow> session" where
  "books_snapshot s =
     (case sub_books s of
        None \<Rightarrow> s
      | Some v \<Rightarrow>
          if current_user s = Some v then s\<lparr>s_books := snapshot_books (r_books (remote s v))\<rparr>
          else s\<lparr>sync_state := SyncError\<rparr>)"

definition cols_snapshot :: "session \<Rightarrow> session" where
  "cols_snapshot s =
     (case sub_cols s of
        None \<Rightarrow> s
      | Some v \<Rightarrow>
          if current_user s = Some v then s\<lparr>s_collections := snapshot_cols (r_cols (remote s v))\<rparr>
          else s)"

definition load_settings :: "session \<Rightarrow> session" where
  "load_settings s =
     (case current_user s of
        None \<Rightarrow> s
      | Some u \<Rightarrow>
          (case r_settings (remote s u) of
             None \<Rightarrow> s
           | Some d \<Rightarrow> s\<lparr>s_settings := merge_settings (s_settings s) d\<rparr>))"

text \<open>\<open>subscribeToData\<close>: the previous listeners are cancelled and one listener per
  collection is installed for the user.\<close>

definition subscribe :: "session \<Rightarrow> string \<Rightarrow> session" where
  "subscribe s u = s\<lparr>sub_books := Some u, sub_cols := Some u\<rparr>"

fun auth_ready :: "session \<Rightarrow> string option \<Rightarrow> session" where
  "auth_ready s (Some u) =
     (subscribe (load_settings (s\<lparr>current_user := Some u, sync_state := Syncing\<rparr>)) u)
       \<lparr>sync_state := Synced\<rparr>"
| "auth_ready s None = s\<lparr>current_user := None, s_books := [], s_collections := []\<rparr>"

text \<open>\<open>authSignOut\<close>, confirmed: the listeners are cancelled and the lists emptied, then
  \<open>signOut\<close> makes the auth listener call \<open>_onAuthReady(null)\<close>.\<close>

definition sign_out :: "session \<Rightarrow> session" where
  "sign_out s =
     auth_ready (s\<lparr>sub_books := None, sub_cols := None, s_books := [], s_collections := []\<rparr>) None"

section \<open>Settings actions\<close>

definition update_settings :: "session \<Rightarrow> (settings \<Rightarrow> settings) \<Rightarrow> session" where
  "update_settings s f = s\<lparr>s_settings := f (s_settings s)\<rparr>"

definition save_goal :: "session \<Rightarrow> string \<Rightarrow> session" where
  "save_goal s raw =
     (case js_parse_int raw of
        None \<Rightarrow> s
      | Some v \<Rightarrow>
          if v = 0 \<or> v < 1 then s
          else save (update_settings s (\<lambda>st. st\<lparr>goal := Some v, goalYear := Some (cur_year s)\<rparr>)))"

definition set_theme :: "session \<Rightarrow> string \<Rightarrow> session" where
  "set_theme s name = save (update_settings s (\<lambda>st. st\<lparr>theme := Some name\<rparr>))"

definition toggle_theme :: "session \<Rightarrow> session" where
  "toggle_theme s =
     save (update_settings s (\<lambda>st. st\<lparr>theme :=
       Some (if theme st = Some ''dark'' then ''light''
             else if (case theme st of Some t \<Rightarrow> t \<in> set THEMES | None \<Rightarrow> False)
             then ''dark'' else ''light'')\<rparr>))"

definition save_display_name :: "session \<Rightarrow> string \<Rightarrow> session" where
  "save_display_name s raw =
     (let n = js_trim raw
      in if n = [] then s else save (update_settings s (\<lambda>st. st\<lparr>displayName := Some n\<rparr>)))"

text \<open>\<open>clearAllData\<close>, confirmed: every book and collection of the lists is deleted
  remotely, the settings are reset keeping only the theme, and the debounced settings
  write is scheduled; the local cache is not written.\<close>

definition clear_all_data :: "session \<Rightarrow> session" where
  "clear_all_data s =
     (let s1 = foldl (\<lambda>s b. delete_book_remote s (book_id b) True) s (s_books s);
          s2 = foldl (\<lambda>s c. delete_collection_remote s (col_id c)) s1 (s_collections s1)
      in schedule_settings_write
           (s2\<lparr>s_settings := \<lparr>theme = theme (s_settings s2), goal = Some 0,
                               goalYear = Some (cur_year s2), displayName = None\<rparr>\<rparr>))"

section \<open>Events and runs\<close>

fun apply_event :: "session \<Rightarrow> event \<Rightarrow> session" where
  "apply_event s (AuthReady u) = auth_ready s u"
| "apply_event s SignOut = sign_out s"
| "apply_event s BooksSnapshot = books_snapshot s"
| "apply_event s CollectionsSnapshot = cols_snapshot s"
| "apply_event s (SaveBook b ok) = save_book_remote s b ok"
| "apply_event s (DeleteBook i ok) = delete_book_remote s i ok"
| "apply_event s (SaveCollection c) = save_collection_remote s c"
| "apply_event s (SaveGoal raw) = save_goal s raw"
| "apply_event s (SetTheme t) = set_theme s t"
| "apply_event s ToggleTheme = toggle_theme s"
| "apply_event s (SaveDisplayName n) = save_display_name s n"
| "apply_event s ClearAllData = clear_all_data s"
| "apply_event s Idle = s"

text \<open>An event at time \<open>t\<close> (never before the clock): the clock advances, a due timer
  fires, then the event runs.\<close>

definition step :: "session \<Rightarrow> int \<times> event \<Rightarrow> session" where
  "step s te = apply_event (fire_timer (s\<lparr>clock := max (fst te) (clock s)\<rparr>)) (snd te)"

definition run :: "session \<Rightarrow> (int \<times> event) list \<Rightarrow> session" where
  "run s evs = foldl step s evs"

section \<open>Invariants and scenarios\<close>

text \<open>
  \<open>sess_wf\<close>: the book list and every user's remote book documents have distinct ids.
  \<open>goal_ok\<close> is the guard of \<open>saveGoal\<close> under which it saves; \<open>gaps_ok\<close> says a
  sequence of calls comes in order, each less than the 800 ms debounce after the one before.
  The remaining definitions are concrete sessions the witnesses below evaluate.
\<close>

definition goal_ok :: "string \<Rightarrow> bool" where
  "goal_ok g = (case js_parse_int g of Some v \<Rightarrow> 1 \<le> v | None \<Rightarrow> False)"

fun gaps_ok :: "(int \<times> string) list \<Rightarrow> bool" where
  "gaps_ok (x # y # rest) = (fst x \<le> fst y \<and> fst y < fst x + 800 \<and> gaps_ok (y # rest))"
| "gaps_ok _ = True"

definition goal_events :: "(int \<times> string) list \<Rightarrow> (int \<times> event) list" where
  "goal_events calls = map (\<lambda>(t, g). (t, SaveGoal g)) calls"

definition remote_wf :: "(string \<Rightarrow> user_data) \<Rightarrow> bool" where
  "remote_wf r \<longleftrightarrow> (\<forall>u. distinct (map fst (r_books (r u))))"

definition sess_wf :: "session \<Rightarrow> bool" where
  "sess_wf s \<longleftrightarrow> distinct (map book_id (s_books s)) \<and> remote_wf (remote s)"

definition empty_user :: user_data where
  "empty_user = \<lparr>r_books = [], r_cols = [], r_settings = None\<rparr>"

definition empty_cache :: local_store where
  "empty_cache = \<lparr>sw_books = None, sw_collections = None, sw_settings = None\<rparr>"

definition fresh_session :: session where
  "fresh_session = boot empty_cache (\<lambda>_. empty_user) 2026"

definition alice_then_bob :: session where
  "alice_then_bob = run fresh_session
     [(0, AuthReady (Some ''alice'')), (100, SaveDisplayName ''Alice''), (200, SignOut),
      (300, AuthReady (Some ''bob''))]"

definition signed_in :: session where
  "signed_in = step fresh_session (0, AuthReady (Some ''alice''))"

definition rapid_goals :: "(int \<times> string) list" where
  "rapid_goals = [(1000, ''5''), (1100, ''6''), (1200, ''7''), (1300, ''8''), (1400, ''9'')]"

definition stale_cache :: local_store where
  "stale_cache = empty_cache\<lparr>sw_books := Some [default_book\<lparr>book_id := ''old'', title := ''Emma''\<rparr>]\<rparr>"

definition alice_remote :: "string \<Rightarrow> user_data" where
  "alice_remote = (\<lambda>_. empty_user)(''alice'' := empty_user\<lparr>r_books :=
     [(''b2'', default_book\<lparr>title := ''Dune'', dateAdded := 7\<rparr>)]\<rparr>)"

definition alice_session :: session where
  "alice_session = step (boot stale_cache alice_remote 2026) (0, AuthReady (Some ''alice''))"


section \<open>Frames of the operations\<close>

lemma fire_timer_fields [simp]:
  "s_books (fire_timer s) = s_books s"
  "s_collections (fire_timer s) = s_collections s"
  "s_settings (fire_timer s) = s_settings s"
  "current_user (fire_timer s) = current_user s"
  "sub_books (fire_timer s) = sub_books s"
  "sub_cols (fire_timer s) = sub_cols s"
  "clock (fire_timer s) = clock s"
  "cur_year (fire_timer s) = cur_year s"
  "sync_state (fire_timer s) = sync_state s"
  "cache (fire_timer s) = cache s"
  "r_books (remote (fire_timer s) v) = r_books (remote s v)"
  "r_cols (remote (fire_timer s) v) = r_cols (remote s v)"
  by (simp_all add: fire_timer_def update_user_def split: option.splits)

lemma fire_timer_no_user: "current_user s = None \<Longrightarrow> write_log (fire_timer s) = write_log s"
  by (simp add: fire_timer_def split: option.splits)

lemma fire_timer_idem [simp]: "fire_timer (fire_timer s) = fire_timer s"
  by (simp add: fire_timer_def update_user_def split: option.splits)

lemma step_eq [simp]: "step s (t, e) = apply_event (fire_timer (s\<lparr>clock := max t (clock s)\<rparr>)) e"
  by (simp add: step_def)

lemma run_Nil [simp]: "run s [] = s"
  and run_Cons [simp]: "run s (e # es) = run (step s e) es"
  and run_append: "run s (xs @ ys) = run (run s xs) ys"
  by (simp_all add: run_def)

lemma books_snapshot_idem [simp]: "books_snapshot (books_snapshot s) = books_snapshot s"
  by (simp add: books_snapshot_def split: option.splits)

lemma fire_timer_books_snapshot: "fire_timer (books_snapshot s) = books_snapshot (fire_timer s)"
  by (simp add: fire_timer_def books_snapshot_def update_user_def split: option.splits)

lemma clock_books_snapshot [simp]: "clock (books_snapshot s) = clock s"
  by (simp add: books_snapshot_def split: option.splits)

lemma save_frame [simp]:
  "s_books (save s) = s_books s" "remote (save s) = remote s"
  "current_user (save s) = current_user s" "write_log (save s) = write_log s"
  by (simp_all add: save_def save_local_def schedule_settings_write_def)

lemma update_settings_frame [simp]:
  "s_books (update_settings s f) = s_books s" "remote (update_settings s f) = remote s"
  "current_user (update_settings s f) = current_user s"
  "write_log (update_settings s f) = write_log s"
  by (simp_all add: update_settings_def)

lemma load_settings_frame [simp]:
  "s_books (load_settings s) = s_books s" "remote (load_settings s) = remote s"
  "current_user (load_settings s) = current_user s" "sub_books (load_settings s) = sub_books s"
  "write_log (load_settings s) = write_log s"
  by (simp_all add: load_settings_def split: option.splits)

lemma settings_events_frame:
  assumes "e \<in> {SaveGoal g, SetTheme th, ToggleTheme, SaveDisplayName n, Idle, CollectionsSnapshot}"
  shows "s_books (apply_event s e) = s_books s \<and> remote (apply_event s e) = remote s"
  using assms by (auto simp: save_goal_def set_theme_def toggle_theme_def save_display_name_def
      cols_snapshot_def Let_def split: option.splits)

lemma delete_book_remote_no_user: "current_user s = None \<Longrightarrow> delete_book_remote s i ok = s"
  by (simp add: delete_book_remote_def)

lemma delete_collection_remote_no_user: "current_user s = None \<Longrightarrow> delete_collection_remote s i = s"
  by (simp add: delete_collection_remote_def)

lemmas session_defs = boot_def empty_user_def empty_cache_def fresh_session_def save_goal_def
  save_def save_local_def schedule_settings_write_def update_settings_def save_display_name_def
  sign_out_def load_settings_def subscribe_def fire_timer_def update_user_def
  save_book_remote_def delete_book_remote_def books_snapshot_def js_trim_def js_space_def Let_def


section \<open>Snapshots\<close>

lemma map_book_id_rename: "map book_id (map (\<lambda>(i, d). d\<lparr>book_id := i\<rparr>) xs) = map fst xs"
  by (induction xs) auto

lemma mset_snapshot_ids:
  "mset (map book_id (snapshot_books docs)) = mset (map fst docs)"
proof -
  have "mset (map book_id (snapshot_books docs)) =
      mset (map book_id (map (\<lambda>(i, d). d\<lparr>book_id := i\<rparr>) (sort_key fst docs)))"
    by (simp only: snapshot_books_def mset_map_js_sort)
  also have "\<dots> = mset (map fst (sort_key fst docs))"
    by (simp only: map_book_id_rename)
  also have "\<dots> = mset (map fst docs)"
    by (metis mset_map mset_sort)
  finally show ?thesis .
qed

lemma sorted_snapshot_books:
  "sorted_wrt (\<lambda>a b. dateAdded b \<le> dateAdded a) (snapshot_books docs)"
proof -
  have "cmp_weak_order (\<lambda>a b :: book. dateAdded b - dateAdded a)"
    by (auto simp: cmp_weak_order_def)
  from sorted_js_sort [OF this] show ?thesis
    by (simp add: snapshot_books_def)
qed

lemma in_snapshot_books:
  "(i, d) \<in> set docs \<Longrightarrow> d\<lparr>book_id := i\<rparr> \<in> set (snapshot_books docs)"
  by (force simp: snapshot_books_def)

lemma distinct_snapshot_books:
  "distinct (map fst docs) \<Longrightarrow> distinct (map book_id (snapshot_books docs))"
proof -
  have "mset (map book_id (snapshot_books docs)) = mset (map fst docs)"
    by (rule mset_snapshot_ids)
  then have "distinct (map book_id (snapshot_books docs)) = distinct (map fst docs)"
    by (rule mset_eq_imp_distinct_iff)
  then show "distinct (map fst docs) \<Longrightarrow> ?thesis" by simp
qed


section \<open>The distinct-id invariant\<close>

lemma save_book_remote_wf: "sess_wf s \<Longrightarrow> sess_wf (save_book_remote s b ok)"
  by (auto simp: save_book_remote_def sess_wf_def update_user_def remote_wf_def
      distinct_update split: option.splits)

lemma delete_book_remote_wf: "sess_wf s \<Longrightarrow> sess_wf (delete_book_remote s i ok)"
  by (auto simp: delete_book_remote_def sess_wf_def update_user_def remote_wf_def
      distinct_delete split: option.splits)

lemma sess_wf_books_remote:
  "sess_wf s \<Longrightarrow> s_books t = s_books s \<Longrightarrow> (\<forall>u. r_books (remote t u) = r_books (remote s u)) \<Longrightarrow> sess_wf t"
  by (simp add: sess_wf_def remote_wf_def)

lemma fire_timer_wf: "sess_wf s \<Longrightarrow> sess_wf (fire_timer s)"
  using sess_wf_books_remote [of s "fire_timer s"] by simp

lemma schedule_settings_wf:
  "sess_wf t \<Longrightarrow> sess_wf (schedule_settings_write (t\<lparr>s_settings := x\<rparr>))"
  by (simp add: schedule_settings_write_def sess_wf_def)

lemma apply_event_wf:
  assumes wf: "sess_wf s"
  shows "sess_wf (apply_event s e)"
proof (cases e)
  case (AuthReady x)
  then show ?thesis using wf
    by (cases x) (simp_all add: sess_wf_def subscribe_def)
next
  case SignOut
  then show ?thesis using wf by (simp add: sess_wf_def sign_out_def)
next
  case BooksSnapshot
  from wf have "\<forall>v. distinct (map fst (r_books (remote s v)))"
    by (simp add: sess_wf_def remote_wf_def)
  with wf BooksSnapshot show ?thesis
    by (auto simp: books_snapshot_def sess_wf_def distinct_snapshot_books split: option.splits)
next
  case (SaveBook b ok)
  then show ?thesis using wf by (simp add: save_book_remote_wf)
next
  case (DeleteBook i ok)
  then show ?thesis using wf by (simp add: delete_book_remote_wf)
next
  case (SaveCollection c)
  then show ?thesis using wf
    by (auto simp: sess_wf_def remote_wf_def save_collection_remote_def update_user_def
        split: option.splits)
next
  case ClearAllData
  let ?s1 = "foldl (\<lambda>s b. delete_book_remote s (book_id b) True) s (s_books s)"
  have w1: "sess_wf ?s1"
    by (rule foldl_invariant [where P = sess_wf]) (simp_all add: wf delete_book_remote_wf)
  have "sess_wf (foldl (\<lambda>s c. delete_collection_remote s (col_id c)) ?s1 (s_collections ?s1))"
    by (rule foldl_invariant [where P = sess_wf, OF _ w1])
      (auto simp: delete_collection_remote_def sess_wf_def update_user_def remote_wf_def
        split: option.splits)
  then have "sess_wf (clear_all_data s)"
    unfolding clear_all_data_def Let_def by (rule schedule_settings_wf)
  then show ?thesis using ClearAllData by simp
next
  case (SaveGoal g)
  then show ?thesis
    using wf settings_events_frame [where e = e and g = g and s = s] by (simp add: sess_wf_def)
next
  case (SetTheme th)
  then show ?thesis
    using wf settings_events_frame [where e = e and th = th and s = s] by (simp add: sess_wf_def)
next
  case ToggleTheme
  then show ?thesis
    using wf settings_events_frame [where e = e and s = s] by (simp add: sess_wf_def)
next
  case (SaveDisplayName n)
  then show ?thesis
    using wf settings_events_frame [where e = e and n = n and s = s] by (simp add: sess_wf_def)
next
  case CollectionsSnapshot
  then show ?thesis
    using wf settings_events_frame [where e = e and s = s] by (simp add: sess_wf_def)
next
  case Idle
  then show ?thesis using wf by simp
qed

lemma step_wf: "sess_wf s \<Longrightarrow> sess_wf (step s te)"
  unfolding step_def by (rule apply_event_wf, rule fire_timer_wf) (simp add: sess_wf_def)

lemma run_wf: "sess_wf s \<Longrightarrow> sess_wf (run s evs)"
  unfolding run_def by (rule foldl_invariant [where P = sess_wf]) (simp_all add: step_wf)


section \<open>The settings debounce\<close>

lemma save_goal_step:
  assumes "current_user s = Some u" "goal_ok g" "clock s \<le> t"
    and "case sync_timer s of None \<Rightarrow> True | Some d \<Rightarrow> t < d"
  shows "write_log (step s (t, SaveGoal g)) = write_log s \<and>
         sync_timer (step s (t, SaveGoal g)) = Some (t + 800) \<and>
         clock (step s (t, SaveGoal g)) = t \<and> current_user (step s (t, SaveGoal g)) = Some u \<and>
         goal (s_settings (step s (t, SaveGoal g))) = js_parse_int g"
proof -
  have nofire: "fire_timer (s\<lparr>clock := t\<rparr>) = s\<lparr>clock := t\<rparr>"
    using assms(4) by (simp add: fire_timer_def split: option.splits)
  obtain v where v: "js_parse_int g = Some v" "1 \<le> v"
    using assms(2) by (auto simp: goal_ok_def split: option.splits)
  show ?thesis
    using assms(1,3) nofire v
    by (simp add: save_goal_def save_def save_local_def schedule_settings_write_def
        update_settings_def max_def)
qed

lemma goal_run:
  assumes "calls \<noteq> []" "gaps_ok calls" "list_all (\<lambda>c. goal_ok (snd c)) calls"
    "current_user s = Some u" "clock s \<le> fst (hd calls)"
    "case sync_timer s of None \<Rightarrow> True | Some d \<Rightarrow> fst (hd calls) < d"
  shows "write_log (run s (goal_events calls)) = write_log s \<and>
         sync_timer (run s (goal_events calls)) = Some (fst (last calls) + 800) \<and>
         current_user (run s (goal_events calls)) = Some u \<and>
         goal (s_settings (run s (goal_events calls))) = js_parse_int (snd (last calls))"
  using assms
proof (induction calls arbitrary: s)
  case Nil
  then show ?case by simp
next
  case (Cons x rest)
  note IH = Cons.IH and prems = Cons.prems
  obtain t g where x: "x = (t, g)" by fastforce
  let ?s1 = "step s (t, SaveGoal g)"
  have pre: "case sync_timer s of None \<Rightarrow> True | Some d \<Rightarrow> t < d"
    using prems(6) x by (simp split: option.splits)
  have g: "goal_ok g" and c: "clock s \<le> t"
    using prems(3,5) x by simp_all
  note s1 = save_goal_step [OF prems(4) g c pre]
  have run1: "run s (goal_events (x # rest)) = run ?s1 (goal_events rest)"
    using x by (simp add: goal_events_def del: step_eq)
  show ?case
  proof (cases rest)
    case Nil
    then show ?thesis using s1 run1 x by (simp add: goal_events_def)
  next
    case (Cons y rest')
    have gy: "fst x \<le> fst y" "fst y < fst x + 800" "gaps_ok rest"
      using prems(2) Cons by simp_all
    have "write_log (run ?s1 (goal_events rest)) = write_log ?s1 \<and>
          sync_timer (run ?s1 (goal_events rest)) = Some (fst (last rest) + 800) \<and>
          current_user (run ?s1 (goal_events rest)) = Some u \<and>
          goal (s_settings (run ?s1 (goal_events rest))) = js_parse_int (snd (last rest))"
    proof (rule IH)
      show "current_user ?s1 = Some u" "clock ?s1 \<le> fst (hd rest)"
        "case sync_timer ?s1 of None \<Rightarrow> True | Some d \<Rightarrow> fst (hd rest) < d"
        using s1 gy x Cons by simp_all
    qed (use prems gy Cons in simp_all)
    then show ?thesis using s1 run1 Cons by simp
  qed
qed

lemma alice_then_bob_state:
  "current_user alice_then_bob = Some ''bob'' \<and> sync_timer alice_then_bob = Some 900 \<and>
   displayName (s_settings alice_then_bob) = Some ''Alice'' \<and> write_log alice_then_bob = []"
  by (simp add: alice_then_bob_def session_defs)


section \<open>Properties of the sync layer\<close>


text \<open>C8. A books snapshot of the signed-in user's own listener replaces the book list with the remote documents, ordered by id, renamed with their id, then by \<open>dateAdded\<close> descending; nothing of the earlier list survives (a stale local cache is discarded).\<close>

theorem books_snapshot_replace:
  assumes "sub_books s = Some u" and "current_user s = Some u"
  shows "s_books (step s (t, BooksSnapshot)) = snapshot_books (r_books (remote s u))"
  using assms by (simp add: books_snapshot_def)

theorem books_snapshot_replace_witness:
  "sub_books alice_session = Some ''alice'' \<and> current_user alice_session = Some ''alice'' \<and>
   s_books alice_session = [default_book\<lparr>book_id := ''old'', title := ''Emma''\<rparr>] \<and>
   s_books (step alice_session (10, BooksSnapshot)) =
     [default_book\<lparr>book_id := ''b2'', title := ''Dune'', dateAdded := 7\<rparr>]"
proof -
  have h: "sub_books alice_session = Some ''alice''" "current_user alice_session = Some ''alice''"
    "s_books alice_session = [default_book\<lparr>book_id := ''old'', title := ''Emma''\<rparr>]"
    by (simp_all add: alice_session_def stale_cache_def empty_cache_def alice_remote_def
        empty_user_def session_defs)
  have "snapshot_books (r_books (remote alice_session ''alice'')) =
     [default_book\<lparr>book_id := ''b2'', title := ''Dune'', dateAdded := 7\<rparr>]"
    by (simp add: alice_session_def alice_remote_def session_defs snapshot_books_def)
  then show ?thesis using h books_snapshot_replace [OF h(1,2), of 10] by simp
qed

text \<open>C9. Goal saves made less than 800 ms apart by a signed-in user write nothing until the debounce timer fires 800 ms after the last one; then exactly one settings document is written, carrying the last goal.\<close>

theorem debounce_single_write:
  assumes "calls \<noteq> []" "gaps_ok calls" "list_all (\<lambda>c. goal_ok (snd c)) calls"
    "current_user s = Some u" "sync_timer s = None" "clock s \<le> fst (hd calls)"
    "fst (last calls) + 800 \<le> T"
  shows "\<exists>st. write_log (run s (goal_events calls @ [(T, Idle)])) = write_log s @ [WSettings u st] \<and>
              goal st = js_parse_int (snd (last calls))"
proof -
  let ?s' = "run s (goal_events calls)"
  have r: "write_log ?s' = write_log s" "sync_timer ?s' = Some (fst (last calls) + 800)"
    "current_user ?s' = Some u" "goal (s_settings ?s') = js_parse_int (snd (last calls))"
    using goal_run [OF assms(1-4) assms(6)] assms(5) by auto
  have "write_log (step ?s' (T, Idle)) = write_log s @ [WSettings u (s_settings ?s')]"
    using r assms(7) by (simp add: fire_timer_def update_user_def)
  then show ?thesis using r by (simp add: run_append)
qed

theorem debounce_single_write_witness:
  "rapid_goals \<noteq> [] \<and> gaps_ok rapid_goals \<and> list_all (\<lambda>c. goal_ok (snd c)) rapid_goals \<and>
   current_user signed_in = Some ''alice'' \<and> sync_timer signed_in = None \<and>
   clock signed_in \<le> fst (hd rapid_goals) \<and> fst (last rapid_goals) + 800 \<le> 2200 \<and>
   (\<exists>st. write_log (run signed_in (goal_events rapid_goals @ [(2200, Idle)])) =
          write_log signed_in @ [WSettings ''alice'' st] \<and> goal st = Some 9)"
proof -
  have h: "rapid_goals \<noteq> []" "gaps_ok rapid_goals" "list_all (\<lambda>c. goal_ok (snd c)) rapid_goals"
    "current_user signed_in = Some ''alice''" "sync_timer signed_in = None"
    "clock signed_in \<le> fst (hd rapid_goals)" "fst (last rapid_goals) + 800 \<le> 2200"
    by (simp_all add: rapid_goals_def signed_in_def session_defs) code_simp
  have p: "js_parse_int (snd (last rapid_goals)) = Some 9"
    by (simp add: rapid_goals_def) code_simp
  show ?thesis using h debounce_single_write [OF h] p by simp
qed

text \<open>C10. Booting from a local cache whose book ids are distinct and a remote store whose per-user book documents have distinct ids, every run of events keeps both properties: the book list never holds two books with one id.\<close>

theorem boot_wf:
  "(case sw_books l of Some bs \<Rightarrow> distinct (map book_id bs) | None \<Rightarrow> True) \<Longrightarrow> remote_wf r \<Longrightarrow>
   sess_wf (run (boot l r y) evs)"
  by (rule run_wf) (simp add: sess_wf_def boot_def split: option.splits)

theorem boot_wf_witness:
  "(case sw_books stale_cache of Some bs \<Rightarrow> distinct (map book_id bs) | None \<Rightarrow> True) \<and>
   remote_wf alice_remote \<and>
   sess_wf (run (boot stale_cache alice_remote 2026)
     [(0, AuthReady (Some ''alice'')), (5, SaveBook (default_book\<lparr>book_id := ''b2''\<rparr>) True),
      (9, BooksSnapshot)])"
proof -
  have h: "case sw_books stale_cache of Some bs \<Rightarrow> distinct (map book_id bs) | None \<Rightarrow> True"
    by (simp add: stale_cache_def empty_cache_def)
  have r: "remote_wf alice_remote"
    by (simp add: remote_wf_def alice_remote_def empty_user_def)
  show ?thesis using h r boot_wf [OF h r] by blast
qed

text \<open>C11. With nobody signed in, no event writes to the remote store (saves and deletes only update local state, a due settings write is dropped).\<close>

theorem no_write_signed_out:
  assumes "current_user s = None"
  shows "write_log (step s te) = write_log s"
proof -
  obtain t e where te: "te = (t, e)" by fastforce
  let ?s0 = "fire_timer (s\<lparr>clock := max t (clock s)\<rparr>)"
  have u0: "current_user ?s0 = None" using assms by simp
  have l0: "write_log ?s0 = write_log s" using assms by (simp add: fire_timer_no_user)
  have "write_log (apply_event ?s0 e) = write_log ?s0"
  proof (cases e)
    case (AuthReady x)
    then show ?thesis
      by (cases x) (simp_all add: load_settings_def subscribe_def split: option.splits)
  next
    case ClearAllData
    have "foldl (\<lambda>s b. delete_book_remote s (book_id b) True) ?s0 (s_books ?s0) = ?s0"
      by (rule foldl_id [where P = "\<lambda>s. current_user s = None"]) (simp_all add: assms delete_book_remote_no_user)
    moreover have "foldl (\<lambda>s c. delete_collection_remote s (col_id c)) ?s0 (s_collections ?s0) = ?s0"
      by (rule foldl_id [where P = "\<lambda>s. current_user s = None"]) (simp_all add: assms delete_collection_remote_no_user)
    ultimately show ?thesis using ClearAllData u0
      by (simp add: clear_all_data_def schedule_settings_write_def)
  qed (use u0 in \<open>simp_all add: sign_out_def books_snapshot_def cols_snapshot_def
        save_book_remote_def delete_book_remote_def save_collection_remote_def save_goal_def
        save_def save_local_def schedule_settings_write_def set_theme_def toggle_theme_def
        save_display_name_def update_settings_def Let_def split: option.splits\<close>)
  then show ?thesis using te l0 by (simp add: step_def)
qed

theorem no_write_signed_out_witness:
  "current_user fresh_session = None \<and>
   write_log (step fresh_session (0, SaveBook (default_book\<lparr>book_id := ''x''\<rparr>) True)) = []"
proof -
  have h: "current_user fresh_session = None" by (simp add: session_defs)
  have "write_log fresh_session = []" by (simp add: session_defs)
  then show ?thesis using h no_write_signed_out [OF h, of "(0, SaveBook (default_book\<lparr>book_id := ''x''\<rparr>) True)"]
    by simp
qed

text \<open>C12. The book list a snapshot builds holds the ids of the remote documents with their multiplicities and is sorted by \<open>dateAdded\<close> descending.\<close>

theorem snapshot_books_spec:
  "mset (map book_id (snapshot_books docs)) = mset (map fst docs) \<and>
   sorted_wrt (\<lambda>a b. dateAdded b \<le> dateAdded a) (snapshot_books docs)"
  by (rule conjI [OF mset_snapshot_ids sorted_snapshot_books])

text \<open>A book saved by the signed-in user appears, stamped with the save time, in the book list after the next snapshot of their listener.\<close>

lemma saved_book_visible:
  assumes "current_user s = Some u" "sub_books s = Some u"
  shows "b\<lparr>updatedAt := max t (clock s)\<rparr> \<in> set (s_books (run s [(t, SaveBook b True), (t, BooksSnapshot)]))"
proof -
  let ?b' = "b\<lparr>updatedAt := max t (clock s)\<rparr>"
  let ?s1 = "step s (t, SaveBook b True)"
  have u1: "current_user ?s1 = Some u" "sub_books ?s1 = Some u"
    using assms by (simp_all add: save_book_remote_def update_user_def)
  have "map_of (r_books (remote ?s1 u)) (book_id b) = Some ?b'"
    using assms by (simp add: save_book_remote_def update_user_def update_conv')
  then have "(book_id b, ?b') \<in> set (r_books (remote ?s1 u))"
    by (rule map_of_SomeD)
  then have "?b'\<lparr>book_id := book_id b\<rparr> \<in> set (snapshot_books (r_books (remote ?s1 u)))"
    by (rule in_snapshot_books)
  moreover have "s_books (step ?s1 (t, BooksSnapshot)) = snapshot_books (r_books (remote ?s1 u))"
    using u1 by (simp add: books_snapshot_def)
  ultimately show ?thesis by simp
qed

theorem saved_book_visible_witness:
  "current_user signed_in = Some ''alice'' \<and> sub_books signed_in = Some ''alice'' \<and>
   default_book\<lparr>book_id := ''b9'', title := ''Kindred'', updatedAt := 5\<rparr> \<in>
     set (s_books (run signed_in [(5, SaveBook (default_book\<lparr>book_id := ''b9'', title := ''Kindred''\<rparr>) True),
                                  (5, BooksSnapshot)]))"
proof -
  have h: "current_user signed_in = Some ''alice''" "sub_books signed_in = Some ''alice''"
    "clock signed_in = 0"
    by (simp_all add: signed_in_def session_defs)
  show ?thesis
    using h saved_book_visible [OF h(1,2), where b = "default_book\<lparr>book_id := ''b9'', title := ''Kindred''\<rparr>" and t = 5]
    by simp
qed

text \<open>A book deleted by the signed-in user is absent from the book list after the next snapshot of their listener.\<close>

lemma deleted_book_gone:
  assumes "current_user s = Some u" "sub_books s = Some u"
  shows "i \<notin> set (map book_id (s_books (run s [(t, DeleteBook i True), (t, BooksSnapshot)])))"
proof -
  let ?s1 = "step s (t, DeleteBook i True)"
  have u1: "current_user ?s1 = Some u" "sub_books ?s1 = Some u"
    using assms by (simp_all add: delete_book_remote_def update_user_def)
  have r1: "r_books (remote ?s1 u) = AList.delete i (r_books (remote s u))"
    using assms by (simp add: delete_book_remote_def update_user_def)
  have "set (map book_id (snapshot_books (r_books (remote ?s1 u)))) = set (map fst (r_books (remote ?s1 u)))"
    using mset_snapshot_ids [of "r_books (remote ?s1 u)"] by (metis set_mset_mset)
  moreover have "i \<notin> set (map fst (r_books (remote ?s1 u)))"
    using r1 delete_notin_dom [of i "r_books (remote s u)"] by simp
  moreover have "s_books (step ?s1 (t, BooksSnapshot)) = snapshot_books (r_books (remote ?s1 u))"
    using u1 by (simp add: books_snapshot_def)
  ultimately show ?thesis by simp
qed

theorem deleted_book_gone_witness:
  "current_user alice_session = Some ''alice'' \<and> sub_books alice_session = Some ''alice'' \<and>
   ''b2'' \<notin> set (map book_id (s_books (run alice_session [(5, DeleteBook ''b2'' True), (5, BooksSnapshot)])))"
proof -
  have h: "current_user alice_session = Some ''alice''" "sub_books alice_session = Some ''alice''"
    by (simp_all add: alice_session_def stale_cache_def empty_cache_def alice_remote_def
        empty_user_def session_defs)
  show ?thesis using h deleted_book_gone [OF h, where i = "''b2''" and t = 5] by simp
qed

text \<open>Delivering the same books snapshot twice at one time is the same as delivering it once.\<close>

lemma books_snapshot_step_idem:
  "step (step s (t, BooksSnapshot)) (t, BooksSnapshot) = step s (t, BooksSnapshot)"
proof -
  define s0 where "s0 = fire_timer (s\<lparr>clock := max t (clock s)\<rparr>)"
  have c: "clock s0 = max t (clock s)" by (simp add: s0_def)
  have "step (step s (t, BooksSnapshot)) (t, BooksSnapshot) =
        books_snapshot (fire_timer ((books_snapshot s0)\<lparr>clock := max t (clock (books_snapshot s0))\<rparr>))"
    by (simp add: s0_def)
  also have "(books_snapshot s0)\<lparr>clock := max t (clock (books_snapshot s0))\<rparr> = books_snapshot s0"
    using c by simp
  also have "books_snapshot (fire_timer (books_snapshot s0)) = books_snapshot s0"
    by (simp add: fire_timer_books_snapshot s0_def)
  finally show ?thesis by (simp add: s0_def)
qed

text \<open>Signing out empties the books and collections, detaches both listeners and forgets the user, but keeps the settings object unchanged.\<close>

lemma sign_out_clears:
  "s_books (step s (t, SignOut)) = [] \<and> s_collections (step s (t, SignOut)) = [] \<and>
   sub_books (step s (t, SignOut)) = None \<and> sub_cols (step s (t, SignOut)) = None \<and>
   current_user (step s (t, SignOut)) = None \<and> s_settings (step s (t, SignOut)) = s_settings s"
  by (simp add: sign_out_def)

text \<open>C13. When a user who has no settings document signs in, the settings shown are those already in memory, so the previous user's display name and goal carry over.\<close>

theorem settings_inherited:
  assumes "r_settings (remote s u) = None"
  shows "s_settings (step s (t, AuthReady (Some u))) = s_settings s"
proof -
  let ?s0 = "fire_timer (s\<lparr>clock := max t (clock s)\<rparr>)"
  have "r_settings (remote ?s0 u) = None \<or> r_settings (remote ?s0 u) = Some (s_settings s)"
    using assms by (auto simp: fire_timer_def update_user_def split: option.splits)
  then show ?thesis
    by (auto simp: load_settings_def subscribe_def)
qed

theorem settings_inherited_witness:
  "r_settings (remote (run fresh_session [(0, AuthReady (Some ''alice'')),
      (100, SaveDisplayName ''Alice''), (200, SignOut)]) ''bob'') = None \<and>
   displayName (s_settings (step (run fresh_session [(0, AuthReady (Some ''alice'')),
      (100, SaveDisplayName ''Alice''), (200, SignOut)]) (300, AuthReady (Some ''bob'')))) = Some ''Alice''"
proof -
  let ?s = "run fresh_session [(0, AuthReady (Some ''alice'')), (100, SaveDisplayName ''Alice''), (200, SignOut)]"
  have h: "r_settings (remote ?s ''bob'') = None" and d: "displayName (s_settings ?s) = Some ''Alice''"
    by (simp_all add: session_defs)
  show ?thesis using h d settings_inherited [OF h, of 300] by simp
qed

text \<open>C14. A due debounced settings write goes to whoever is signed in when it fires, with the settings in memory at that moment, whoever scheduled it.\<close>

theorem pending_write_current_user:
  assumes "current_user s = Some v" and "sync_timer s = Some d" and "d \<le> t"
  shows "write_log (step s (t, Idle)) = write_log s @ [WSettings v (s_settings s)]"
  using assms by (simp add: fire_timer_def update_user_def)

theorem pending_write_current_user_witness:
  "current_user alice_then_bob = Some ''bob'' \<and> sync_timer alice_then_bob = Some 900 \<and>
   (900::int) \<le> 1000 \<and>
   write_log (step alice_then_bob (1000, Idle)) = [WSettings ''bob'' (s_settings alice_then_bob)] \<and>
   displayName (s_settings alice_then_bob) = Some ''Alice''"
  using alice_then_bob_state pending_write_current_user [of alice_then_bob "''bob''" 900 1000]
  by simp

text \<open>Remote snapshots never write the local cache: it changes only through \<open>save\<close>.\<close>

lemma cache_snapshots:
  "cache (step s (t, BooksSnapshot)) = cache s \<and> cache (step s (t, CollectionsSnapshot)) = cache s"
  by (simp add: books_snapshot_def cols_snapshot_def split: option.splits)

text \<open>A sign-in event does not touch the book list: until the new listener delivers, the list shown is the previous one.\<close>

lemma auth_keeps_books: "s_books (step s (t, AuthReady (Some u))) = s_books s"
  by (simp add: subscribe_def)

end
