(* ===== verification/Book_Form.thy ===== *)
theory Book_Form
  imports Sync
begin

text \<open>The book modal of \<open>src/app.js\<close>: the tag input (\<open>getTagsFromInput\<close>,
  \<open>setTagsInForm\<close>, \<open>handleTagInput\<close>, \<open>addTag\<close>, \<open>removeTag\<close>), which keeps the
  tags of the form in a hidden input joined by \<open>|||\<close>; the star rating; and the three
  form handlers \<open>saveBook\<close>, \<open>deleteCurrentBook\<close> and \<open>saveCollection\<close>, which validate
  the form and then call the Firestore writers of \<open>Sync\<close>. The DOM form is the record
  \<open>book_form\<close> of the values the handlers read; \<open>genId()\<close> and \<open>confirm()\<close> are
  arguments. A validation failure is a value of \<open>form_error\<close>.\<close>

section \<open>Tag input\<close>

text \<open>The hidden input holds the string \<open>h\<close>; \<open>get_tags\<close> reads it and \<open>set_tags\<close>
  writes it. \<open>tag_reach\<close> collects the values the hidden input can hold: cleared when
  the modal opens, loaded from a saved book, or changed by a key or a chip's remove
  button. A typed tag never holds \<open>|\<close> (\<open>tag_key\<close>'s premise), see the finding below.\<close>

definition get_tags :: "string \<Rightarrow> string list" where
  "get_tags h = (if h = [] then [] else filter (\<lambda>t. t \<noteq> []) (js_split ''|||'' h))"

definition set_tags :: "string list \<Rightarrow> string" where
  "set_tags ts = js_join ''|||'' ts"

definition add_tag :: "string \<Rightarrow> string \<Rightarrow> string" where
  "add_tag h t = (let ts = get_tags h in if t \<in> set ts then h else set_tags (ts @ [t]))"

definition remove_tag :: "string \<Rightarrow> string \<Rightarrow> string" where
  "remove_tag h t = set_tags (filter (\<lambda>x. x \<noteq> t) (get_tags h))"

datatype tag_key = KeyEnter | KeyComma | KeyBackspace | KeyOther



definition tag_ok :: "string \<Rightarrow> bool" where
  "tag_ok t \<longleftrightarrow> t \<noteq> [] \<and> CHR ''|'' \<notin> set t"

definition tags_wf :: "string \<Rightarrow> bool" where
  "tags_wf h \<longleftrightarrow> h = set_tags (get_tags h) \<and> distinct (get_tags h) \<and> list_all tag_ok (get_tags h)"


section \<open>The book form\<close>

text \<open>\<open>currentRating = currentRating === val ? 0 : val\<close>.\<close>

definition set_rating :: "int \<Rightarrow> int \<Rightarrow> int" where
  "set_rating cur v = (if cur = v then 0 else v)"

record book_form =
  f_title :: string
  f_author :: string
  f_genre :: string
  f_isbn :: string
  f_status :: status
  f_date_read :: string
  f_date_started :: string
  f_tags :: string
  f_pages :: string
  f_pages_read :: string
  f_rating :: int
  f_own_physical :: bool
  f_own_digital :: bool
  f_own_borrowed :: bool
  f_copies :: string
  f_borrowed_from :: string
  f_notes :: string
  f_cover_url :: string
  f_cols :: "string list"
  f_desc :: string

text \<open>\<open>parseInt(x) || d\<close>: NaN and 0 both fall back to \<open>d\<close>.\<close>

definition js_or_int :: "int option \<Rightarrow> int \<Rightarrow> int" where
  "js_or_int v d = (case v of Some n \<Rightarrow> if n = 0 then d else n | None \<Rightarrow> d)"

text \<open>\<open>bookData\<close> spread over a base object (\<open>{ ...existing, ...bookData }\<close>).\<close>

definition book_data :: "book_form \<Rightarrow> book \<Rightarrow> book" where
  "book_data f b =
     b\<lparr>title := js_trim (f_title f),
       author := (if js_trim (f_author f) = [] then ''Unknown'' else js_trim (f_author f)),
       genre := js_trim (f_genre f), isbn := js_trim (f_isbn f), status := f_status f,
       dateRead := f_date_read f, dateStarted := f_date_started f, tags := get_tags (f_tags f),
       pages := js_or_int (js_parse_int (f_pages f)) 0,
       pagesRead := js_or_int (js_parse_int (f_pages_read f)) 0,
       rating := f_rating f, ownPhysical := f_own_physical f, ownDigital := f_own_digital f,
       ownBorrowed := f_own_borrowed f,
       copies := js_or_int (js_parse_int (f_copies f)) (if f_own_physical f then 1 else 0),
       borrowedFrom := js_trim (f_borrowed_from f), book_notes := js_trim (f_notes f),
       coverUrl := js_trim (f_cover_url f), collections := f_cols f, description := f_desc f\<rparr>"

datatype form_error = EmptyTitle | NotSignedIn | EmptyName

text \<open>\<open>saveBook\<close>: the two validations return before any write. An edit spreads the form
  over the book in the list; when that book is no longer there the object has no
  \<open>id\<close>, \<open>doc(booksCol(), undefined)\<close> throws inside the \<open>try\<close> of
  \<open>saveBookToFirestore\<close>, and the write fails. A new book gets the fresh id and
  \<open>dateAdded\<close>; \<open>updatedAt\<close> is the server time set by \<open>saveBookToFirestore\<close>.\<close>

definition save_book :: "session \<Rightarrow> book_form \<Rightarrow> string option \<Rightarrow> string \<Rightarrow> bool \<Rightarrow> form_error + session" where
  "save_book s f editing new_id ok =
     (if js_trim (f_title f) = [] then Inl EmptyTitle
      else if current_user s = None then Inl NotSignedIn
      else case editing of
        Some eid \<Rightarrow>
          (case find (\<lambda>b. book_id b = eid) (s_books s) of
             Some ex \<Rightarrow> Inr (save_book_remote s (book_data f ex) ok)
           | None \<Rightarrow> Inr (save_book_remote s (book_data f default_book) False))
      | None \<Rightarrow> Inr (save_book_remote s ((book_data f default_book)\<lparr>book_id := new_id, dateAdded := clock s\<rparr>) ok))"

definition delete_current_book :: "session \<Rightarrow> string option \<Rightarrow> bool \<Rightarrow> bool \<Rightarrow> session" where
  "delete_current_book s editing confirmed ok =
     (case editing of
        None \<Rightarrow> s
      | Some eid \<Rightarrow>
          (case find (\<lambda>b. book_id b = eid) (s_books s) of
             None \<Rightarrow> s
           | Some b \<Rightarrow> if confirmed then delete_book_remote s eid ok else s))"

definition save_collection :: "session \<Rightarrow> string \<Rightarrow> string \<Rightarrow> string \<Rightarrow> form_error + session" where
  "save_collection s raw em new_id =
     (let name = js_trim raw in
      if name = [] then Inl EmptyName
      else Inr (save_collection_remote s \<lparr>col_id = new_id, col_name = name, emoji = em, createdAt = clock s\<rparr>))"

section \<open>Opening the modal\<close>

text \<open>The modal's inputs keep their values between openings: \<open>book_form\<close> is that state.
  \<open>clearBookForm\<close> empties the inputs, the status, the tags, the ownership boxes and the
  rating, but neither the collection checkboxes nor the description display
  (\<open>modal-book-desc-display\<close>), which \<open>saveBook\<close> reads back.\<close>

definition clear_book_form :: "book_form \<Rightarrow> book_form" where
  "clear_book_form f =
     f\<lparr>f_title := [], f_author := [], f_genre := [], f_isbn := [], f_date_read := [], f_date_started := [],
       f_notes := [], f_copies := [], f_borrowed_from := [], f_cover_url := [], f_pages := [],
       f_pages_read := [], f_status := Want, f_tags := [], f_own_physical := False,
       f_own_digital := False, f_own_borrowed := False, f_rating := 0\<rparr>"

text \<open>\<open>x || ''\<close> for a number written into an input.\<close>

definition form_int :: "int \<Rightarrow> string" where
  "form_int n = (if n = 0 then [] else js_int_string n)"

text \<open>\<open>openAddModal(prefill)\<close>: no book is edited; a prefill (a search result, with the
  fields of a book) fills title, author, genre, ISBN, pages, cover and tags, and the
  description display only when it has a description; no collection is ticked.\<close>

definition open_add_modal :: "book_form \<Rightarrow> book option \<Rightarrow> string option \<times> book_form" where
  "open_add_modal f prefill =
     (let f0 = clear_book_form f;
          f1 = (case prefill of
                  None \<Rightarrow> f0
                | Some p \<Rightarrow> f0\<lparr>f_title := title p, f_author := author p, f_genre := genre p,
                                f_isbn := isbn p, f_pages := form_int (pages p), f_cover_url := coverUrl p,
                                f_tags := set_tags (tags p),
                                f_desc := (if description p \<noteq> [] then description p else f_desc f0)\<rparr>)
      in (None, f1\<lparr>f_cols := []\<rparr>))"

text \<open>\<open>openEditModal(bookId)\<close>: nothing happens when the book is not in the list;
  otherwise every input is set from the book, without \<open>clearBookForm\<close>, so the
  description display changes only when the book has a description. The collection
  checkboxes exist only for collections in the list, in its order, and are ticked when
  the book lists them.\<close>

definition open_edit_modal :: "session \<Rightarrow> string \<Rightarrow> book_form \<Rightarrow> (string option \<times> book_form) option" where
  "open_edit_modal s i f =
     (case find (\<lambda>b. book_id b = i) (s_books s) of
        None \<Rightarrow> None
      | Some b \<Rightarrow> Some (Some i,
          f\<lparr>f_title := title b, f_author := author b, f_genre := genre b, f_isbn := isbn b,
            f_status := status b, f_date_read := dateRead b, f_date_started := dateStarted b,
            f_tags := set_tags (tags b), f_pages := form_int (pages b), f_pages_read := form_int (pagesRead b),
            f_copies := form_int (copies b), f_borrowed_from := borrowedFrom b, f_notes := book_notes b,
            f_cover_url := coverUrl b, f_rating := rating b, f_own_physical := ownPhysical b,
            f_own_digital := ownDigital b, f_own_borrowed := ownBorrowed b,
            f_desc := (if description b \<noteq> [] then description b else f_desc f),
            f_cols := filter (\<lambda>c. c \<in> set (collections b)) (map col_id (s_collections s))\<rparr>))"

text \<open>A book whose text fields are already trimmed, with a title and an author, and tags
  the tag input can hold.\<close>

definition book_normal :: "book \<Rightarrow> bool" where
  "book_normal b \<longleftrightarrow>
     title b \<noteq> [] \<and> js_trim (title b) = title b \<and> author b \<noteq> [] \<and> js_trim (author b) = author b \<and>
     js_trim (genre b) = genre b \<and> js_trim (isbn b) = isbn b \<and> js_trim (borrowedFrom b) = borrowedFrom b \<and>
     js_trim (book_notes b) = book_notes b \<and> js_trim (coverUrl b) = coverUrl b \<and> list_all tag_ok (tags b)"

text \<open>Scenario: a signed-in session whose library holds one book, and a form that edits it.\<close>

definition ed_book :: book where
  "ed_book = default_book\<lparr>book_id := ''b2'', title := ''Dune'', author := ''Frank Herbert'', dateAdded := 7\<rparr>"

definition ed_session :: session where
  "ed_session = signed_in\<lparr>s_books := [ed_book]\<rparr>"

definition ed_form :: book_form where
  "ed_form = \<lparr>f_title = '' Dune Messiah '', f_author = [], f_genre = ''SF'', f_isbn = [],
     f_status = Read, f_date_read = ''2026-01-02'', f_date_started = [], f_tags = ''classic|||space'',
     f_pages = ''256'', f_pages_read = [], f_rating = 4, f_own_physical = True, f_own_digital = False,
     f_own_borrowed = False, f_copies = [], f_borrowed_from = [], f_notes = [], f_cover_url = [],
     f_cols = [], f_desc = []\<rparr>"

section \<open>Tags\<close>

lemma get_set_tags: "list_all tag_ok ts \<Longrightarrow> get_tags (set_tags ts) = ts"
proof (cases "ts = []")
  case False
  assume ok: "list_all tag_ok ts"
  then have "\<forall>x \<in> set ts. hd ''|||'' \<notin> set x" by (simp add: list_all_iff tag_ok_def)
  then have sp: "js_split ''|||'' (js_join ''|||'' ts) = ts"
    using False by (intro js_split_join) simp_all
  have ne: "set_tags ts \<noteq> []"
  proof
    assume "set_tags ts = []"
    then have "ts = [[]]" using sp by (simp add: set_tags_def js_split_def)
    then show False using ok by (simp add: tag_ok_def)
  qed
  have "filter (\<lambda>t. t \<noteq> []) ts = ts"
    using ok by (simp add: filter_id_conv list_all_iff tag_ok_def)
  then show ?thesis using sp ne by (simp add: get_tags_def set_tags_def)
qed (simp add: get_tags_def set_tags_def)







text \<open>\<open>addTag\<close> appends a new tag and ignores one already present;
  \<open>removeTag\<close> removes every copy of the tag and keeps the order of the others.\<close>

lemma tag_ops_spec:
  assumes "tags_wf h" and "tag_ok t"
  shows "get_tags (add_tag h t) = (if t \<in> set (get_tags h) then get_tags h else get_tags h @ [t]) \<and>
         get_tags (remove_tag h t) = filter (\<lambda>x. x \<noteq> t) (get_tags h)"
proof -
  have ok: "list_all tag_ok (get_tags h)" using assms(1) by (simp add: tags_wf_def)
  have "get_tags (add_tag h t) = (if t \<in> set (get_tags h) then get_tags h else get_tags h @ [t])"
    using ok assms(2) by (simp add: add_tag_def Let_def get_set_tags)
  moreover have "get_tags (remove_tag h t) = filter (\<lambda>x. x \<noteq> t) (get_tags h)"
    using ok by (simp add: remove_tag_def get_set_tags list_all_iff)
  ultimately show ?thesis ..
qed

section \<open>Saving a book\<close>

text \<open>C21. \<open>saveBook\<close> fails exactly on its two validations, in the order of the code:
  an empty trimmed title first, then no signed-in user; every other call reaches
  \<open>saveBookToFirestore\<close>.\<close>

theorem save_book_errors:
  "save_book s f e i ok = Inl err \<longleftrightarrow>
     (err = EmptyTitle \<and> js_trim (f_title f) = []) \<or>
     (err = NotSignedIn \<and> js_trim (f_title f) \<noteq> [] \<and> current_user s = None)"
  by (auto simp: save_book_def split: option.splits)

text \<open>Editing a book that is in the list, with the write succeeding, stores under
  its id the form spread over the old book: the id and \<open>dateAdded\<close> are kept, the tags
  are those of the tag input, and \<open>updatedAt\<close> is the time of the save.\<close>

lemma save_book_edit:
  assumes "save_book s f (Some eid) i True = Inr s'" and "find (\<lambda>b. book_id b = eid) (s_books s) = Some ex"
    and "current_user s = Some u"
  shows "map_of (r_books (remote s' u)) eid =
           Some ((book_data f ex)\<lparr>updatedAt := clock s\<rparr>) \<and>
         book_id ((book_data f ex)\<lparr>updatedAt := clock s\<rparr>) = eid \<and>
         dateAdded ((book_data f ex)\<lparr>updatedAt := clock s\<rparr>) = dateAdded ex \<and>
         tags ((book_data f ex)\<lparr>updatedAt := clock s\<rparr>) = get_tags (f_tags f)"
proof -
  have eid: "book_id ex = eid" using assms(2) by (auto simp: find_Some_iff)
  have "js_trim (f_title f) \<noteq> []" using assms(1) by (auto simp: save_book_def)
  then have "s' = save_book_remote s (book_data f ex) True"
    using assms by (simp add: save_book_def)
  moreover have "book_id (book_data f ex) = eid" "dateAdded (book_data f ex) = dateAdded ex"
    "tags (book_data f ex) = get_tags (f_tags f)"
    using eid by (simp_all add: book_data_def)
  ultimately show ?thesis
    using assms(3) by (simp add: save_book_remote_def update_user_def update_conv')
qed

lemma save_book_new:
  assumes "save_book s f None i True = Inr s'" and "current_user s = Some u"
  shows "\<exists>d. map_of (r_books (remote s' u)) i = Some d \<and> book_id d = i \<and> title d = js_trim (f_title f) \<and>
             title d \<noteq> [] \<and> author d \<noteq> [] \<and> dateAdded d = clock s \<and> updatedAt d = clock s \<and>
             tags d = get_tags (f_tags f)"
proof -
  have t: "js_trim (f_title f) \<noteq> []" using assms(1) by (auto simp: save_book_def)
  then have "s' = save_book_remote s ((book_data f default_book)\<lparr>book_id := i, dateAdded := clock s\<rparr>) True"
    using assms by (simp add: save_book_def)
  then show ?thesis
    using assms(2) t by (simp add: save_book_remote_def update_user_def update_conv' book_data_def)
qed

section \<open>Editing without changes\<close>

lemma is_digit_not_sign: "is_digit c \<Longrightarrow> \<not> js_space c \<and> c \<noteq> CHR ''-'' \<and> c \<noteq> CHR ''+''"
  by (auto simp: is_digit_def js_space_def)

lemma js_parse_int_digits:
  assumes "list_all is_digit ds" and "ds \<noteq> []"
  shows "js_parse_int ds = Some (dec_val ds)" and "js_parse_int (CHR ''-'' # ds) = Some (- dec_val ds)"
proof -
  obtain c cs where c: "ds = c # cs" using assms(2) by (cases ds) auto
  have "is_digit c" using assms(1) c by simp
  then have n: "\<not> js_space c" "c \<noteq> CHR ''-''" "c \<noteq> CHR ''+''" using is_digit_not_sign by blast+
  have tw: "takeWhile is_digit ds = ds" using assms(1) by (simp add: list_all_iff)
  show "js_parse_int ds = Some (dec_val ds)"
  proof -
    have tc: "takeWhile is_digit cs = cs" using assms(1) c by (simp add: list_all_iff)
    show ?thesis using n \<open>is_digit c\<close> unfolding c by (simp add: js_parse_int_def Let_def tc)
  qed
  show "js_parse_int (CHR ''-'' # ds) = Some (- dec_val ds)"
    using assms(2) by (simp add: js_parse_int_def js_space_def Let_def tw)
qed

lemma js_parse_int_string: "js_parse_int (js_int_string n) = Some n"
  using js_parse_int_digits [OF digits_dec_string dec_string_ne, of "nat n"]
        js_parse_int_digits [OF digits_dec_string dec_string_ne, of "nat (- n)"]
  by (simp add: js_int_string_def)

lemma js_parse_int_Nil: "js_parse_int [] = None"
  by (simp add: js_parse_int_def)

lemma form_int_back: "js_or_int (js_parse_int (form_int n)) d = (if n = 0 then d else n)"
  by (simp add: form_int_def js_or_int_def js_parse_int_string js_parse_int_Nil)

lemma open_edit_modal_Some:
  "open_edit_modal s i f = Some (e, f') \<Longrightarrow> find (\<lambda>b. book_id b = i) (s_books s) = Some b \<Longrightarrow>
   e = Some i \<and> book_data f' b =
     b\<lparr>title := js_trim (title b), author := (if js_trim (author b) = [] then ''Unknown'' else js_trim (author b)),
       genre := js_trim (genre b), isbn := js_trim (isbn b), tags := get_tags (set_tags (tags b)),
       copies := (if copies b = 0 \<and> ownPhysical b then 1 else copies b),
       borrowedFrom := js_trim (borrowedFrom b), book_notes := js_trim (book_notes b),
       coverUrl := js_trim (coverUrl b),
       collections := filter (\<lambda>c. c \<in> set (collections b)) (map col_id (s_collections s)),
       description := (if description b \<noteq> [] then description b else f_desc f)\<rparr>"
proof -
  assume o: "open_edit_modal s i f = Some (e, f')" and fb: "find (\<lambda>b. book_id b = i) (s_books s) = Some b"
  have e: "e = Some i" and f': "f' =
          f\<lparr>f_title := title b, f_author := author b, f_genre := genre b, f_isbn := isbn b,
            f_status := status b, f_date_read := dateRead b, f_date_started := dateStarted b,
            f_tags := set_tags (tags b), f_pages := form_int (pages b), f_pages_read := form_int (pagesRead b),
            f_copies := form_int (copies b), f_borrowed_from := borrowedFrom b, f_notes := book_notes b,
            f_cover_url := coverUrl b, f_rating := rating b, f_own_physical := ownPhysical b,
            f_own_digital := ownDigital b, f_own_borrowed := ownBorrowed b,
            f_desc := (if description b \<noteq> [] then description b else f_desc f),
            f_cols := filter (\<lambda>c. c \<in> set (collections b)) (map col_id (s_collections s))\<rparr>"
    using o fb by (simp_all add: open_edit_modal_def)
  have "book_data f' b =
     b\<lparr>title := js_trim (title b), author := (if js_trim (author b) = [] then ''Unknown'' else js_trim (author b)),
       genre := js_trim (genre b), isbn := js_trim (isbn b), tags := get_tags (set_tags (tags b)),
       copies := (if copies b = 0 \<and> ownPhysical b then 1 else copies b),
       borrowedFrom := js_trim (borrowedFrom b), book_notes := js_trim (book_notes b),
       coverUrl := js_trim (coverUrl b),
       collections := filter (\<lambda>c. c \<in> set (collections b)) (map col_id (s_collections s)),
       description := (if description b \<noteq> [] then description b else f_desc f)\<rparr>"
    unfolding f' book_data_def by (rule book.equality) (simp_all add: form_int_back)
  with e show ?thesis ..
qed

text \<open>C22. Opening a listed book in the edit modal and saving it unchanged, with the write
  succeeding, stores the book as it was, stamped with the save time, except for three
  things the form does to it: zero copies of a physical book become one, the collection
  ids keep only those of existing collections in the order of the collection list, and
  a book without a description takes the one left in the modal by the book shown
  before.\<close>

theorem edit_roundtrip:
  assumes "open_edit_modal s i f = Some (e, f')" and "find (\<lambda>b. book_id b = i) (s_books s) = Some b"
    and "book_normal b" and "current_user s = Some u" and "save_book s f' e new_id True = Inr s'"
  shows "map_of (r_books (remote s' u)) i =
           Some (b\<lparr>copies := (if copies b = 0 \<and> ownPhysical b then 1 else copies b),
                   collections := filter (\<lambda>c. c \<in> set (collections b)) (map col_id (s_collections s)),
                   description := (if description b \<noteq> [] then description b else f_desc f),
                   updatedAt := clock s\<rparr>)"
proof -
  note o = open_edit_modal_Some [OF assms(1,2)]
  have t: "get_tags (set_tags (tags b)) = tags b"
    using assms(3) by (simp add: book_normal_def get_set_tags)
  have "map_of (r_books (remote s' u)) i = Some ((book_data f' b)\<lparr>updatedAt := clock s\<rparr>)"
    using save_book_edit [of s f' i new_id s' b u] assms(2,4,5) o by simp
  then show ?thesis using o t assms(3) by (simp add: book_normal_def)
qed

lemma add_modal_keeps_description:
  "f_desc (snd (open_add_modal f None)) = f_desc f \<and> description (book_data (snd (open_add_modal f None)) b) = f_desc f"
  by (simp add: open_add_modal_def clear_book_form_def book_data_def)

text \<open>A tag typed with a \<open>|\<close> is not read back as typed: the join \<open>a||||||b\<close> splits
  at the first \<open>|||\<close>.\<close>

lemma tag_pipe_corrupts: "get_tags (set_tags [''a|'', ''b'']) = [''a'', ''|b'']"
  by code_simp

section \<open>Witnesses\<close>



theorem save_book_errors_witness:
  "save_book fresh_session ed_form None ''n'' True = Inl NotSignedIn"
  using save_book_errors [of fresh_session ed_form None "''n''" True NotSignedIn]
  by (simp add: ed_form_def fresh_session_def boot_def js_trim_def js_space_def)

theorem edit_roundtrip_witness:
  "(case open_edit_modal ed_session ''b2'' ed_form of
      None \<Rightarrow> None
    | Some (e, f') \<Rightarrow> (case save_book ed_session f' e ''n'' True of
                        Inl _ \<Rightarrow> None
                      | Inr s' \<Rightarrow> map_of (r_books (remote s' ''alice'')) ''b2'')) = Some ed_book"
proof -
  have fb: "find (\<lambda>b. book_id b = ''b2'') (s_books ed_session) = Some ed_book"
    by (simp add: ed_session_def ed_book_def)
  obtain f' where o: "open_edit_modal ed_session ''b2'' ed_form = Some (Some ''b2'', f')"
    using fb by (simp add: open_edit_modal_def)
  have u: "current_user ed_session = Some ''alice''" "clock ed_session = 0" "s_collections ed_session = []"
    by (simp_all add: ed_session_def signed_in_def session_defs subscribe_def load_settings_def)
  have n: "book_normal ed_book"
    by (simp add: book_normal_def ed_book_def default_book_def js_trim_def js_space_def)
  have t: "f_title f' = ''Dune''" using o fb by (auto simp: open_edit_modal_def ed_book_def)
  have "js_trim (f_title f') \<noteq> []" unfolding t by (simp add: js_trim_def js_space_def)
  then have sv: "save_book ed_session f' (Some ''b2'') ''n'' True =
                 Inr (save_book_remote ed_session (book_data f' ed_book) True)"
    using u fb by (simp add: save_book_def)
  have d: "f_desc ed_form = []" by (simp add: ed_form_def)
  have "map_of (r_books (remote (save_book_remote ed_session (book_data f' ed_book) True) ''alice'')) ''b2'' =
        Some ed_book"
    using edit_roundtrip [OF o fb n u(1) sv] u d by (simp add: ed_book_def default_book_def)
  then show ?thesis using o sv by simp
qed

end
