(* ===== verification/Import_Export.thy ===== *)
theory Import_Export
  imports Book_Form
begin

text \<open>Import and export of the library in \<open>src/app.js\<close>: \<open>parseCSV\<close> (lines 22-37),
  \<open>importGoodreads\<close>, which turns each CSV row into a book unless its title is already
  in the library, \<open>importShelfwise\<close>, which replays a JSON backup through the Firestore
  writers of \<open>Sync\<close>, and \<open>exportData\<close> in its two formats. The file picker and
  \<open>FileReader\<close> are not modelled: the handlers take the file's text, or the parsed JSON
  object, as an argument. \<open>import_error\<close> is the one error the Goodreads import reports.
  The lemmas show the CSV export is read back field for field by \<open>parseCSV\<close> when the
  text fields are plain, and record what the Goodreads import does to a concrete file.\<close>

section \<open>parseCSV\<close>

definition strip_quotes :: "string \<Rightarrow> string" where
  "strip_quotes s =
     (let s1 = (case s of c # cs \<Rightarrow> if c = CHR 0x22 then cs else s | [] \<Rightarrow> [])
      in if s1 \<noteq> [] \<and> last s1 = CHR 0x22 then butlast s1 else s1)"

definition csv_clean :: "string \<Rightarrow> string" where
  "csv_clean v = strip_quotes (js_trim v)"

fun csv_scan :: "string \<Rightarrow> bool \<Rightarrow> string \<Rightarrow> string list \<Rightarrow> string list" where
  "csv_scan [] q cur vals = rev (rev cur # vals)"
| "csv_scan (c # cs) q cur vals =
     (if c = CHR 0x22 then csv_scan cs (\<not> q) cur vals
      else if c = CHR '','' \<and> \<not> q then csv_scan cs q [] (rev cur # vals)
      else csv_scan cs q (c # cur) vals)"

definition csv_fields :: "string \<Rightarrow> string list" where
  "csv_fields line = csv_scan line False [] []"

definition csv_row :: "string list \<Rightarrow> string list \<Rightarrow> (string \<times> string) list" where
  "csv_row headers vals =
     map (\<lambda>i. (headers ! i, csv_clean (if i < length vals then vals ! i else []))) [0..<length headers]"

text \<open>\<open>row[k]\<close> on the object \<open>Object.fromEntries\<close> built: the last entry of the key,
  \<open>None\<close> for undefined.\<close>

definition row_get :: "(string \<times> string) list \<Rightarrow> string \<Rightarrow> string option" where
  "row_get row k = map_of (rev row) k"

definition parse_csv :: "string \<Rightarrow> (string \<times> string) list list" where
  "parse_csv text =
     (let lines = js_split ''\<newline>'' text;
          headers = map csv_clean (js_split '','' (hd lines))
      in map (\<lambda>l. csv_row headers (csv_fields l)) (filter (\<lambda>l. js_trim l \<noteq> []) (tl lines)))"

section \<open>Goodreads import\<close>

definition int_of_field :: "string option \<Rightarrow> int" where
  "int_of_field v = js_or_int (case v of Some x \<Rightarrow> js_parse_int x | None \<Rightarrow> None) 0"

definition gr_status :: "string \<Rightarrow> status" where
  "gr_status shelf =
     (if shelf = ''read'' then Read else if shelf = ''currently-reading'' then Reading else Want)"

definition is_word_char :: "char \<Rightarrow> bool" where
  "is_word_char c \<longleftrightarrow>
     is_digit c \<or> (CHR ''a'' \<le> c \<and> c \<le> CHR ''z'') \<or> (CHR ''A'' \<le> c \<and> c \<le> CHR ''Z'') \<or> c = CHR ''_''"

text \<open>\<open>s.replace(/,\s*(\w+)\s*$/, ' $1')\<close>: only the last comma can start a match, since
  the rest of the string must be spaces and one word; the match becomes a space and the
  word.\<close>

definition author_fix :: "string \<Rightarrow> string" where
  "author_fix s =
     (let sr = takeWhile (\<lambda>c. c \<noteq> CHR '','') (rev s) in
      if length sr = length s then s
      else
        (let suf = rev sr; pre = take (length s - length sr - 1) s;
             w = takeWhile is_word_char (dropWhile js_space suf);
             rest = dropWhile is_word_char (dropWhile js_space suf)
         in if w \<noteq> [] \<and> list_all js_space rest then pre @ CHR '' '' # w else s))"

definition gr_excluded :: "string list" where
  "gr_excluded = [''read'', ''currently-reading'', ''to-read'']"

text \<open>One row of \<open>rows.forEach\<close> in \<open>importGoodreads\<close>: \<open>None\<close> when the row is skipped
  (no title, or a book of the library has the same title ignoring case).\<close>

definition gr_book :: "book list \<Rightarrow> string \<Rightarrow> int \<Rightarrow> (string \<times> string) list \<Rightarrow> book option" where
  "gr_book bs new_id now row =
     (let title_v = js_or_str (row_get row ''Title'') (row_get row ''title'');
          author_v = js_or_str (js_or_str (row_get row ''Author'') (row_get row ''author'')) (row_get row ''Author l-f'')
      in case title_v of
           None \<Rightarrow> None
         | Some t \<Rightarrow>
             if t = [] then None
             else if (\<exists>b \<in> set bs. js_lower (title b) = js_lower t) then None
             else Some (default_book\<lparr>
               book_id := new_id, title := js_trim t,
               author := js_trim (author_fix (str_or author_v ''Unknown'')),
               genre := [],
               tags := filter (\<lambda>x. x \<noteq> [] \<and> js_lower x \<notin> set gr_excluded)
                         (map js_trim (js_split '','' (str_or (js_or_str (row_get row ''Bookshelves'')
                                                           (row_get row ''Bookshelves with positions'')) []))),
               status := gr_status (js_lower (str_or (row_get row ''Exclusive Shelf'') ''to-read'')),
               rating := int_of_field (js_or_str (row_get row ''My Rating'') (row_get row ''rating'')),
               dateRead := str_or (row_get row ''Date Read'') [],
               pages := int_of_field (js_or_str (row_get row ''Number of Pages'') (row_get row ''pages'')),
               book_notes := str_or (row_get row ''My Review'') [],
               dateAdded := now, collections := []\<rparr>))"

text \<open>The batch: one fresh id (\<open>gen k\<close>, the \<open>k\<close>-th call of \<open>genId\<close>) per accepted row;
  the duplicate test looks at the library only, not at the rows accepted before.\<close>

fun gr_batch :: "book list \<Rightarrow> (nat \<Rightarrow> string) \<Rightarrow> int \<Rightarrow> nat \<Rightarrow> (string \<times> string) list list \<Rightarrow> book list" where
  "gr_batch bs gen now k [] = []"
| "gr_batch bs gen now k (r # rs) =
     (case gr_book bs (gen k) now r of
        None \<Rightarrow> gr_batch bs gen now k rs
      | Some b \<Rightarrow> b # gr_batch bs gen now (Suc k) rs)"

datatype import_error = NoBooksFound

definition import_goodreads :: "session \<Rightarrow> string \<Rightarrow> (nat \<Rightarrow> string) \<Rightarrow> bool \<Rightarrow> import_error + nat \<times> session" where
  "import_goodreads s text gen ok =
     (let rows = parse_csv text in
      if rows = [] then Inl NoBooksFound
      else (let batch = gr_batch (s_books s) gen (clock s) 0 rows
            in Inr (length batch, foldl (\<lambda>s b. save_book_remote s b ok) s batch)))"

section \<open>JSON backup\<close>

text \<open>The parsed backup object; each field may be absent. \<open>JSON.stringify\<close> and
  \<open>JSON.parse\<close> of these plain objects are taken to be inverse.\<close>

record backup =
  bk_books :: "book list option"
  bk_cols :: "collection list option"
  bk_settings :: "settings option"

definition export_backup :: "session \<Rightarrow> backup" where
  "export_backup s = \<lparr>bk_books = Some (s_books s), bk_cols = Some (s_collections s), bk_settings = Some (s_settings s)\<rparr>"

definition import_backup :: "session \<Rightarrow> backup \<Rightarrow> session" where
  "import_backup s d =
     (let s1 = (case bk_books d of Some bs \<Rightarrow> foldl (\<lambda>s b. save_book_remote s b True) s bs | None \<Rightarrow> s);
          s2 = (case bk_cols d of Some cs \<Rightarrow> foldl save_collection_remote s1 cs | None \<Rightarrow> s1)
      in case bk_settings d of
           Some st \<Rightarrow> schedule_settings_write (s2\<lparr>s_settings := merge_settings (s_settings s2) st\<rparr>)
         | None \<Rightarrow> s2)"

section \<open>CSV export\<close>

fun status_code :: "status \<Rightarrow> string" where
  "status_code Want = ''want''"
| "status_code Reading = ''reading''"
| "status_code Read = ''read''"
| "status_code Dnf = ''dnf''"
| "status_code Borrowed = ''borrowed''"

fun double_quotes :: "string \<Rightarrow> string" where
  "double_quotes [] = []"
| "double_quotes (c # cs) = (if c = CHR 0x22 then c # c # double_quotes cs else c # double_quotes cs)"

definition csv_cell :: "string \<Rightarrow> string" where
  "csv_cell v = CHR 0x22 # v @ [CHR 0x22]"

definition int_cell :: "int \<Rightarrow> string" where
  "int_cell n = (if n = 0 then [] else js_int_string n)"

definition yes_cell :: "bool \<Rightarrow> string" where
  "yes_cell b = (if b then ''Yes'' else [])"

definition csv_headers :: "string list" where
  "csv_headers = [''Title'', ''Author'', ''Genre'', ''Status'', ''Rating'', ''Date Read'', ''Pages'', ''Notes'',
                  ''Own Physical'', ''Own Digital'', ''Borrowed'']"

definition export_fields :: "book \<Rightarrow> string list" where
  "export_fields b =
     [title b, author b, genre b, status_code (status b), int_cell (rating b), dateRead b, int_cell (pages b),
      double_quotes (book_notes b), yes_cell (ownPhysical b), yes_cell (ownDigital b), yes_cell (ownBorrowed b)]"

definition export_csv :: "book list \<Rightarrow> string" where
  "export_csv bs =
     js_join ''\<newline>'' (js_join '','' csv_headers # map (\<lambda>b. js_join '','' (map csv_cell (export_fields b))) bs)"

section \<open>Conditions for reading an export back\<close>

text \<open>A text field survives the CSV round trip when it has no double quote, no newline
  and no surrounding spaces; the computed cells (status, numbers, \<open>Yes\<close>) are made of
  plain characters only.\<close>

definition csv_safe :: "string \<Rightarrow> bool" where
  "csv_safe v \<longleftrightarrow> CHR 0x22 \<notin> set v \<and> CHR ''\<newline>'' \<notin> set v \<and> js_trim v = v"

definition plain_char :: "char \<Rightarrow> bool" where
  "plain_char c \<longleftrightarrow>
     (of_char c :: nat) = 45 \<or> (48 \<le> (of_char c :: nat) \<and> (of_char c :: nat) \<le> 57) \<or>
     (65 \<le> (of_char c :: nat) \<and> (of_char c :: nat) \<le> 90) \<or> (97 \<le> (of_char c :: nat) \<and> (of_char c :: nat) \<le> 122)"

definition plain_cell :: "string \<Rightarrow> bool" where
  "plain_cell v \<longleftrightarrow> list_all plain_char v"

definition row_line :: "book \<Rightarrow> string" where
  "row_line b = js_join '','' (map csv_cell (export_fields b))"

definition fields_safe :: "book \<Rightarrow> bool" where
  "fields_safe b \<longleftrightarrow> csv_safe (title b) \<and> csv_safe (author b) \<and> csv_safe (genre b) \<and>
     csv_safe (dateRead b) \<and> csv_safe (book_notes b)"

definition gr_sample :: string where
  "gr_sample = ''Title,Author,Exclusive Shelf,My Rating\<newline>Dune,Herbert Frank,read,5''"

section \<open>Examples\<close>

lemma parse_csv_example:
  "parse_csv ''Title,Author\<newline>\"Dune, Messiah\",Herbert\<newline>  \<newline>X'' =
  [[(''Title'', ''Dune, Messiah''), (''Author'', ''Herbert'')], [(''Title'', ''X''), (''Author'', '''')]]"
  by code_simp

lemma author_fix_examples:
  "author_fix ''Herbert, Frank'' = ''Herbert Frank'' \<and> author_fix ''Herbert Frank'' = ''Herbert Frank'' \<and>
   author_fix ''Garcia Marquez, Gabriel Jose'' = ''Garcia Marquez, Gabriel Jose'' \<and> author_fix ''Le Guin,  Ursula '' = ''Le Guin Ursula''"
  by code_simp

text \<open>The CSV export doubles the quotes of the notes, but \<open>parseCSV\<close> drops every
  double quote and reads \<open>""\<close> as two toggles of the quoted state.\<close>

lemma export_notes_quotes_lost:
  "map (\<lambda>r. (row_get r ''Title'', row_get r ''Notes'')) (parse_csv (export_csv [default_book\<lparr>title := ''Dune'', book_notes := ''say \"hi\", ok''\<rparr>]))
  = [(Some ''Dune'', Some ''say hi, ok'')]"
  by code_simp

section \<open>The CSV round trip\<close>

lemma strip_quotes_id: "CHR 0x22 \<notin> set v \<Longrightarrow> strip_quotes v = v"
  by (cases v) (auto simp: strip_quotes_def dest: last_in_set)

lemma csv_clean_id: "CHR 0x22 \<notin> set v \<Longrightarrow> js_trim v = v \<Longrightarrow> csv_clean v = v"
  by (simp add: csv_clean_def strip_quotes_id)

lemma csv_scan_inside:
  "CHR 0x22 \<notin> set v \<Longrightarrow> csv_scan (v @ r) True cur vals = csv_scan r True (rev v @ cur) vals"
  by (induction v arbitrary: cur) auto

lemma csv_scan_cells:
  assumes "vs \<noteq> []" and "\<forall>v \<in> set vs. CHR 0x22 \<notin> set v"
  shows "csv_scan (js_join '','' (map csv_cell vs)) False [] vals = rev vals @ vs"
  using assms
proof (induction vs arbitrary: vals rule: induct_list012)
  case (2 v)
  then show ?case
    using csv_scan_inside [of v "[CHR 0x22]" "[]" vals] by (simp add: csv_cell_def)
next
  case (3 v w ws)
  have "csv_scan (js_join '','' (map csv_cell (v # w # ws))) False [] vals =
        csv_scan (js_join '','' (map csv_cell (w # ws))) False [] (v # vals)"
    using 3 csv_scan_inside [of v "CHR 0x22 # '','' @ js_join '','' (map csv_cell (w # ws))" "[]" vals]
    by (simp add: csv_cell_def)
  then show ?case using 3 by simp
qed simp

lemma set_js_join: "c \<in> set (js_join sep xs) \<Longrightarrow> c \<in> set sep \<or> (\<exists>x \<in> set xs. c \<in> set x)"
  by (induction sep xs rule: js_join.induct) auto

lemma js_int_string_chars: "c \<in> set (js_int_string n) \<Longrightarrow> c = CHR ''-'' \<or> is_digit c"
  using digits_dec_string [of "nat n"] digits_dec_string [of "nat (- n)"]
  by (auto simp: js_int_string_def list_all_iff split: if_splits)

lemma plain_char_facts: "plain_char c \<Longrightarrow> \<not> js_space c \<and> c \<noteq> CHR 0x22 \<and> c \<noteq> CHR ''\<newline>''"
proof -
  assume p: "plain_char c"
  have "\<not> js_space c" using p by (auto simp: js_space_iff plain_char_def)
  moreover have "c \<noteq> CHR 0x22" "c \<noteq> CHR ''\<newline>''" using p by (auto simp: plain_char_def)
  ultimately show ?thesis by simp
qed

lemma plain_cell_safe: "plain_cell v \<Longrightarrow> csv_safe v"
proof -
  assume p: "plain_cell v"
  have f: "\<not> js_space c \<and> c \<noteq> CHR 0x22 \<and> c \<noteq> CHR ''\<newline>''" if "c \<in> set v" for c
    using p that by (intro plain_char_facts) (simp add: plain_cell_def list_all_iff)
  then have "list_all (\<lambda>c. \<not> js_space c) v" by (simp add: list_all_iff)
  then have "js_trim v = v" by (rule js_trim_id)
  moreover have "CHR 0x22 \<notin> set v" "CHR ''\<newline>'' \<notin> set v" using f by blast+
  ultimately show ?thesis by (simp add: csv_safe_def)
qed

lemma plain_char_digit: "is_digit c \<Longrightarrow> plain_char c"
  by (simp add: is_digit_def plain_char_def less_eq_char_def)

lemma plain_cells:
  "plain_cell (status_code st)" "plain_cell (int_cell n)" "plain_cell (yes_cell b)"
proof -
  show "plain_cell (status_code st)" by (cases st) (simp_all add: plain_cell_def plain_char_def)
  show "plain_cell (yes_cell b)" by (simp add: plain_cell_def plain_char_def yes_cell_def)
  have "plain_char c" if "c \<in> set (js_int_string n)" for c
  proof -
    from js_int_string_chars [OF that] have "c = CHR ''-'' \<or> is_digit c" .
    then show ?thesis
    proof
      assume "c = CHR ''-''" then show ?thesis by (simp add: plain_char_def)
    qed (rule plain_char_digit)
  qed
  then show "plain_cell (int_cell n)" by (simp add: plain_cell_def int_cell_def list_all_iff)
qed

lemma double_quotes_id: "CHR 0x22 \<notin> set v \<Longrightarrow> double_quotes v = v"
  by (induction v) auto

lemma export_fields_safe: "fields_safe b \<Longrightarrow> \<forall>v \<in> set (export_fields b). csv_safe v"
  using plain_cells [THEN plain_cell_safe]
  by (auto simp: fields_safe_def export_fields_def csv_safe_def double_quotes_id)

lemma csv_fields_row_line: "fields_safe b \<Longrightarrow> csv_fields (row_line b) = export_fields b"
  using csv_scan_cells [of "export_fields b" "[]"] export_fields_safe [of b]
  by (simp add: csv_fields_def row_line_def csv_safe_def export_fields_def)

lemma row_line_no_newline: "fields_safe b \<Longrightarrow> CHR ''\<newline>'' \<notin> set (row_line b)"
proof
  assume s: "fields_safe b" and c: "CHR ''\<newline>'' \<in> set (row_line b)"
  from set_js_join [OF c [unfolded row_line_def]] obtain v where
    "v \<in> set (export_fields b)" "CHR ''\<newline>'' \<in> set (csv_cell v)"
    by auto
  then show False using export_fields_safe [OF s] by (auto simp: csv_cell_def csv_safe_def)
qed

lemma row_line_nonblank: "js_trim (row_line b) \<noteq> []"
  by (simp add: row_line_def export_fields_def csv_cell_def js_trim_Nil_iff js_space_def)

lemma header_line: "CHR ''\<newline>'' \<notin> set (js_join '','' csv_headers)"
  and headers_parse: "map csv_clean (js_split '','' (js_join '','' csv_headers)) = csv_headers"
  by code_simp+

lemma row_get_export:
  "row_get (csv_row csv_headers [v0, v1, v2, v3, v4, v5, v6, v7, v8, v9, v10]) ''Title'' = Some (csv_clean v0)"
   "row_get (csv_row csv_headers [v0, v1, v2, v3, v4, v5, v6, v7, v8, v9, v10]) ''Author'' = Some (csv_clean v1)"
   "row_get (csv_row csv_headers [v0, v1, v2, v3, v4, v5, v6, v7, v8, v9, v10]) ''Genre'' = Some (csv_clean v2)"
   "row_get (csv_row csv_headers [v0, v1, v2, v3, v4, v5, v6, v7, v8, v9, v10]) ''Status'' = Some (csv_clean v3)"
   "row_get (csv_row csv_headers [v0, v1, v2, v3, v4, v5, v6, v7, v8, v9, v10]) ''Rating'' = Some (csv_clean v4)"
   "row_get (csv_row csv_headers [v0, v1, v2, v3, v4, v5, v6, v7, v8, v9, v10]) ''Date Read'' = Some (csv_clean v5)"
   "row_get (csv_row csv_headers [v0, v1, v2, v3, v4, v5, v6, v7, v8, v9, v10]) ''Pages'' = Some (csv_clean v6)"
   "row_get (csv_row csv_headers [v0, v1, v2, v3, v4, v5, v6, v7, v8, v9, v10]) ''Notes'' = Some (csv_clean v7)"
  by (simp_all add: csv_row_def csv_headers_def row_get_def upt_rec)

lemma parse_export_csv:
  assumes "\<forall>b \<in> set bs. fields_safe b"
  shows "parse_csv (export_csv bs) = map (\<lambda>b. csv_row csv_headers (export_fields b)) bs"
proof -
  have "js_split ''\<newline>'' (export_csv bs) = js_join '','' csv_headers # map row_line bs"
    unfolding export_csv_def row_line_def [symmetric]
    using assms header_line row_line_no_newline by (intro js_split_join) auto
  moreover have "filter (\<lambda>l. js_trim l \<noteq> []) (map row_line bs) = map row_line bs"
    by (simp add: filter_id_conv row_line_nonblank)
  ultimately show ?thesis
    using assms by (simp add: parse_csv_def headers_parse csv_fields_row_line cong: map_cong)
qed

text \<open>C23. A CSV export read back by \<open>parseCSV\<close> gives one row per book, whose Title,
  Author, Genre, Status, Rating, Date Read, Pages and Notes cells are the book's fields as
  \<open>exportData\<close> wrote them, when the text fields are free of double quotes, newlines
  and surrounding spaces.\<close>

theorem csv_export_roundtrip:
  assumes "\<forall>b \<in> set bs. fields_safe b"
  shows "map (\<lambda>r. (row_get r ''Title'', row_get r ''Author'', row_get r ''Genre'', row_get r ''Status'',
                   row_get r ''Rating'', row_get r ''Date Read'', row_get r ''Pages'', row_get r ''Notes''))
           (parse_csv (export_csv bs)) =
         map (\<lambda>b. (Some (title b), Some (author b), Some (genre b), Some (status_code (status b)),
                   Some (int_cell (rating b)), Some (dateRead b), Some (int_cell (pages b)), Some (book_notes b))) bs"
proof -
  have cl: "csv_clean v = v" if "csv_safe v" for v
    using that by (simp add: csv_safe_def csv_clean_id)
  have row: "(row_get (csv_row csv_headers (export_fields b)) ''Title'', row_get (csv_row csv_headers (export_fields b)) ''Author'',
        row_get (csv_row csv_headers (export_fields b)) ''Genre'', row_get (csv_row csv_headers (export_fields b)) ''Status'',
        row_get (csv_row csv_headers (export_fields b)) ''Rating'', row_get (csv_row csv_headers (export_fields b)) ''Date Read'',
        row_get (csv_row csv_headers (export_fields b)) ''Pages'', row_get (csv_row csv_headers (export_fields b)) ''Notes'') =
       (Some (title b), Some (author b), Some (genre b), Some (status_code (status b)),
        Some (int_cell (rating b)), Some (dateRead b), Some (int_cell (pages b)), Some (book_notes b))"
    if "fields_safe b" for b
  proof -
    have n: "double_quotes (book_notes b) = book_notes b"
      using that by (simp add: fields_safe_def csv_safe_def double_quotes_id)
    have "csv_clean (title b) = title b" "csv_clean (author b) = author b" "csv_clean (genre b) = genre b"
      "csv_clean (dateRead b) = dateRead b" "csv_clean (book_notes b) = book_notes b"
      using that by (simp_all add: fields_safe_def cl)
    moreover have "csv_clean (status_code (status b)) = status_code (status b)"
      "csv_clean (int_cell (rating b)) = int_cell (rating b)" "csv_clean (int_cell (pages b)) = int_cell (pages b)"
      by (simp_all add: cl plain_cells [THEN plain_cell_safe])
    ultimately show ?thesis
      unfolding export_fields_def n by (simp only: row_get_export)
  qed
  show ?thesis
    unfolding parse_export_csv [OF assms] map_map using assms by (auto simp: row)
qed

section \<open>The shape of a parsed row\<close>


section \<open>Replaying a backup\<close>

lemma update_fresh: "k \<notin> set (map fst al) \<Longrightarrow> AList.update k v al = al @ [(k, v)]"
  by (induction al) auto

lemma foldl_update_fresh:
  assumes "distinct (map key bs)" and "\<forall>b \<in> set bs. key b \<notin> set (map fst al)"
  shows "foldl (\<lambda>al b. AList.update (key b) (f b) al) al bs = al @ map (\<lambda>b. (key b, f b)) bs"
  using assms
proof (induction bs arbitrary: al)
  case (Cons b bs)
  have "AList.update (key b) (f b) al = al @ [(key b, f b)]"
    using Cons.prems by (simp add: update_fresh)
  moreover have "\<forall>c \<in> set bs. key c \<noteq> key b"
  proof
    fix c assume c: "c \<in> set bs"
    have "key b \<notin> key ` set bs" using Cons.prems(1) by simp
    with c show "key c \<noteq> key b" by (metis imageI)
  qed
  then have "\<forall>c \<in> set bs. key c \<notin> set (map fst (al @ [(key b, f b)]))"
    using Cons.prems(2) by simp
  ultimately show ?case using Cons by simp
qed simp

lemma foldl_save_books:
  assumes "current_user s = Some u"
  shows "r_books (remote (foldl (\<lambda>s b. save_book_remote s b True) s bs) u) =
           foldl (\<lambda>al b. AList.update (book_id b) (b\<lparr>updatedAt := clock s\<rparr>) al) (r_books (remote s u)) bs \<and>
         current_user (foldl (\<lambda>s b. save_book_remote s b True) s bs) = Some u \<and>
         sub_books (foldl (\<lambda>s b. save_book_remote s b True) s bs) = sub_books s \<and>
         clock (foldl (\<lambda>s b. save_book_remote s b True) s bs) = clock s"
  using assms
  by (induction bs arbitrary: s) (simp_all add: save_book_remote_def update_user_def)

lemma foldl_save_cols_frame:
  "r_books (remote (foldl save_collection_remote s cs) u) = r_books (remote s u) \<and>
   current_user (foldl save_collection_remote s cs) = current_user s \<and>
   sub_books (foldl save_collection_remote s cs) = sub_books s"
  by (induction cs arbitrary: s) (simp_all add: save_collection_remote_def update_user_def split: option.splits)

lemma mset_snapshot_books:
  "mset (snapshot_books docs) = mset (map (\<lambda>(i, d). d\<lparr>book_id := i\<rparr>) docs)"
  by (simp add: snapshot_books_def)

section \<open>What the Goodreads import does\<close>

text \<open>On a Goodreads row with author \<open>Herbert Frank\<close>, shelf \<open>read\<close> and rating 5,
  the import creates a read book rated 5 whose author is left as written; against a
  library that already holds \<open>DUNE\<close> it skips the row.\<close>

lemma goodreads_scenario:
  "map_option (\<lambda>b. (title b, author b, status b, rating b)) (gr_book [] ''g1'' 0 (hd (parse_csv gr_sample))) =
     Some (''Dune'', ''Herbert Frank'', Read, 5) \<and>
   gr_book [default_book\<lparr>title := ''DUNE''\<rparr>] ''g1'' 0 (hd (parse_csv gr_sample)) = None"
  by code_simp

text \<open>A Goodreads row whose title equals, ignoring case, the title of a book of the
  library is skipped.\<close>

lemma gr_book_dedupe:
  assumes "row_get row ''Title'' = Some t" and "t \<noteq> []" and "b \<in> set bs" and "js_lower (title b) = js_lower t"
  shows "gr_book bs i now row = None"
  using assms by (auto simp: gr_book_def js_or_str_def)

text \<open>The duplicate test does not look at the rows accepted before: a file with the same
  row twice imports two books.\<close>

lemma gr_batch_file_duplicates: "length (gr_batch [] (\<lambda>k. js_int_string (int k)) 0 0 (parse_csv (gr_sample @ ''\<newline>Dune,Herbert Frank,read,5''))) = 2"
  by code_simp

section \<open>Witnesses\<close>

theorem csv_export_roundtrip_witness:
  "map (\<lambda>r. (row_get r ''Title'', row_get r ''Author'', row_get r ''Genre'', row_get r ''Status'',
             row_get r ''Rating'', row_get r ''Date Read'', row_get r ''Pages'', row_get r ''Notes''))
     (parse_csv (export_csv [default_book\<lparr>title := ''Kindred'', author := ''Octavia Butler'', rating := 5\<rparr>])) =
   [(Some ''Kindred'', Some ''Octavia Butler'', Some [], Some ''want'', Some ''5'', Some [], Some [], Some [])]"
proof -
  have s: "fields_safe (default_book\<lparr>title := ''Kindred'', author := ''Octavia Butler'', rating := 5\<rparr>)"
    by code_simp
  have c: "int_cell 5 = ''5''" "int_cell 0 = []" by code_simp+
  show ?thesis
    using csv_export_roundtrip [of "[default_book\<lparr>title := ''Kindred'', author := ''Octavia Butler'', rating := 5\<rparr>]"] s c
    by (simp add: default_book_def)
qed


theorem gr_book_dedupe_witness:
  "gr_book [default_book\<lparr>title := ''dune''\<rparr>] ''g7'' 3 (hd (parse_csv gr_sample)) = None"
proof -
  have r: "row_get (hd (parse_csv gr_sample)) ''Title'' = Some ''Dune''"
    and l: "js_lower (title (default_book\<lparr>title := ''dune''\<rparr>)) = js_lower ''Dune''"
    by code_simp+
  show ?thesis
    by (rule gr_book_dedupe [OF r _ _ l]) simp_all
qed

end
