(* ===== verification/Catalog.thy ===== *)
theory Catalog
  imports Import_Export
begin

text \<open>The catalog lookups of \<open>src/app.js\<close> (lines 771-1001): \<open>searchBooks\<close>, which asks
  Hardcover first and falls back to Open Library, the two mappings
  \<open>searchHardcover\<close> and \<open>searchOpenLibrary\<close> of a provider's answer to one result shape,
  the in-library test of \<open>renderSearchResults\<close>, \<open>addFromSearch\<close>, and
  \<open>refreshCover\<close>, which collects candidate cover URLs and cycles through them with a
  per-book click counter. The HTTP requests are not modelled: each provider's answer
  is an argument, \<open>None\<close> when the call throws (network error, a non-OK status or a body
  that is not JSON), and the parsed fields otherwise, a missing field being \<open>None\<close> or
  the empty list. The texts are the JSON strings as the code reads them.\<close>

section \<open>Provider answers\<close>

record hc_edition =
  ed_isbn13 :: "string option"
  ed_isbn10 :: "string option"
  ed_pages :: "int option"
  ed_image :: "string option"
  ed_publisher :: "string option"

record hc_book =
  hc_id :: int
  hc_title :: "string option"
  hc_authors :: "string option list"
  hc_edition :: "hc_edition option"
  hc_cached_image :: "string option"
  hc_description :: "string option"

record ol_doc =
  ol_key :: "string option"
  ol_title :: "string option"
  ol_authors :: "string list"
  ol_isbns :: "string list"
  ol_pages :: "int option"
  ol_subjects :: "string list"
  ol_publishers :: "string list"
  ol_cover :: "int option"

datatype provider = Hardcover | OpenLibrary

text \<open>The result object both mappings build.\<close>

record hit =
  hit_id :: string
  hit_title :: string
  hit_author :: string
  hit_genre :: string
  hit_pages :: int
  hit_description :: string
  hit_isbn :: string
  hit_publisher :: string
  hit_cover :: string
  hit_source :: provider

section \<open>Mapping the answers\<close>

text \<open>\<open>s || d\<close> on a string.\<close>

definition str_dflt :: "string \<Rightarrow> string \<Rightarrow> string" where
  "str_dflt s d = (if s = [] then d else s)"

text \<open>\<open>encodeURIComponent\<close> on code units below 256: the unreserved characters stay,
  the others become the percent-escaped bytes of their UTF-8 encoding.\<close>

definition hex_digit :: "nat \<Rightarrow> char" where
  "hex_digit n = ''0123456789ABCDEF'' ! n"

definition pct :: "nat \<Rightarrow> string" where
  "pct n = [CHR ''%'', hex_digit (n div 16), hex_digit (n mod 16)]"

definition uri_unreserved :: "char \<Rightarrow> bool" where
  "uri_unreserved c \<longleftrightarrow>
     (48 \<le> (of_char c :: nat) \<and> (of_char c :: nat) \<le> 57) \<or> (65 \<le> (of_char c :: nat) \<and> (of_char c :: nat) \<le> 90) \<or>
     (97 \<le> (of_char c :: nat) \<and> (of_char c :: nat) \<le> 122) \<or> c \<in> set ''-_.!~*'()''"

definition uri_encode :: "string \<Rightarrow> string" where
  "uri_encode s =
     concat (map (\<lambda>c. if uri_unreserved c then [c]
                      else if (of_char c :: nat) < 128 then pct (of_char c)
                      else pct (192 + of_char c div 64) @ pct (128 + of_char c mod 64)) s)"

definition ol_isbn_url :: "string \<Rightarrow> string \<Rightarrow> string" where
  "ol_isbn_url ib sz = ''https://covers.openlibrary.org/b/isbn/'' @ ib @ ''-'' @ sz @ ''.jpg''"

definition ol_id_url :: "int \<Rightarrow> string" where
  "ol_id_url c = ''https://covers.openlibrary.org/b/id/'' @ js_int_string c @ ''-L.jpg''"

definition ol_title_url :: "string \<Rightarrow> string" where
  "ol_title_url t = ''https://covers.openlibrary.org/b/title/'' @ uri_encode t @ ''-L.jpg''"

text \<open>\<open>searchHardcover\<close>'s \<open>map\<close>: one result per book of the answer; \<open>ed?.f\<close> is
  \<open>Option.bind ed f\<close>.\<close>

definition hc_hit :: "hc_book \<Rightarrow> hit" where
  "hc_hit b =
     (let ed = hc_edition b
      in \<lparr>hit_id = js_int_string (hc_id b),
          hit_title = str_or (hc_title b) ''Unknown Title'',
          hit_author = str_dflt (js_join '', '' (filter (\<lambda>n. n \<noteq> []) (map (\<lambda>n. case n of None \<Rightarrow> [] | Some x \<Rightarrow> x)
                                                                         (hc_authors b)))) ''Unknown'',
          hit_genre = [],
          hit_pages = or_zero (Option.bind ed ed_pages),
          hit_description = str_or (hc_description b) [],
          hit_isbn = str_or (js_or_str (Option.bind ed ed_isbn13) (Option.bind ed ed_isbn10)) (js_int_string (hc_id b)),
          hit_publisher = str_or (Option.bind ed ed_publisher) [],
          hit_cover = str_or (js_or_str (hc_cached_image b) (Option.bind ed ed_image)) [],
          hit_source = Hardcover\<rparr>)"

text \<open>\<open>searchOpenLibrary\<close>'s \<open>map\<close>.\<close>

definition ol_hit :: "ol_doc \<Rightarrow> hit" where
  "ol_hit d =
     (let ib = (case ol_isbns d of [] \<Rightarrow> [] | x # _ \<Rightarrow> x)
      in \<lparr>hit_id = str_or (ol_key d) ib,
          hit_title = str_or (ol_title d) ''Unknown Title'',
          hit_author = str_dflt (js_join '', '' (ol_authors d)) ''Unknown'',
          hit_genre = js_join '', '' (take 2 (ol_subjects d)),
          hit_pages = or_zero (ol_pages d),
          hit_description = [],
          hit_isbn = ib,
          hit_publisher = (case ol_publishers d of [] \<Rightarrow> [] | x # _ \<Rightarrow> x),
          hit_cover = (case ol_cover d of
                         Some c \<Rightarrow> if c \<noteq> 0 then ol_id_url c else if ib \<noteq> [] then ol_isbn_url ib ''L'' else []
                       | None \<Rightarrow> if ib \<noteq> [] then ol_isbn_url ib ''L'' else []),
          hit_source = OpenLibrary\<rparr>)"

section \<open>Searching\<close>

datatype search_outcome = NoQuery | NoResults | Results provider "hit list"

text \<open>\<open>searchBooks(q)\<close>: an empty query returns at once; a failing Hardcover call counts
  as no results; Open Library is asked only when Hardcover gave nothing.\<close>

definition search_books :: "string \<Rightarrow> hc_book list option \<Rightarrow> ol_doc list option \<Rightarrow> search_outcome" where
  "search_books q hc ol =
     (if js_trim q = [] then NoQuery
      else (let hs = (case hc of Some bs \<Rightarrow> map hc_hit bs | None \<Rightarrow> [])
            in if hs \<noteq> [] then Results Hardcover hs
               else (let os = (case ol of Some ds \<Rightarrow> map ol_hit ds | None \<Rightarrow> [])
                     in if os \<noteq> [] then Results OpenLibrary os else NoResults)))"

text \<open>The badge of a result card: some library book has the same ISBN, or the same title
  ignoring case.\<close>

definition in_library :: "book list \<Rightarrow> hit \<Rightarrow> bool" where
  "in_library bs h \<longleftrightarrow> (\<exists>b \<in> set bs. isbn b = hit_isbn h \<or> js_lower (title b) = js_lower (hit_title h))"

text \<open>\<open>addFromSearch(i)\<close> hands the result to \<open>openAddModal\<close>, which reads its title,
  author, genre, ISBN, pages, cover and description; a result has no tags.\<close>

definition hit_prefill :: "hit \<Rightarrow> book" where
  "hit_prefill h =
     default_book\<lparr>title := hit_title h, author := hit_author h, genre := hit_genre h, isbn := hit_isbn h,
                  pages := hit_pages h, coverUrl := hit_cover h, description := hit_description h\<rparr>"

definition add_from_search :: "hit list \<Rightarrow> nat \<Rightarrow> book_form \<Rightarrow> string option \<times> book_form" where
  "add_from_search hs i f = open_add_modal f (if i < length hs then Some (hit_prefill (hs ! i)) else None)"

section \<open>Refreshing the cover\<close>

text \<open>\<open>[...new Set(xs)]\<close>: the first occurrence of each value, in order.\<close>

fun set_spread :: "'a list \<Rightarrow> 'a list \<Rightarrow> 'a list" where
  "set_spread seen [] = []"
| "set_spread seen (x # xs) = (if x \<in> set seen then set_spread seen xs else x # set_spread (x # seen) xs)"

definition js_uniq :: "'a list \<Rightarrow> 'a list" where
  "js_uniq xs = set_spread [] xs"

text \<open>\<open>if (u) sources.push(u)\<close> for a string field that may be missing.\<close>

definition push_url :: "string option \<Rightarrow> string list" where
  "push_url u = (case u of Some x \<Rightarrow> if x \<noteq> [] then [x] else [] | None \<Rightarrow> [])"

text \<open>The candidates of \<open>refreshCover\<close>, in the order they are pushed: the two Open
  Library ISBN covers, the Hardcover images, the Open Library cover by title (always),
  and for each Open Library search document its cover id and first ISBN.\<close>

definition cover_sources :: "string \<Rightarrow> string \<Rightarrow> hc_book list option \<Rightarrow> ol_doc list option \<Rightarrow> string list" where
  "cover_sources ib t hc ol =
     (if ib \<noteq> [] then [ol_isbn_url ib ''L'', ol_isbn_url ib ''M''] else []) @
     (case hc of
        None \<Rightarrow> []
      | Some bs \<Rightarrow> concat (map (\<lambda>b. push_url (hc_cached_image b) @
                                    push_url (Option.bind (hc_edition b) ed_image)) bs)) @
     [ol_title_url t] @
     (case ol of
        None \<Rightarrow> []
      | Some ds \<Rightarrow> concat (map (\<lambda>d. (case ol_cover d of Some c \<Rightarrow> if c \<noteq> 0 then [ol_id_url c] else [] | None \<Rightarrow> []) @
                                    push_url (case ol_isbns d of x # _ \<Rightarrow> Some x | [] \<Rightarrow> None)) ds))"

datatype cover_error = NoTitleOrIsbn | NoCovers

text \<open>The key of \<open>coverRefreshAttempts\<close>: \<open>isbn || `${title}_${author}`\<close>.\<close>

definition cover_key :: "book_form \<Rightarrow> string" where
  "cover_key f = str_dflt (js_trim (f_isbn f)) (js_trim (f_title f) @ ''_'' @ js_trim (f_author f))"

text \<open>\<open>refreshCover\<close>: \<open>coverRefreshAttempts\<close> counts the clicks per key (the ISBN, or
  title and author); the click is counted before the candidates are collected, and the
  candidate shown is the one at the count modulo their number.\<close>

definition refresh_cover :: "(string \<Rightarrow> nat) \<Rightarrow> book_form \<Rightarrow> hc_book list option \<Rightarrow> ol_doc list option \<Rightarrow>
    (string \<Rightarrow> nat) \<times> (cover_error + book_form \<times> nat \<times> nat)" where
  "refresh_cover att f hc ol =
     (let t = js_trim (f_title f); i = js_trim (f_isbn f)
      in if t = [] \<and> i = [] then (att, Inl NoTitleOrIsbn)
         else (let key = cover_key f; n = Suc (att key); att' = att(key := n);
                   u = js_uniq (cover_sources i t hc ol)
               in if u = [] then (att', Inl NoCovers)
                  else (att', Inr (f\<lparr>f_cover_url := u ! (n mod length u)\<rparr>, n mod length u, length u))))"

text \<open>The result shape the specification's lookup contract asks of every result: a
  title, an author, and the provider it came from.\<close>

definition hit_wf :: "provider \<Rightarrow> hit \<Rightarrow> bool" where
  "hit_wf p h \<longleftrightarrow> hit_title h \<noteq> [] \<and> hit_author h \<noteq> [] \<and> hit_source h = p"

definition provider_hits :: "('a \<Rightarrow> hit) \<Rightarrow> 'a list option \<Rightarrow> hit list" where
  "provider_hits g r = (case r of Some xs \<Rightarrow> map g xs | None \<Rightarrow> [])"

text \<open>The contract of the specification (section 6): the primary provider's results when
  it has usable ones, otherwise the secondary's, each of the unified shape.\<close>

definition lookup_contract :: "hit list \<Rightarrow> hit list \<Rightarrow> search_outcome \<Rightarrow> bool" where
  "lookup_contract P S out \<longleftrightarrow>
     (case out of
        Results p hs \<Rightarrow> hs \<noteq> [] \<and> list_all (hit_wf p) hs \<and>
                        (if P \<noteq> [] then p = Hardcover \<and> hs = P else p = OpenLibrary \<and> hs = S)
      | NoResults \<Rightarrow> P = [] \<and> S = []
      | NoQuery \<Rightarrow> False)"

section \<open>Lemmas\<close>

lemma set_set_spread: "set (set_spread seen xs) = set xs - set seen"
  by (induction seen xs rule: set_spread.induct) auto

lemma distinct_set_spread: "distinct (set_spread seen xs) \<and> set (set_spread seen xs) \<inter> set seen = {}"
  by (induction seen xs rule: set_spread.induct) (auto simp: set_set_spread)

lemma set_js_uniq [simp]: "set (js_uniq xs) = set xs"
  by (simp add: js_uniq_def set_set_spread)

lemma distinct_js_uniq: "distinct (js_uniq xs)"
  using distinct_set_spread [of "[]" xs] by (simp add: js_uniq_def)

lemma cover_sources_title: "ol_title_url t \<in> set (cover_sources i t hc ol)"
  by (simp add: cover_sources_def)

lemma js_uniq_cover_sources_ne: "js_uniq (cover_sources i t hc ol) \<noteq> []"
  using cover_sources_title [of t i hc ol] by (metis empty_iff empty_set set_js_uniq)

lemma hc_hit_wf: "hit_wf Hardcover (hc_hit b)"
  by (simp add: hit_wf_def hc_hit_def Let_def str_or_def str_dflt_def js_or_str_def split: option.splits)

lemma ol_hit_wf: "hit_wf OpenLibrary (ol_hit d)"
  by (simp add: hit_wf_def ol_hit_def Let_def str_or_def str_dflt_def js_or_str_def split: option.splits)

lemma provider_hits_wf:
  assumes "\<And>x. hit_wf p (g x)"
  shows "list_all (hit_wf p) (provider_hits g r)"
  using assms by (cases r) (simp_all add: provider_hits_def list_all_iff)

lemma book_data_add_fields:
  "title (book_data f b) = js_trim (f_title f) \<and> isbn (book_data f b) = js_trim (f_isbn f) \<and>
   coverUrl (book_data f b) = js_trim (f_cover_url f) \<and> description (book_data f b) = f_desc f \<and>
   genre (book_data f b) = js_trim (f_genre f) \<and> status (book_data f b) = f_status f \<and>
   tags (book_data f b) = get_tags (f_tags f) \<and> rating (book_data f b) = f_rating f \<and>
   collections (book_data f b) = f_cols f \<and>
   author (book_data f b) = (if js_trim (f_author f) = [] then ''Unknown'' else js_trim (f_author f)) \<and>
   pages (book_data f b) = js_or_int (js_parse_int (f_pages f)) 0"
  by (simp add: book_data_def)

section \<open>Properties\<close>

text \<open>C27. Refreshing the cover of a form that has a title or an ISBN always shows a
  candidate: the click is counted under the book's key, the index shown is that count
  modulo the number of distinct candidates, which is never zero, so the
  \<open>No covers found\<close> branch cannot be reached.\<close>

theorem refresh_cover_spec:
  assumes "js_trim (f_title f) \<noteq> [] \<or> js_trim (f_isbn f) \<noteq> []"
  shows "refresh_cover att f hc ol =
           (att(cover_key f := Suc (att (cover_key f))),
            Inr (f\<lparr>f_cover_url := js_uniq (cover_sources (js_trim (f_isbn f)) (js_trim (f_title f)) hc ol) !
                                    (Suc (att (cover_key f)) mod
                                     length (js_uniq (cover_sources (js_trim (f_isbn f)) (js_trim (f_title f)) hc ol)))\<rparr>,
                 Suc (att (cover_key f)) mod length (js_uniq (cover_sources (js_trim (f_isbn f)) (js_trim (f_title f)) hc ol)),
                 length (js_uniq (cover_sources (js_trim (f_isbn f)) (js_trim (f_title f)) hc ol)))) \<and>
         0 < length (js_uniq (cover_sources (js_trim (f_isbn f)) (js_trim (f_title f)) hc ol))"
  using assms js_uniq_cover_sources_ne [of "js_trim (f_isbn f)" "js_trim (f_title f)" hc ol]
  by (auto simp: refresh_cover_def Let_def)

text \<open>C25. \<open>searchBooks\<close> meets the lookup contract of the specification: for a non-empty
  query it shows Hardcover's results when there are any, Open Library's otherwise, and
  every result has a title, an author and its provider's tag.\<close>

theorem search_contract:
  assumes "js_trim q \<noteq> []"
  shows "lookup_contract (provider_hits hc_hit hc) (provider_hits ol_hit ol) (search_books q hc ol)"
proof -
  have "list_all (hit_wf Hardcover) (provider_hits hc_hit hc)"
    "list_all (hit_wf OpenLibrary) (provider_hits ol_hit ol)"
    by (simp_all add: provider_hits_wf hc_hit_wf ol_hit_wf)
  then show ?thesis
    using assms by (simp add: search_books_def lookup_contract_def provider_hits_def Let_def split: option.splits)
qed

text \<open>C26. A search result added through \<open>addFromSearch\<close> and saved by a signed-in user
  is stored under the new id with the result's trimmed title, ISBN and cover, its pages,
  its author or \<open>Unknown\<close>, as a book to read with no rating, tags or collections; its
  description is the result's, or, when the result has none (every Open Library
  result), whatever the modal showed before.\<close>

theorem search_add_save:
  assumes "i < length hs" and "current_user s = Some u"
    and "save_book s (snd (add_from_search hs i f)) (fst (add_from_search hs i f)) nid True = Inr s'"
  shows "\<exists>d. map_of (r_books (remote s' u)) nid = Some d \<and>
             title d = js_trim (hit_title (hs ! i)) \<and> isbn d = js_trim (hit_isbn (hs ! i)) \<and>
             coverUrl d = js_trim (hit_cover (hs ! i)) \<and> pages d = hit_pages (hs ! i) \<and>
             author d = (if js_trim (hit_author (hs ! i)) = [] then ''Unknown'' else js_trim (hit_author (hs ! i))) \<and>
             status d = Want \<and> rating d = 0 \<and> tags d = [] \<and> collections d = [] \<and>
             description d = (if hit_description (hs ! i) \<noteq> [] then hit_description (hs ! i) else f_desc f)"
proof -
  let ?f = "snd (add_from_search hs i f)"
  have e: "fst (add_from_search hs i f) = None"
    by (simp add: add_from_search_def open_add_modal_def Let_def)
  have f: "f_title ?f = hit_title (hs ! i)" "f_isbn ?f = hit_isbn (hs ! i)" "f_cover_url ?f = hit_cover (hs ! i)"
    "f_pages ?f = form_int (hit_pages (hs ! i))" "f_author ?f = hit_author (hs ! i)" "f_status ?f = Want"
    "f_rating ?f = 0" "f_tags ?f = set_tags []" "f_cols ?f = []"
    "f_desc ?f = (if hit_description (hs ! i) \<noteq> [] then hit_description (hs ! i) else f_desc f)"
    using assms(1) by (simp_all add: add_from_search_def open_add_modal_def Let_def clear_book_form_def hit_prefill_def
        default_book_def)
  have t: "js_trim (f_title ?f) \<noteq> []" using assms(3) by (auto simp: save_book_def)
  let ?d = "(book_data ?f default_book)\<lparr>book_id := nid, dateAdded := clock s\<rparr>"
  have "s' = save_book_remote s ?d True" using assms(2,3) t e by (simp add: save_book_def)
  then have m: "map_of (r_books (remote s' u)) nid = Some (?d\<lparr>updatedAt := clock s\<rparr>)"
    using assms(2) by (simp add: save_book_remote_def update_user_def update_conv')
  have g: "get_tags (set_tags []) = []" by (simp add: get_set_tags)
  show ?thesis
    using m book_data_add_fields [of ?f default_book] f g by (simp add: form_int_back)
qed

text \<open>The in-library badge compares ISBNs even when they are empty: an Open Library
  result without ISBN is marked as in the library as soon as some book has none.\<close>

lemma in_library_empty_isbn:
  "in_library [default_book\<lparr>title := ''Emma''\<rparr>] (ol_hit \<lparr>ol_key = None, ol_title = Some ''Dune'', ol_authors = [],
      ol_isbns = [], ol_pages = None, ol_subjects = [], ol_publishers = [], ol_cover = None\<rparr>)"
  by (simp add: in_library_def ol_hit_def default_book_def)

text \<open>The first refresh of a book with an ISBN shows the medium Open Library cover, the
  second candidate, not the large one the code lists first as the most reliable.\<close>

lemma first_refresh_second_candidate:
  "snd (refresh_cover (\<lambda>_. 0) (ed_form\<lparr>f_isbn := ''123''\<rparr>) (Some []) (Some [])) =
     Inr (ed_form\<lparr>f_isbn := ''123'', f_cover_url := ol_isbn_url ''123'' ''M''\<rparr>, 1, 3)"
  by code_simp

section \<open>Witnesses\<close>

theorem refresh_cover_spec_witness:
  "refresh_cover (\<lambda>_. 0) (ed_form\<lparr>f_isbn := ''123''\<rparr>) (Some []) (Some []) =
     ((\<lambda>_. 0)(''123'' := 1), Inr (ed_form\<lparr>f_isbn := ''123'', f_cover_url := ol_isbn_url ''123'' ''M''\<rparr>, 1, 3))"
proof -
  have k: "cover_key (ed_form\<lparr>f_isbn := ''123''\<rparr>) = ''123''" and i: "js_trim ''123'' = ''123''"
    and c: "js_uniq (cover_sources ''123'' (js_trim (f_title ed_form)) (Some []) (Some [])) =
            [ol_isbn_url ''123'' ''L'', ol_isbn_url ''123'' ''M'', ol_title_url (js_trim (f_title ed_form))]"
    by code_simp+
  show ?thesis
    using refresh_cover_spec [of "ed_form\<lparr>f_isbn := ''123''\<rparr>" "\<lambda>_. 0" "Some []" "Some []"] k i c by simp
qed

theorem search_contract_witness:
  "lookup_contract (provider_hits hc_hit None) (provider_hits ol_hit (Some [\<lparr>ol_key = None, ol_title = Some ''Dune'', ol_authors = [],
      ol_isbns = [], ol_pages = None, ol_subjects = [], ol_publishers = [], ol_cover = None\<rparr>]))
    (search_books ''dune'' None (Some [\<lparr>ol_key = None, ol_title = Some ''Dune'', ol_authors = [],
      ol_isbns = [], ol_pages = None, ol_subjects = [], ol_publishers = [], ol_cover = None\<rparr>]))"
  by (rule search_contract) (simp add: js_trim_def js_space_def)

theorem search_add_save_witness:
  "\<exists>d. map_of (r_books (remote (save_book_remote ed_session
        ((book_data (snd (add_from_search [hc_hit \<lparr>hc_id = 7, hc_title = Some ''Kindred'', hc_authors = [Some ''Octavia Butler''],
           hc_edition = None, hc_cached_image = None, hc_description = Some ''Time travel.''\<rparr>] 0 ed_form)) default_book)
          \<lparr>book_id := ''n1'', dateAdded := 0\<rparr>) True) ''alice'')) ''n1'' = Some d \<and>
      title d = ''Kindred'' \<and> author d = ''Octavia Butler'' \<and> description d = ''Time travel.'' \<and> isbn d = ''7''"
proof -
  let ?hs = "[hc_hit \<lparr>hc_id = 7, hc_title = Some ''Kindred'', hc_authors = [Some ''Octavia Butler''],
           hc_edition = None, hc_cached_image = None, hc_description = Some ''Time travel.''\<rparr>]"
  have u: "current_user ed_session = Some ''alice''" "clock ed_session = 0"
    by (simp_all add: ed_session_def signed_in_def session_defs subscribe_def load_settings_def)
  have h: "hit_title (?hs ! 0) = ''Kindred''" "hit_author (?hs ! 0) = ''Octavia Butler''"
    "hit_description (?hs ! 0) = ''Time travel.''" "hit_isbn (?hs ! 0) = ''7''"
    and tr: "js_trim ''Kindred'' = ''Kindred''" "js_trim ''Octavia Butler'' = ''Octavia Butler''" "js_trim ''7'' = ''7''"
    by code_simp+
  have f: "fst (add_from_search ?hs 0 ed_form) = None" "js_trim (f_title (snd (add_from_search ?hs 0 ed_form))) \<noteq> []"
    by code_simp+
  have sv: "save_book ed_session (snd (add_from_search ?hs 0 ed_form)) (fst (add_from_search ?hs 0 ed_form)) ''n1'' True =
            Inr (save_book_remote ed_session ((book_data (snd (add_from_search ?hs 0 ed_form)) default_book)
                   \<lparr>book_id := ''n1'', dateAdded := 0\<rparr>) True)"
    using f u by (simp add: save_book_def)
  have l: "0 < length ?hs" by simp
  show ?thesis using search_add_save [OF l u(1) sv] unfolding h tr by auto
qed

end
