(* ===== verification/Library_View.thy ===== *)
theory Library_View
  imports Books
begin

text \<open>
  The library page's filter and sort engine (\<open>_doRenderLibrary\<close>,
  \<open>buildFilterOptions\<close>, \<open>updateOwnedCounts\<close>, \<open>updateFilterBadge\<close>) and the
  filter-panel state \<open>fp\<close> with the actions that change it (\<open>fpSetStatus\<close>,
  \<open>fpToggleOwn\<close>, \<open>setOwnershipFilter\<close>, \<open>fpToggleGenre\<close>, \<open>fpToggleAuthor\<close>,
  \<open>fpToggleTag\<close>, \<open>fpSetRating\<close>, \<open>clearAllFilters\<close>, \<open>setSortBy\<close>).
\<close>

section \<open>Filter panel state\<close>

datatype own_kind = OwnPhysical | OwnDigital | OwnBorrowed

datatype status_filter = StatusAll | StatusOnly status

record filter_panel =
  fp_status :: status_filter
  fp_ownership :: "own_kind list"
  fp_genres :: "string list"
  fp_authors :: "string list"
  fp_tags :: "string list"
  fp_rating :: int

definition fp_initial :: filter_panel where
  "fp_initial =
     \<lparr>fp_status = StatusAll, fp_ownership = [], fp_genres = [], fp_authors = [],
      fp_tags = [], fp_rating = -1\<rparr>"

datatype sort_by = SortTitle | SortAuthor | SortRating | SortDateRead | SortDateAdded

section \<open>Filtering and sorting\<close>

text \<open>The search box value, lower-cased and then trimmed.\<close>

definition search_query :: "string \<Rightarrow> string" where
  "search_query raw = js_trim (js_lower raw)"

text \<open>The predicate of \<open>books.filter(b => ...)\<close>, one early return per branch.\<close>

definition book_passes :: "string \<Rightarrow> filter_panel \<Rightarrow> book \<Rightarrow> bool" where
  "book_passes q fp b =
     (if q \<noteq> [] \<and> \<not> list_ex (\<lambda>s. js_includes (js_lower s) q) ([title b, author b, genre b] @ tags b)
      then False
      else if fp_status fp \<noteq> StatusAll \<and> StatusOnly (status b) \<noteq> fp_status fp then False
      else if OwnPhysical \<in> set (fp_ownership fp) \<and> \<not> ownPhysical b then False
      else if OwnDigital \<in> set (fp_ownership fp) \<and> \<not> ownDigital b then False
      else if OwnBorrowed \<in> set (fp_ownership fp) \<and> \<not> ownBorrowed b then False
      else if fp_genres fp \<noteq> [] \<and> genre b \<notin> set (fp_genres fp) then False
      else if fp_authors fp \<noteq> [] \<and> author b \<notin> set (fp_authors fp) then False
      else if fp_tags fp \<noteq> [] \<and> \<not> list_ex (\<lambda>t. t \<in> set (tags b)) (fp_tags fp) then False
      else if fp_rating fp = 0 \<and> 0 < rating b then False
      else if 0 < fp_rating fp \<and> rating b < fp_rating fp then False
      else True)"

text \<open>The comparator handed to \<open>filtered.sort\<close>.\<close>

fun library_cmp :: "sort_by \<Rightarrow> book \<Rightarrow> book \<Rightarrow> int" where
  "library_cmp SortTitle a b = locale_compare (title a) (title b)"
| "library_cmp SortAuthor a b = locale_compare (author a) (author b)"
| "library_cmp SortRating a b = rating b - rating a"
| "library_cmp SortDateRead a b = locale_compare (dateRead b) (dateRead a)"
| "library_cmp SortDateAdded a b = dateAdded b - dateAdded a"

definition library_view :: "string \<Rightarrow> filter_panel \<Rightarrow> sort_by \<Rightarrow> book list \<Rightarrow> book list" where
  "library_view raw fp s bs = js_sort (library_cmp s) (filter (book_passes (search_query raw) fp) bs)"

text \<open>What the library grid shows: an empty-state message or the list.\<close>

datatype library_page = EmptyLibrary | NoMatches | Shows "book list"

definition render_library :: "string \<Rightarrow> filter_panel \<Rightarrow> sort_by \<Rightarrow> book list \<Rightarrow> library_page" where
  "render_library raw fp s bs =
     (let v = library_view raw fp s bs
      in if v = [] then (if bs \<noteq> [] then NoMatches else EmptyLibrary) else Shows v)"

section \<open>Facet options, counts and the filter badge\<close>

definition genre_options :: "book list \<Rightarrow> string list" where
  "genre_options bs = sort (remdups (filter (\<lambda>g. g \<noteq> []) (map genre bs)))"

definition author_options :: "book list \<Rightarrow> string list" where
  "author_options bs = map fst (top_counts 12 (filter (\<lambda>a. a \<noteq> []) (map author bs)))"

definition tag_options :: "book list \<Rightarrow> string list" where
  "tag_options bs = sort (remdups (concat (map tags bs)))"

definition owned_counts :: "book list \<Rightarrow> nat \<times> nat \<times> nat \<times> nat" where
  "owned_counts bs =
     (length bs, length (filter ownPhysical bs), length (filter ownDigital bs),
      length (filter ownBorrowed bs))"

definition filter_badge_count :: "string \<Rightarrow> filter_panel \<Rightarrow> nat" where
  "filter_badge_count raw fp =
     (if fp_status fp \<noteq> StatusAll then 1 else 0) + length (fp_ownership fp) +
     length (fp_genres fp) + length (fp_authors fp) + length (fp_tags fp) +
     (if 0 \<le> fp_rating fp then 1 else 0) + (if js_trim raw \<noteq> [] then 1 else 0)"

section \<open>Filter panel actions\<close>

text \<open>\<open>idx = arr.indexOf(x); idx >= 0 ? arr.splice(idx, 1) : arr.push(x)\<close>.\<close>

definition toggle_member :: "'a \<Rightarrow> 'a list \<Rightarrow> 'a list" where
  "toggle_member x xs = (if x \<in> set xs then remove1 x xs else xs @ [x])"

datatype own_choice = OwnAll | OwnOnly own_kind

datatype fp_action =
    SetStatus status_filter
  | ToggleOwn own_kind
  | SetOwnership own_choice
  | ToggleGenre string
  | ToggleAuthor string
  | ToggleTag string
  | SetRating int
  | ClearAll

fun fp_step :: "filter_panel \<Rightarrow> fp_action \<Rightarrow> filter_panel" where
  "fp_step fp (SetStatus s) = fp\<lparr>fp_status := s\<rparr>"
| "fp_step fp (ToggleOwn k) = fp\<lparr>fp_ownership := toggle_member k (fp_ownership fp)\<rparr>"
| "fp_step fp (SetOwnership OwnAll) = fp\<lparr>fp_ownership := []\<rparr>"
| "fp_step fp (SetOwnership (OwnOnly k)) =
     fp\<lparr>fp_ownership := (if k \<in> set (fp_ownership fp) then [] else [k])\<rparr>"
| "fp_step fp (ToggleGenre g) = fp\<lparr>fp_genres := toggle_member g (fp_genres fp)\<rparr>"
| "fp_step fp (ToggleAuthor a) = fp\<lparr>fp_authors := toggle_member a (fp_authors fp)\<rparr>"
| "fp_step fp (ToggleTag t) = fp\<lparr>fp_tags := toggle_member t (fp_tags fp)\<rparr>"
| "fp_step fp (SetRating r) = fp\<lparr>fp_rating := (if fp_rating fp = r then -1 else r)\<rparr>"
| "fp_step fp ClearAll = fp_initial"

text \<open>\<open>clearAllFilters\<close> also empties the search box.\<close>

definition clear_search :: "fp_action \<Rightarrow> string \<Rightarrow> string" where
  "clear_search a raw = (if a = ClearAll then [] else raw)"

section \<open>Abstract specification of the filter\<close>

text \<open>
  The filter as the specification states it: a book passes when every facet accepts it,
  facets combine by conjunction, the ownership facet by conjunction over the selected
  kinds, the tag facet by intersection, and the rating sentinel \<open>-1\<close> / \<open>0\<close> /
  \<open>N > 0\<close> means no constraint / unrated only / at least \<open>N\<close> stars. The invariant
  \<open>fp_wf\<close> of the panel state says that its selection lists hold no duplicates.
\<close>

definition own_flag :: "book \<Rightarrow> own_kind \<Rightarrow> bool" where
  "own_flag b k =
     (case k of OwnPhysical \<Rightarrow> ownPhysical b | OwnDigital \<Rightarrow> ownDigital b
      | OwnBorrowed \<Rightarrow> ownBorrowed b)"

definition rating_facet :: "int \<Rightarrow> int \<Rightarrow> bool" where
  "rating_facet r x = (if r = 0 then x = 0 else if 0 < r then r \<le> x else True)"

definition facet_spec :: "string \<Rightarrow> filter_panel \<Rightarrow> book \<Rightarrow> bool" where
  "facet_spec q fp b \<longleftrightarrow>
     (q = [] \<or> list_ex (\<lambda>s. sublist q (js_lower s)) ([title b, author b, genre b] @ tags b)) \<and>
     (case fp_status fp of StatusAll \<Rightarrow> True | StatusOnly s \<Rightarrow> status b = s) \<and>
     list_all (own_flag b) (fp_ownership fp) \<and>
     (fp_genres fp = [] \<or> genre b \<in> set (fp_genres fp)) \<and>
     (fp_authors fp = [] \<or> author b \<in> set (fp_authors fp)) \<and>
     (fp_tags fp = [] \<or> set (fp_tags fp) \<inter> set (tags b) \<noteq> {}) \<and>
     rating_facet (fp_rating fp) (rating b)"

definition fp_wf :: "filter_panel \<Rightarrow> bool" where
  "fp_wf fp \<longleftrightarrow> distinct (fp_ownership fp) \<and> distinct (fp_genres fp) \<and>
     distinct (fp_authors fp) \<and> distinct (fp_tags fp)"

text \<open>Sample data for the witnesses: fourteen books by thirteen authors.\<close>

definition wit_authors :: "book list" where
  "wit_authors = map (\<lambda>a. default_book\<lparr>author := a\<rparr>)
     [''Austen'', ''Austen'', ''Borges'', ''Calvino'', ''Dickens'', ''Eco'', ''Faulkner'',
      ''Gaiman'', ''Hesse'', ''Ishiguro'', ''Joyce'', ''Kafka'', ''Lem'', ''Morrison'']"

section \<open>Helper lemmas\<close>

lemma library_cmp_weak_order [cmp_facts]: "cmp_weak_order (library_cmp s)"
  by (cases s) (auto simp: cmp_weak_order_def)

lemma list_all_own_flag:
  "list_all (own_flag b) ks \<longleftrightarrow>
     (OwnPhysical \<in> set ks \<longrightarrow> ownPhysical b) \<and> (OwnDigital \<in> set ks \<longrightarrow> ownDigital b) \<and>
     (OwnBorrowed \<in> set ks \<longrightarrow> ownBorrowed b)"
  by (auto simp: list_all_iff own_flag_def split: own_kind.splits)

lemma status_facet:
  "\<not> (f \<noteq> StatusAll \<and> StatusOnly x \<noteq> f) \<longleftrightarrow>
     (case f of StatusAll \<Rightarrow> True | StatusOnly s \<Rightarrow> x = s)"
  by (cases f) auto

lemma list_ex_tags: "list_ex (\<lambda>t. t \<in> set ys) xs \<longleftrightarrow> set xs \<inter> set ys \<noteq> {}"
  by (auto simp: list_ex_iff)

lemma rating_facet_code:
  "0 \<le> x \<Longrightarrow> (\<not> (r = 0 \<and> 0 < x) \<and> \<not> (0 < r \<and> x < r)) \<longleftrightarrow> rating_facet r x"
  by (auto simp: rating_facet_def)

text \<open>The early returns of the predicate, read as one conjunction.\<close>

lemma book_passes_conj:
  "book_passes q fp b \<longleftrightarrow>
     (q = [] \<or> list_ex (\<lambda>s. js_includes (js_lower s) q) ([title b, author b, genre b] @ tags b)) \<and>
     \<not> (fp_status fp \<noteq> StatusAll \<and> StatusOnly (status b) \<noteq> fp_status fp) \<and>
     (OwnPhysical \<in> set (fp_ownership fp) \<longrightarrow> ownPhysical b) \<and>
     (OwnDigital \<in> set (fp_ownership fp) \<longrightarrow> ownDigital b) \<and>
     (OwnBorrowed \<in> set (fp_ownership fp) \<longrightarrow> ownBorrowed b) \<and>
     (fp_genres fp = [] \<or> genre b \<in> set (fp_genres fp)) \<and>
     (fp_authors fp = [] \<or> author b \<in> set (fp_authors fp)) \<and>
     (fp_tags fp = [] \<or> list_ex (\<lambda>t. t \<in> set (tags b)) (fp_tags fp)) \<and>
     \<not> (fp_rating fp = 0 \<and> 0 < rating b) \<and> \<not> (0 < fp_rating fp \<and> rating b < fp_rating fp)"
  unfolding book_passes_def by simp

lemma toggle_member_distinct: "distinct xs \<Longrightarrow> distinct (toggle_member x xs)"
  by (simp add: toggle_member_def)

lemma fp_step_wf: "fp_wf fp \<Longrightarrow> fp_wf (fp_step fp a)"
  by (cases "(fp, a)" rule: fp_step.cases)
    (auto simp: fp_wf_def fp_initial_def toggle_member_distinct)

lemma fp_run_wf: "fp_wf fp \<Longrightarrow> fp_wf (foldl fp_step fp as)"
  by (induction as arbitrary: fp) (simp_all add: fp_step_wf)

lemma of_char_js_lower_char:
  "(of_char (js_lower_char c) :: nat) =
     (if 65 \<le> (of_char c :: nat) \<and> (of_char c :: nat) \<le> 90 then of_char c + 32 else of_char c)"
  by (auto simp: js_lower_char_def less_eq_char_def)

lemma js_space_lower [simp]: "js_space (js_lower_char c) \<longleftrightarrow> js_space c"
  unfolding js_space_iff of_char_js_lower_char by auto

lemma js_trim_lower_Nil: "js_trim (js_lower s) = [] \<longleftrightarrow> js_trim s = []"
  by (simp add: js_trim_Nil_iff js_lower_def list_all_iff)

lemma library_view_sorted:
  "sorted_wrt (\<lambda>a b. library_cmp s a b \<le> 0) (library_view raw fp s bs)"
  unfolding library_view_def by (rule sorted_js_sort [OF library_cmp_weak_order])

lemma author_options_wit:
  "author_options wit_authors =
     [''Austen'', ''Borges'', ''Calvino'', ''Dickens'', ''Eco'', ''Faulkner'', ''Gaiman'',
      ''Hesse'', ''Ishiguro'', ''Joyce'', ''Kafka'', ''Lem'']"
  by code_simp

section \<open>Properties of the filter and sort engine\<close>


text \<open>
  C2. Refinement of the specification's facet semantics: for a book with a non-negative
  rating, the code's early-return predicate accepts the book exactly when every facet of
  the abstract filter \<open>facet_spec\<close> does (search over title, author, genre and tags;
  exact status; every selected ownership flag; genre and author membership; some shared
  tag; the rating sentinel).
\<close>

theorem book_passes_spec:
  assumes "0 \<le> rating b"
  shows "book_passes q fp b = facet_spec q fp b"
  unfolding book_passes_conj facet_spec_def status_facet list_ex_tags list_all_own_flag
    js_includes_sublist rating_facet_code [OF assms, symmetric]
  by (simp only: conj_assoc)

theorem book_passes_spec_witness:
  "0 \<le> rating (default_book\<lparr>title := ''Dune'', rating := 4, tags := [''scifi'']\<rparr>) \<and>
   book_passes ''dune'' (fp_initial\<lparr>fp_tags := [''scifi''], fp_rating := 3\<rparr>)
     (default_book\<lparr>title := ''Dune'', rating := 4, tags := [''scifi'']\<rparr>) \<and>
   facet_spec ''dune'' (fp_initial\<lparr>fp_tags := [''scifi''], fp_rating := 3\<rparr>)
     (default_book\<lparr>title := ''Dune'', rating := 4, tags := [''scifi'']\<rparr>)"
proof -
  have r: "0 \<le> rating (default_book\<lparr>title := ''Dune'', rating := 4, tags := [''scifi'']\<rparr>)"
    by simp
  have p: "book_passes ''dune'' (fp_initial\<lparr>fp_tags := [''scifi''], fp_rating := 3\<rparr>)
     (default_book\<lparr>title := ''Dune'', rating := 4, tags := [''scifi'']\<rparr>)"
    by code_simp
  show ?thesis using r p book_passes_spec [OF r] by simp
qed


text \<open>
  C4. Each sort key orders the view as the specification says: title and author
  ascending, rating descending, \<open>dateRead\<close> descending as strings (so a missing date,
  the empty string, comes last), \<open>dateAdded\<close> descending.
\<close>

theorem library_view_sort_order:
  "sorted (map title (library_view raw fp SortTitle bs)) \<and>
   sorted (map author (library_view raw fp SortAuthor bs)) \<and>
   sorted_wrt (\<lambda>a b. rating b \<le> rating a) (library_view raw fp SortRating bs) \<and>
   sorted_wrt (\<lambda>a b. dateRead b \<le> dateRead a) (library_view raw fp SortDateRead bs) \<and>
   sorted_wrt (\<lambda>a b. dateAdded b \<le> dateAdded a) (library_view raw fp SortDateAdded bs)"
  using library_view_sorted [of SortTitle raw fp bs] library_view_sorted [of SortAuthor raw fp bs]
    library_view_sorted [of SortRating raw fp bs] library_view_sorted [of SortDateRead raw fp bs]
    library_view_sorted [of SortDateAdded raw fp bs]
  by (simp add: sorted_map)

text \<open>
  The view is a permutation of the filtered subsequence of the input: sorting by any
  key never changes which books (with their multiplicities) are shown.
\<close>

lemma mset_library_view:
  "mset (library_view raw fp s bs) = mset (filter (book_passes (search_query raw) fp) bs)"
  by (simp add: library_view_def)

text \<open>
  Recomputing the view from its own output changes nothing: filtering and sorting
  again with the same panel, search and sort key is the identity.
\<close>

lemma library_view_idem:
  "library_view raw fp s (library_view raw fp s bs) = library_view raw fp s bs"
proof -
  let ?P = "book_passes (search_query raw) fp"
  let ?v = "library_view raw fp s bs"
  have "filter ?P ?v = ?v"
    by (simp add: library_view_def)
  moreover have "js_sort (library_cmp s) ?v = ?v"
    by (rule js_sort_sorted_id [OF library_view_sorted])
  ultimately show ?thesis
    by (simp add: library_view_def [of raw fp s ?v])
qed

text \<open>
  C5. The rating sentinel: with no other facet, \<open>-1\<close> keeps every book, \<open>0\<close> keeps
  exactly the books whose rating is not positive, and \<open>N > 0\<close> keeps exactly the books
  rated at least \<open>N\<close>.
\<close>

theorem rating_sentinel:
  "book_passes [] (fp_initial\<lparr>fp_rating := -1\<rparr>) b \<and>
   (book_passes [] (fp_initial\<lparr>fp_rating := 0\<rparr>) b \<longleftrightarrow> rating b \<le> 0) \<and>
   (book_passes [] (fp_initial\<lparr>fp_rating := int (Suc n)\<rparr>) b \<longleftrightarrow> int (Suc n) \<le> rating b)"
  by (simp add: book_passes_conj fp_initial_def not_less)

text \<open>
  The author facet lists the most frequent authors: an author left out of the
  twelve options was never written on more books than any author that is listed.
\<close>

lemma author_options_top:
  assumes "a \<in> set (author_options bs)" and "a' \<in> set (map author bs)" and "a' \<noteq> []"
    and "a' \<notin> set (author_options bs)"
  shows "count_list (map author bs) a' \<le> count_list (map author bs) a"
proof -
  let ?L = "filter (\<lambda>a. a \<noteq> []) (map author bs)"
  have a: "a \<in> set (map fst (top_counts 12 ?L))" and a': "a' \<notin> set (map fst (top_counts 12 ?L))"
    using assms(1,4) by (simp_all add: author_options_def)
  have "a' \<in> set ?L" using assms(2,3) by simp
  from top_counts_top [OF a this a'] have "count_list ?L a' \<le> count_list ?L a" .
  moreover have "a \<noteq> []"
    using a top_counts_mem [of a _ 12 ?L] by force
  ultimately show ?thesis using assms(3) by (simp add: count_list_filter_pos)
qed

theorem author_options_top_witness:
  "''Austen'' \<in> set (author_options wit_authors) \<and> ''Morrison'' \<in> set (map author wit_authors) \<and>
   ''Morrison'' \<noteq> [] \<and> ''Morrison'' \<notin> set (author_options wit_authors) \<and>
   count_list (map author wit_authors) ''Morrison'' \<le> count_list (map author wit_authors) ''Austen''"
proof -
  have h: "''Austen'' \<in> set (author_options wit_authors)" "''Morrison'' \<in> set (map author wit_authors)"
    "''Morrison'' \<noteq> []" "''Morrison'' \<notin> set (author_options wit_authors)"
    by (simp_all add: author_options_wit) (simp add: wit_authors_def)
  show ?thesis using h author_options_top [OF h] by blast
qed

text \<open>
  C6. The genre facet is the sorted, duplicate-free list of the non-empty genres of the
  whole (unfiltered) book list.
\<close>

theorem genre_options_spec:
  "sorted (genre_options bs) \<and> distinct (genre_options bs) \<and>
   set (genre_options bs) = {g. g \<in> genre ` set bs \<and> g \<noteq> []}"
  by (auto simp: genre_options_def)

text \<open>
  C7. Invariant of the filter panel: from the initial panel, any sequence of panel
  actions leaves the ownership, genre, author and tag selections free of duplicates.
\<close>

theorem fp_reachable_wf: "fp_wf (foldl fp_step fp_initial as)"
  by (rule fp_run_wf) (simp add: fp_wf_def fp_initial_def)

text \<open>
  The filter badge and the filter agree: when the badge counts no active filter,
  the view is the whole book list, only sorted.
\<close>

lemma badge_zero_no_filter:
  assumes "filter_badge_count raw fp = 0"
  shows "library_view raw fp s bs = js_sort (library_cmp s) bs"
proof -
  from assms have "search_query raw = []"
    by (simp add: filter_badge_count_def search_query_def js_trim_lower_Nil split: if_splits)
  moreover from assms have "fp_status fp = StatusAll" "fp_ownership fp = []" "fp_genres fp = []"
      "fp_authors fp = []" "fp_tags fp = []" "fp_rating fp < 0"
    by (simp_all add: filter_badge_count_def split: if_splits)
  ultimately have "\<forall>b. book_passes (search_query raw) fp b"
    by (simp add: book_passes_conj)
  then show ?thesis by (simp add: library_view_def)
qed

text \<open>
  The empty-library message is shown exactly when there are no books at all; a
  non-empty library whose books are all filtered out shows the no-match message.
\<close>

lemma render_library_empty:
  "render_library raw fp s bs = EmptyLibrary \<longleftrightarrow> bs = []"
  by (simp add: render_library_def Let_def library_view_def)

end
