(* ===== verification/Render.thy ===== *)
theory Render
  imports Library_View Sync
begin

text \<open>The render debounce of \<open>src/app.js\<close>, which joins the reconciliation layer
  (\<open>Sync\<close>) to the filter and sort engine (\<open>Library_View\<close>). \<open>renderLibrary\<close> (lines
  1035-1039) does not draw: it cancels the pending timer and sets a new one 50 ms ahead,
  whose callback \<open>_doRenderLibrary\<close> reads the books, the filter panel, the search box
  and the sort key as they are when it runs. It is called by the books listener while the
  library page is shown (line 254), by \<open>_onAuthReady(null)\<close> (line 434), by
  \<open>clearAllData\<close> (line 1876), by \<open>showPage('library')\<close> (line 458), and by every
  filter-panel action, the search box and the sort selector (lines 1190-1309). The state
  \<open>ui\<close> pairs a \<open>Sync\<close> session with the page shown, the panel, the search text, the sort
  key, the render timer and the library grid on screen; \<open>ui_step\<close> fires a due render
  timer and then runs the event, which for a \<open>Sync\<close> event is \<open>Sync.step\<close>.\<close>

section \<open>State and events\<close>

datatype app_page = PageLibrary | PageOther

record ui =
  u_sess :: session
  u_page :: app_page
  u_panel :: filter_panel
  u_search :: string
  u_sort :: sort_by
  render_timer :: "int option"
  shown :: "library_page option"

datatype ui_event =
    SyncEvent event
  | ShowPage app_page
  | PanelAction fp_action
  | SearchInput string
  | SetSortBy sort_by

text \<open>What \<open>_doRenderLibrary\<close> would draw now.\<close>

definition view_now :: "ui \<Rightarrow> library_page" where
  "view_now u = render_library (u_search u) (u_panel u) (u_sort u) (s_books (u_sess u))"

text \<open>\<open>renderLibrary\<close>: \<open>clearTimeout\<close>, then \<open>setTimeout(_doRenderLibrary, 50)\<close>.\<close>

definition render_library_call :: "ui \<Rightarrow> ui" where
  "render_library_call u = u\<lparr>render_timer := Some (clock (u_sess u) + 50)\<rparr>"

text \<open>The timer's callback, when it is due at time \<open>t\<close>.\<close>

definition fire_render :: "int \<Rightarrow> ui \<Rightarrow> ui" where
  "fire_render t u =
     (case render_timer u of
        None \<Rightarrow> u
      | Some d \<Rightarrow> if max t (clock (u_sess u)) < d then u
                 else u\<lparr>render_timer := None, shown := Some (view_now u)\<rparr>)"

text \<open>Which handlers of \<open>Sync\<close> call \<open>renderLibrary\<close>: the books listener when it delivers
  and the library page is active, \<open>_onAuthReady(null)\<close> (also reached by
  \<open>authSignOut\<close>), and \<open>clearAllData\<close>.\<close>

fun sync_renders :: "app_page \<Rightarrow> session \<Rightarrow> event \<Rightarrow> bool" where
  "sync_renders p s BooksSnapshot = (p = PageLibrary \<and> sub_books s \<noteq> None \<and> sub_books s = current_user s)"
| "sync_renders p s (AuthReady None) = True"
| "sync_renders p s SignOut = True"
| "sync_renders p s ClearAllData = True"
| "sync_renders p s _ = False"

fun ui_apply :: "ui \<Rightarrow> int \<Rightarrow> ui_event \<Rightarrow> ui" where
  "ui_apply u t (SyncEvent e) =
     (let u' = u\<lparr>u_sess := step (u_sess u) (t, e)\<rparr>
      in if sync_renders (u_page u) (u_sess u) e then render_library_call u' else u')"
| "ui_apply u t (ShowPage p) =
     (let u' = u\<lparr>u_sess := step (u_sess u) (t, Idle), u_page := p\<rparr>
      in if p = PageLibrary then render_library_call u' else u')"
| "ui_apply u t (PanelAction a) =
     render_library_call (u\<lparr>u_sess := step (u_sess u) (t, Idle), u_panel := fp_step (u_panel u) a,
                            u_search := clear_search a (u_search u)\<rparr>)"
| "ui_apply u t (SearchInput q) =
     render_library_call (u\<lparr>u_sess := step (u_sess u) (t, Idle), u_search := q\<rparr>)"
| "ui_apply u t (SetSortBy b) =
     render_library_call (u\<lparr>u_sess := step (u_sess u) (t, Idle), u_sort := b\<rparr>)"

definition ui_step :: "ui \<Rightarrow> int \<times> ui_event \<Rightarrow> ui" where
  "ui_step u te = ui_apply (fire_render (fst te) u) (fst te) (snd te)"

definition ui_run :: "ui \<Rightarrow> (int \<times> ui_event) list \<Rightarrow> ui" where
  "ui_run u evs = foldl ui_step u evs"

text \<open>The consistency invariant: while the library page is shown and no render is
  pending, the grid is what \<open>_doRenderLibrary\<close> would draw now; a pending render is due
  at most 50 ms after the session's clock.\<close>

definition ui_ok :: "ui \<Rightarrow> bool" where
  "ui_ok u \<longleftrightarrow>
     (u_page u = PageLibrary \<and> render_timer u = None \<longrightarrow> shown u = Some (view_now u)) \<and>
     (\<forall>d. render_timer u = Some d \<longrightarrow> d \<le> clock (u_sess u) + 50)"

text \<open>The page after \<open>DOMContentLoaded\<close>: the dashboard is shown, the library grid is
  empty and no render is pending; the panel is \<open>fp\<close>'s initial value and the sort key
  \<open>currentSortBy = 'dateAdded'\<close> (line 178).\<close>

definition ui_boot :: "session \<Rightarrow> ui" where
  "ui_boot s = \<lparr>u_sess = s, u_page = PageOther, u_panel = fp_initial, u_search = [],
                u_sort = SortDateAdded, render_timer = None, shown = None\<rparr>"

section \<open>Frames\<close>

lemma foldl_clock:
  assumes "\<And>s x. clock (f s x) = clock s"
  shows "clock (foldl f s xs) = clock s"
  by (induction xs arbitrary: s) (simp_all add: assms)

lemma clock_apply_event [simp]: "clock (apply_event s e) = clock s"
proof (cases e)
  case ClearAllData
  have "clock (delete_book_remote s i ok) = clock s" "clock (delete_collection_remote s j) = clock s" for s i ok j
    by (simp_all add: delete_book_remote_def delete_collection_remote_def update_user_def split: option.splits)
  then show ?thesis
    using ClearAllData by (simp add: clear_all_data_def Let_def schedule_settings_write_def foldl_clock)
next
  case (AuthReady x)
  then show ?thesis by (cases x) (simp_all add: subscribe_def load_settings_def Let_def split: option.splits)
qed (auto simp: save_book_remote_def delete_book_remote_def save_collection_remote_def update_user_def
       subscribe_def load_settings_def sign_out_def save_goal_def set_theme_def toggle_theme_def
       save_display_name_def update_settings_def save_def save_local_def schedule_settings_write_def
       cols_snapshot_def Let_def split: option.splits)

lemma clock_step: "clock (step s (t, e)) = max t (clock s)"
  by simp

lemma books_kept:
  assumes "\<not> sync_renders PageLibrary s e"
  shows "s_books (apply_event s e) = s_books s"
  using assms
proof (cases e)
  case (AuthReady x)
  then show ?thesis using assms by (cases x) (simp_all add: subscribe_def)
next
  case BooksSnapshot
  then show ?thesis using assms by (auto simp: books_snapshot_def split: option.splits)
qed (auto simp: save_book_remote_def delete_book_remote_def save_collection_remote_def update_user_def
       save_goal_def set_theme_def toggle_theme_def save_display_name_def Let_def cols_snapshot_def
       split: option.splits)

lemma sync_renders_fire [simp]:
  "sync_renders p (fire_timer (s\<lparr>clock := c\<rparr>)) e = sync_renders p s e"
proof (cases e)
  case (AuthReady x)
  then show ?thesis by (cases x) simp_all
qed simp_all

lemma view_now_frame [simp]:
  "view_now (u\<lparr>render_timer := r\<rparr>) = view_now u" "view_now (u\<lparr>shown := v\<rparr>) = view_now u"
  "view_now (u\<lparr>u_page := p\<rparr>) = view_now u"
  by (simp_all add: view_now_def)

lemma step_books_kept:
  "\<not> sync_renders PageLibrary s e \<Longrightarrow> s_books (step s (t, e)) = s_books s"
  using books_kept [of "fire_timer (s\<lparr>clock := max t (clock s)\<rparr>)" e] by simp

section \<open>The display stays consistent\<close>

lemma render_call_ok: "ui_ok (render_library_call u)"
  by (simp add: ui_ok_def render_library_call_def)

lemma fire_render_ok: "ui_ok u \<Longrightarrow> ui_ok (fire_render t u)"
  by (auto simp: ui_ok_def fire_render_def split: option.splits)

lemma ui_apply_ok:
  assumes "ui_ok u"
  shows "ui_ok (ui_apply u t e)"
proof (cases e)
  case (SyncEvent ev)
  show ?thesis
  proof (cases "sync_renders (u_page u) (u_sess u) ev")
    case False
    have b: "u_page u = PageLibrary \<Longrightarrow> s_books (step (u_sess u) (t, ev)) = s_books (u_sess u)"
      using False step_books_kept by auto
    have c: "clock (u_sess u) \<le> clock (step (u_sess u) (t, ev))" by simp
    show ?thesis
      using assms False b c SyncEvent by (fastforce simp: ui_ok_def view_now_def Let_def)
  qed (simp add: SyncEvent render_call_ok)
next
  case (ShowPage p)
  have c: "clock (u_sess u) \<le> clock (step (u_sess u) (t, Idle))" by simp
  show ?thesis
  proof (cases p)
    case PageLibrary
    then show ?thesis using ShowPage by (simp add: render_call_ok)
  next
    case PageOther
    then show ?thesis using assms ShowPage c by (fastforce simp: ui_ok_def)
  qed
qed (simp_all add: render_call_ok)

lemma ui_step_ok: "ui_ok u \<Longrightarrow> ui_ok (ui_step u te)"
  by (simp add: ui_step_def ui_apply_ok fire_render_ok)

lemma ui_run_ok: "ui_ok u \<Longrightarrow> ui_ok (ui_run u evs)"
  unfolding ui_run_def by (rule foldl_invariant [where P = ui_ok]) (simp_all add: ui_step_ok)

lemma ui_boot_ok: "ui_ok (ui_boot s)"
  by (simp add: ui_ok_def ui_boot_def)

lemma idle_settles:
  assumes "ui_ok u" and "u_page u = PageLibrary" and "clock (u_sess u) + 50 \<le> t"
  shows "shown (ui_step u (t, SyncEvent Idle)) = Some (view_now u)"
proof (cases "render_timer u")
  case None
  then show ?thesis using assms(1,2) by (simp add: ui_ok_def ui_step_def fire_render_def Let_def)
next
  case (Some d)
  then have "d \<le> t" using assms(1,3) by (auto simp: ui_ok_def)
  then show ?thesis using Some by (simp add: ui_step_def fire_render_def Let_def)
qed

text \<open>C15. From the page after boot, through any sequence of sync, navigation, filter,
  search and sort events: whenever the library page is shown and no render is pending,
  the grid shows exactly the current filtered and sorted view of the current books; a
  pending render is never more than 50 ms away.\<close>

theorem render_consistent: "ui_ok (ui_run (ui_boot s) evs)"
  by (rule ui_run_ok [OF ui_boot_ok])

text \<open>C16. The debounce loses no final state: once the library page is shown, an idle
  moment 50 ms after the last event finds the grid showing the view of the books, panel,
  search text and sort key as they are then.\<close>

theorem render_settles:
  assumes "u_page (ui_run (ui_boot s) evs) = PageLibrary"
    and "clock (u_sess (ui_run (ui_boot s) evs)) + 50 \<le> t"
  shows "shown (ui_step (ui_run (ui_boot s) evs) (t, SyncEvent Idle)) = Some (view_now (ui_run (ui_boot s) evs))"
  using idle_settles [OF ui_run_ok [OF ui_boot_ok] assms] .

section \<open>Witnesses\<close>

theorem render_consistent_witness:
  "shown (ui_run (ui_boot fresh_session)
            [(0, SyncEvent (AuthReady (Some ''alice''))), (10, ShowPage PageLibrary), (100, SyncEvent Idle)]) =
   Some EmptyLibrary"
proof -
  let ?u = "ui_run (ui_boot fresh_session)
              [(0, SyncEvent (AuthReady (Some ''alice''))), (10, ShowPage PageLibrary), (100, SyncEvent Idle)]"
  have "u_page ?u = PageLibrary" "render_timer ?u = None" "view_now ?u = EmptyLibrary"
    by (simp_all add: ui_run_def ui_step_def ui_boot_def fire_render_def render_library_call_def
        view_now_def render_library_def library_view_def session_defs subscribe_def load_settings_def)
  then show ?thesis using render_consistent [of fresh_session] by (simp add: ui_ok_def)
qed

theorem render_settles_witness:
  "shown (ui_step (ui_run (ui_boot fresh_session) [(0, SyncEvent (AuthReady None)), (10, ShowPage PageLibrary)])
            (100, SyncEvent Idle)) = Some EmptyLibrary"
proof -
  let ?u = "ui_run (ui_boot fresh_session) [(0, SyncEvent (AuthReady None)), (10, ShowPage PageLibrary)]"
  have h: "u_page ?u = PageLibrary" "clock (u_sess ?u) + 50 \<le> 100" "view_now ?u = EmptyLibrary"
    by (simp_all add: ui_run_def ui_step_def ui_boot_def fire_render_def render_library_call_def
        view_now_def render_library_def library_view_def session_defs)
  show ?thesis using render_settles [OF h(1,2)] h(3) by simp
qed

end
