(* ===== verification/Auth_Bridge.thy ===== *)
theory Auth_Bridge
  imports Main "HOL-Library.While_Combinator"
begin

text \<open>The auth bridge of \<open>src/firebase.js\<close> (lines 24-41). The module script registers
  \<open>onAuthStateChanged\<close>; its callback hands the user to \<open>window._onAuthReady\<close>, which
  \<open>src/app.js\<close> defines when its own script has run. If that handler is not there yet,
  a 100 ms interval counts \<open>retries\<close>, delivers the user at the first tick that finds
  the handler, and gives up after the tick where \<open>retries > 50\<close>. Whether the handler
  exists at tick \<open>k\<close> (time \<open>100 k\<close> ms, tick 0 being the callback itself) is the
  argument \<open>ready\<close>; the result says at which tick the user was delivered, or that the
  bridge gave up. The interval is a recursion on the retry count, total by the measure
  \<open>51 - retries\<close>.\<close>

datatype bridge_outcome = Delivered nat | GaveUp

text \<open>One tick of the interval: \<open>retries++\<close>, then the two tests in the order of the code.\<close>

function auth_poll :: "(nat \<Rightarrow> bool) \<Rightarrow> nat \<Rightarrow> bridge_outcome" where
  "auth_poll ready retries =
     (let r = Suc retries in
      if ready r then Delivered r else if 50 < r then GaveUp else auth_poll ready r)"
  by pat_completeness auto
termination
  by (relation "measure (\<lambda>(ready, retries). 51 - retries)") auto

declare auth_poll.simps [simp del]

text \<open>The \<open>onAuthStateChanged\<close> callback.\<close>

definition auth_bridge :: "(nat \<Rightarrow> bool) \<Rightarrow> bridge_outcome" where
  "auth_bridge ready = (if ready 0 then Delivered 0 else auth_poll ready 0)"

text \<open>The same callback as the code writes it: a state of the \<open>retries\<close> counter and of
  the interval (\<open>None\<close> while it runs, the outcome once \<open>clearInterval\<close> ran), one
  \<open>interval_tick\<close> per 100 ms, and \<open>setInterval\<close> as a \<open>while_option\<close> loop that runs
  while the interval is not cleared; \<open>None\<close> would mean it never is.\<close>

definition interval_tick :: "(nat \<Rightarrow> bool) \<Rightarrow> nat \<times> bridge_outcome option \<Rightarrow> nat \<times> bridge_outcome option" where
  "interval_tick ready st =
     (let r = Suc (fst st) in
      if ready r then (r, Some (Delivered r)) else if 50 < r then (r, Some GaveUp) else (r, None))"

definition interval_loop :: "(nat \<Rightarrow> bool) \<Rightarrow> (nat \<times> bridge_outcome option) option" where
  "interval_loop ready = while_option (\<lambda>st. snd st = None) (interval_tick ready) (0, None)"


lemma interval_from:
  "n \<le> 50 \<Longrightarrow>
   \<exists>k. while_option (\<lambda>st. snd st = None) (interval_tick ready) (n, None) = Some (k, Some (auth_poll ready n)) \<and>
       n < k \<and> k \<le> 51"
proof (induction ready n rule: auth_poll.induct)
  case (1 ready n)
  have u: "while_option (\<lambda>st. snd st = None) (interval_tick ready) (n, None) =
           while_option (\<lambda>st. snd st = None) (interval_tick ready) (interval_tick ready (n, None))"
    by (simp add: while_option_unfold [of _ _ "(n, None)"])
  show ?case
  proof (cases "ready (Suc n)")
    case True
    then have p: "auth_poll ready n = Delivered (Suc n)" by (subst auth_poll.simps) simp
    have t: "interval_tick ready (n, None) = (Suc n, Some (Delivered (Suc n)))"
      using True by (simp add: interval_tick_def)
    have w: "while_option (\<lambda>st. snd st = None) (interval_tick ready) (Suc n, Some (Delivered (Suc n))) =
             Some (Suc n, Some (Delivered (Suc n)))"
      by (simp add: while_option_unfold [of _ _ "(Suc n, Some (Delivered (Suc n)))"])
    show ?thesis using "1.prems" u t w p by simp
  next
    case nr: False
    show ?thesis
    proof (cases "50 < Suc n")
      case True
      then have p: "auth_poll ready n = GaveUp" using nr by (subst auth_poll.simps) simp
      have t: "interval_tick ready (n, None) = (Suc n, Some GaveUp)"
        using True nr by (simp add: interval_tick_def)
      have w: "while_option (\<lambda>st. snd st = None) (interval_tick ready) (Suc n, Some GaveUp) =
               Some (Suc n, Some GaveUp)"
        by (simp add: while_option_unfold [of _ _ "(Suc n, Some GaveUp)"])
      show ?thesis using "1.prems" u t w p by simp
    next
      case False
      then have eq: "auth_poll ready n = auth_poll ready (Suc n)" using nr by (subst auth_poll.simps) simp
      obtain k where k: "while_option (\<lambda>st. snd st = None) (interval_tick ready) (Suc n, None) =
                           Some (k, Some (auth_poll ready (Suc n)))" "Suc n < k" "k \<le> 51"
        using "1.IH" [OF refl nr False] False by auto
      have "interval_tick ready (n, None) = (Suc n, None)" using nr False by (simp add: interval_tick_def)
      then show ?thesis using u k eq by auto
    qed
  qed
qed

lemma auth_poll_spec:
  "n \<le> 50 \<Longrightarrow>
   (auth_poll ready n = Delivered k \<longleftrightarrow> n < k \<and> k \<le> 51 \<and> ready k \<and> (\<forall>j. n < j \<and> j < k \<longrightarrow> \<not> ready j)) \<and>
   (auth_poll ready n = GaveUp \<longleftrightarrow> (\<forall>j. n < j \<and> j \<le> 51 \<longrightarrow> \<not> ready j))"
proof (induction ready n rule: auth_poll.induct)
  case (1 ready n)
  show ?case
  proof (cases "ready (Suc n)")
    case True
    then have eq: "auth_poll ready n = Delivered (Suc n)" by (subst auth_poll.simps) simp
    show ?thesis using True "1.prems" by (auto simp: eq Suc_le_eq)
  next
    case nr: False
    show ?thesis
    proof (cases "50 < Suc n")
      case True
      then have n: "n = 50" using "1.prems" by simp
      have eq: "auth_poll ready 50 = GaveUp" using nr n by (subst auth_poll.simps) simp
      have r: "\<not> ready j" if "50 < j" "j \<le> 51" for j
      proof -
        have "j = 51" using that by simp
        then show ?thesis using nr n by simp
      qed
      show ?thesis unfolding n eq using r by (simp only: bridge_outcome.distinct simp_thms) blast
    next
      case False
      then have ih: "(auth_poll ready (Suc n) = Delivered k \<longleftrightarrow>
                       Suc n < k \<and> k \<le> 51 \<and> ready k \<and> (\<forall>j. Suc n < j \<and> j < k \<longrightarrow> \<not> ready j)) \<and>
                     (auth_poll ready (Suc n) = GaveUp \<longleftrightarrow> (\<forall>j. Suc n < j \<and> j \<le> 51 \<longrightarrow> \<not> ready j))"
        using "1.IH" [OF refl] nr by simp
      have eq: "auth_poll ready n = auth_poll ready (Suc n)"
        using nr False by (subst auth_poll.simps) simp
      have sp: "n < j \<longleftrightarrow> j = Suc n \<or> Suc n < j" for j by auto
      have d: "(n < k \<and> k \<le> 51 \<and> ready k \<and> (\<forall>j. n < j \<and> j < k \<longrightarrow> \<not> ready j)) \<longleftrightarrow>
               (Suc n < k \<and> k \<le> 51 \<and> ready k \<and> (\<forall>j. Suc n < j \<and> j < k \<longrightarrow> \<not> ready j))"
        unfolding sp using nr by blast
      have g: "(\<forall>j. n < j \<and> j \<le> 51 \<longrightarrow> \<not> ready j) \<longleftrightarrow> (\<forall>j. Suc n < j \<and> j \<le> 51 \<longrightarrow> \<not> ready j)"
        unfolding sp using nr by blast
      show ?thesis unfolding eq d g by (rule ih)
    qed
  qed
qed

text \<open>C38. The bridge always ends. It delivers the user at tick \<open>k\<close> exactly when the
  handler first exists at tick \<open>k\<close> and \<open>k \<le> 51\<close>, and it gives up exactly when the
  handler exists at none of the ticks 0 to 51, about 5.1 seconds.\<close>

theorem auth_bridge_spec:
  "(auth_bridge ready = Delivered k \<longleftrightarrow> k \<le> 51 \<and> ready k \<and> (\<forall>j < k. \<not> ready j)) \<and>
   (auth_bridge ready = GaveUp \<longleftrightarrow> (\<forall>j \<le> 51. \<not> ready j))"
proof (cases "ready 0")
  case True
  then show ?thesis by (auto simp: auth_bridge_def)
next
  case False
  note s = auth_poll_spec [of 0 ready k]
  have "(\<forall>j. 0 < j \<and> j < k \<longrightarrow> \<not> ready j) \<longleftrightarrow> (\<forall>j < k. \<not> ready j)"
    using False by (metis neq0_conv)
  moreover have "(\<forall>j. 0 < j \<and> j \<le> 51 \<longrightarrow> \<not> ready j) \<longleftrightarrow> (\<forall>j \<le> 51. \<not> ready j)"
    using False by (metis neq0_conv)
  ultimately show ?thesis using s False by (auto simp: auth_bridge_def)
qed

text \<open>C39. The interval always ends: from \<open>retries = 0\<close> the loop clears the interval
  after at most 51 ticks, with an outcome.\<close>

theorem interval_terminates: "\<exists>k out. interval_loop ready = Some (k, Some out) \<and> k \<le> 51"
  using interval_from [of 0 ready] by (auto simp: interval_loop_def)


theorem auth_bridge_spec_witness:
  "auth_bridge (\<lambda>k. 3 \<le> k) = Delivered 3 \<and> auth_bridge (\<lambda>k. 60 \<le> k) = GaveUp"
  using auth_bridge_spec [of "\<lambda>k. 3 \<le> k" 3] auth_bridge_spec [of "\<lambda>k. 60 \<le> k" 0] by simp

end
