(* ===== verification/Scanner.thy ===== *)
theory Scanner
  imports Catalog
begin

text \<open>The barcode scanner of \<open>src/app.js\<close> (lines 40-157). The section declares several
  functions twice; a script's function declarations are hoisted and the last one of a
  name wins, so the functions that run are \<open>openScanner\<close> (line 44), the \<open>async\<close>
  \<open>handleISBNDetected\<close> (line 57), \<open>addScannedBook\<close> (line 133), \<open>stopCamera\<close>
  (line 139) and \<open>closeScanner\<close> (line 152). These read three names,
  \<open>scannerInterval\<close>, \<open>scannerAnimFrame\<close> and \<open>zxingReader\<close>, that neither script of
  \<open>src/\<close> declares; reading an undeclared name throws a \<open>ReferenceError\<close>, which the
  model makes an \<open>Inl\<close> value. The ISBN lookup inside \<open>handleISBNDetected\<close> (Hardcover
  first, then Open Library) is modelled as written, with each provider's answer an
  argument, as in the catalog theory.\<close>

section \<open>Bindings and exceptions\<close>

datatype js_exc = ReferenceError string

text \<open>The scanner's module-level bindings (\<open>let scannerStream\<close>, \<open>let scannedBookData\<close>).\<close>

definition scanner_declared :: "string list" where
  "scanner_declared = [''scannerStream'', ''scannedBookData'']"

definition read_var :: "string \<Rightarrow> js_exc + unit" where
  "read_var x = (if x \<in> set scanner_declared then Inr () else Inl (ReferenceError x))"

text \<open>Statement sequencing: an exception skips the rest of the function.\<close>

definition js_then :: "js_exc + 'a \<Rightarrow> ('a \<Rightarrow> js_exc + 'b) \<Rightarrow> js_exc + 'b" where
  "js_then r f = (case r of Inl e \<Rightarrow> Inl e | Inr a \<Rightarrow> f a)"

section \<open>The lookup\<close>

text \<open>The object \<open>found\<close>, or the stub the code stores when nothing is found. Hardcover's
  \<open>b.title\<close> is copied without a default, so the title may be \<open>null\<close>; the stub's
  missing fields read as \<open>''\<close> or \<open>0\<close> wherever the code reads them
  (\<open>prefill.genre || ''\<close>, \<open>prefill.pages || ''\<close>).\<close>

record scan_data =
  sd_id :: string
  sd_title :: "string option"
  sd_author :: string
  sd_genre :: string
  sd_pages :: int
  sd_description :: string
  sd_isbn :: string
  sd_publisher :: string
  sd_cover :: string

text \<open>The fields of Open Library's \<open>/isbn/<isbn>.json\<close> the code reads.\<close>

record ol_edition =
  oe_title :: "string option"
  oe_covers :: "int list"
  oe_pages :: "int option"
  oe_publishers :: "string list"

text \<open>Open Library's answer: \<open>fetch\<close> or \<open>json()\<close> throws (outside the inner
  \<open>try\<close>), a response that is not OK, or the parsed edition.\<close>

datatype ol_reply = OlThrows | OlNotOk | OlOk ol_edition

datatype scan_outcome = ScanFound scan_data | ScanNotFound | ScanFailed

text \<open>The texts the code writes into \<open>scanner-book-preview\<close>: \<open>Looking up book...\<close>,
  \<open>"<title>" by <author>\<close>, \<open>Book not found in database...\<close> and
  \<open>Lookup failed ...\<close>.\<close>

datatype scan_preview = PreviewNone | PreviewLooking | PreviewFound string string | PreviewNotFound | PreviewFailed

definition scan_hc_found :: "string \<Rightarrow> hc_book \<Rightarrow> scan_data" where
  "scan_hc_found ib b =
     (let ed = hc_edition b
      in \<lparr>sd_id = js_int_string (hc_id b), sd_title = hc_title b,
          sd_author = str_dflt (js_join '', '' (filter (\<lambda>n. n \<noteq> []) (map (\<lambda>n. case n of None \<Rightarrow> [] | Some x \<Rightarrow> x)
                                                                      (hc_authors b)))) ''Unknown'',
          sd_genre = [], sd_pages = or_zero (Option.bind ed ed_pages),
          sd_description = str_or (hc_description b) [],
          sd_isbn = str_or (Option.bind ed ed_isbn13) ib,
          sd_publisher = str_or (Option.bind ed ed_publisher) [],
          sd_cover = str_or (js_or_str (hc_cached_image b) (Option.bind ed ed_image)) []\<rparr>)"

definition scan_ol_found :: "string \<Rightarrow> ol_edition \<Rightarrow> scan_data" where
  "scan_ol_found ib e =
     \<lparr>sd_id = ib, sd_title = Some (str_or (oe_title e) ''Unknown Title''), sd_author = ''Unknown'',
      sd_genre = [], sd_pages = or_zero (oe_pages e), sd_description = [], sd_isbn = ib,
      sd_publisher = (case oe_publishers e of [] \<Rightarrow> [] | p # _ \<Rightarrow> p),
      sd_cover = (case oe_covers e of
                    c # _ \<Rightarrow> if c \<noteq> 0 then ol_id_url c else ol_isbn_url ib ''L''
                  | [] \<Rightarrow> ol_isbn_url ib ''L'')\<rparr>"

text \<open>The body of the outer \<open>try\<close>: Hardcover's first book when its call succeeds and
  lists one (a failing call is caught and ignored), otherwise Open Library.\<close>

definition scan_lookup :: "string \<Rightarrow> hc_book list option \<Rightarrow> ol_reply \<Rightarrow> scan_outcome" where
  "scan_lookup ib hc ol =
     (case hc of
        Some (b # _) \<Rightarrow> ScanFound (scan_hc_found ib b)
      | _ \<Rightarrow> (case ol of
               OlThrows \<Rightarrow> ScanFailed
             | OlNotOk \<Rightarrow> ScanNotFound
             | OlOk e \<Rightarrow> ScanFound (scan_ol_found ib e)))"

section \<open>The scanner's state\<close>

text \<open>The two bindings, the scanner modal's elements the code writes (the status line
  as whether it says \<open>Barcode detected!\<close>), the scanner modal's visibility, the number
  of \<open>coming soon\<close> toasts shown, and the book modal \<open>openAddModal\<close> fills.\<close>

record scanner_state =
  sc_stream :: bool
  sc_data :: "scan_data option"
  sc_detected :: bool
  sc_isbn_display :: string
  sc_result_shown :: bool
  sc_preview :: scan_preview
  sc_add_btn :: bool
  sc_modal_open :: bool
  sc_coming_soon :: nat
  sc_editing :: "string option"
  sc_form :: book_form

definition scan_title_text :: "string option \<Rightarrow> string" where
  "scan_title_text t = (case t of Some x \<Rightarrow> x | None \<Rightarrow> ''null'')"

text \<open>Lines 115-129: what the outcome of the lookup does to the page.\<close>

definition show_scan_outcome :: "string \<Rightarrow> scan_outcome \<Rightarrow> scanner_state \<Rightarrow> scanner_state" where
  "show_scan_outcome ib out st =
     (case out of
        ScanFound d \<Rightarrow>
          st\<lparr>sc_data := Some d,
             sc_preview := PreviewFound (scan_title_text (sd_title d)) (sd_author d),
             sc_add_btn := True\<rparr>
      | ScanNotFound \<Rightarrow>
          st\<lparr>sc_preview := PreviewNotFound,
             sc_data := Some \<lparr>sd_id = [], sd_title = Some [], sd_author = [], sd_genre = [], sd_pages = 0,
                               sd_description = [], sd_isbn = ib, sd_publisher = [], sd_cover = []\<rparr>,
             sc_add_btn := True\<rparr>
      | ScanFailed \<Rightarrow> st\<lparr>sc_preview := PreviewFailed\<rparr>)"

section \<open>The functions that run\<close>

definition open_scanner :: "scanner_state \<Rightarrow> scanner_state" where
  "open_scanner st = st\<lparr>sc_coming_soon := Suc (sc_coming_soon st)\<rparr>"

text \<open>\<open>stopCamera\<close> (line 139): \<open>cancelAnimationFrame(scannerAnimFrame)\<close> evaluates its
  argument first.\<close>

definition stop_camera :: "scanner_state \<Rightarrow> js_exc + scanner_state" where
  "stop_camera st =
     js_then (read_var ''scannerAnimFrame'') (\<lambda>_.
     js_then (read_var ''zxingReader'') (\<lambda>_.
     js_then (read_var ''scannerStream'') (\<lambda>_. Inr (st\<lparr>sc_stream := False\<rparr>))))"

definition close_scanner :: "scanner_state \<Rightarrow> js_exc + scanner_state" where
  "close_scanner st = js_then (stop_camera st) (\<lambda>st'. Inr (st'\<lparr>sc_modal_open := False\<rparr>))"

text \<open>\<open>handleISBNDetected(isbn)\<close>: \<open>clearInterval(scannerInterval)\<close>, \<open>stopCamera()\<close>,
  the four status writes, then the lookup; the returned promise rejects with the
  exception, and nothing catches it.\<close>

definition handle_isbn_detected ::
  "string \<Rightarrow> hc_book list option \<Rightarrow> ol_reply \<Rightarrow> scanner_state \<Rightarrow> js_exc + scanner_state" where
  "handle_isbn_detected ib hc ol st =
     js_then (read_var ''scannerInterval'') (\<lambda>_.
     js_then (stop_camera st) (\<lambda>st1.
       Inr (show_scan_outcome ib (scan_lookup ib hc ol)
              (st1\<lparr>sc_detected := True, sc_isbn_display := ib, sc_result_shown := True,
                   sc_preview := PreviewLooking\<rparr>))))"

text \<open>What \<open>openAddModal\<close> reads of the scanned object (\<open>prefill.title || ''\<close>).\<close>

definition scan_prefill :: "scan_data \<Rightarrow> book" where
  "scan_prefill d =
     default_book\<lparr>title := (case sd_title d of Some t \<Rightarrow> t | None \<Rightarrow> []), author := sd_author d, genre := sd_genre d,
                  isbn := sd_isbn d, pages := sd_pages d, coverUrl := sd_cover d,
                  description := sd_description d\<rparr>"

definition add_scanned_book :: "scanner_state \<Rightarrow> js_exc + scanner_state" where
  "add_scanned_book st =
     (case sc_data st of
        None \<Rightarrow> Inr st
      | Some d \<Rightarrow> js_then (close_scanner st) (\<lambda>st'.
                   (let (e, f) = open_add_modal (sc_form st') (Some (scan_prefill d))
                    in Inr (st'\<lparr>sc_editing := e, sc_form := f\<rparr>))))"

section \<open>Runs of the scanner\<close>

text \<open>The scanner's entry points, as the page's buttons and the (absent) detector would
  call them. A call that throws leaves the state as it was: each exception of these
  functions is raised before their first write.\<close>

datatype scanner_call =
    OpenScanner
  | CloseScanner
  | AddScannedBook
  | IsbnDetected string "hc_book list option" ol_reply

fun scanner_call_fn :: "scanner_call \<Rightarrow> scanner_state \<Rightarrow> js_exc + scanner_state" where
  "scanner_call_fn OpenScanner st = Inr (open_scanner st)"
| "scanner_call_fn CloseScanner st = close_scanner st"
| "scanner_call_fn AddScannedBook st = add_scanned_book st"
| "scanner_call_fn (IsbnDetected ib hc ol) st = handle_isbn_detected ib hc ol st"

definition scanner_after :: "scanner_call \<Rightarrow> scanner_state \<Rightarrow> scanner_state" where
  "scanner_after c st = (case scanner_call_fn c st of Inl _ \<Rightarrow> st | Inr st' \<Rightarrow> st')"

text \<open>The page as loaded, with the book modal's inputs \<open>f\<close>.\<close>

definition scanner_init :: "book_form \<Rightarrow> scanner_state" where
  "scanner_init f =
     \<lparr>sc_stream = False, sc_data = None, sc_detected = False, sc_isbn_display = [], sc_result_shown = False,
      sc_preview = PreviewNone, sc_add_btn = False, sc_modal_open = False, sc_coming_soon = 0,
      sc_editing = None, sc_form = f\<rparr>"

inductive scanner_reach :: "book_form \<Rightarrow> scanner_state \<Rightarrow> bool" for f where
  init: "scanner_reach f (scanner_init f)"
| call: "scanner_reach f st \<Longrightarrow> scanner_reach f (scanner_after c st)"

section \<open>Lemmas\<close>

lemma read_var_undeclared [simp]:
  "read_var ''scannerInterval'' = Inl (ReferenceError ''scannerInterval'')"
  "read_var ''scannerAnimFrame'' = Inl (ReferenceError ''scannerAnimFrame'')"
  by (simp_all add: read_var_def scanner_declared_def)

lemma js_then_Inl [simp]: "js_then (Inl e) f = Inl e"
  by (simp add: js_then_def)

lemma stop_camera_throws: "stop_camera st = Inl (ReferenceError ''scannerAnimFrame'')"
  by (simp add: stop_camera_def)

lemma close_scanner_throws: "close_scanner st = Inl (ReferenceError ''scannerAnimFrame'')"
  by (simp add: close_scanner_def stop_camera_throws)

lemma handle_isbn_detected_throws:
  "handle_isbn_detected ib hc ol st = Inl (ReferenceError ''scannerInterval'')"
  by (simp add: handle_isbn_detected_def)

lemma add_scanned_book_throws:
  "sc_data st = Some d \<Longrightarrow> add_scanned_book st = Inl (ReferenceError ''scannerAnimFrame'')"
  by (simp add: add_scanned_book_def close_scanner_throws)

lemma scanner_after_simps:
  "scanner_after OpenScanner st = open_scanner st"
  "scanner_after CloseScanner st = st"
  "scanner_after (IsbnDetected ib hc ol) st = st"
  "sc_data st = None \<Longrightarrow> scanner_after AddScannedBook st = st"
  by (simp_all add: scanner_after_def close_scanner_throws handle_isbn_detected_throws add_scanned_book_def)

lemma scanner_after_inert:
  "sc_data st = None \<Longrightarrow> scanner_after c st = st \<or> scanner_after c st = open_scanner st"
  by (cases c) (simp_all add: scanner_after_simps)

lemma scanner_after_keeps:
  "sc_data st = None \<Longrightarrow>
     sc_data (scanner_after c st) = None \<and> sc_form (scanner_after c st) = sc_form st \<and>
     sc_editing (scanner_after c st) = sc_editing st \<and> sc_result_shown (scanner_after c st) = sc_result_shown st"
  using scanner_after_inert [of st c] by (auto simp: open_scanner_def)

section \<open>Properties\<close>

text \<open>C28. The scanner can never add a book: in every state the page can reach through
  its scanner entry points, in any order and with any provider answers, no scanned book
  is stored, the result panel was never shown, the book modal is as it was, and
  \<open>addScannedBook\<close> does nothing. \<open>handleISBNDetected\<close> throws at
  \<open>clearInterval(scannerInterval)\<close> before its first write, and \<open>closeScanner\<close> at
  \<open>cancelAnimationFrame(scannerAnimFrame)\<close>.\<close>

theorem scanner_inert:
  assumes "scanner_reach f st"
  shows "sc_data st = None \<and> sc_form st = f \<and> sc_editing st = None \<and> \<not> sc_result_shown st \<and>
         scanner_after AddScannedBook st = st"
  using assms
proof induction
  case init
  then show ?case by (simp add: scanner_init_def scanner_after_simps)
next
  case (call st c)
  then show ?case using scanner_after_keeps [of st c] scanner_after_simps(4) by simp
qed

text \<open>The lookup the scanner would run copies Hardcover's title without a default: a book
  without title is previewed as \<open>"null" by ...\<close>, where the search shows
  \<open>Unknown Title\<close>.\<close>

lemma scan_hc_title_null:
  "sd_title (scan_hc_found ''9780441013593'' \<lparr>hc_id = 7, hc_title = None, hc_authors = [Some ''Frank Herbert''],
      hc_edition = None, hc_cached_image = None, hc_description = None\<rparr>) = None \<and>
   hit_title (hc_hit \<lparr>hc_id = 7, hc_title = None, hc_authors = [Some ''Frank Herbert''],
      hc_edition = None, hc_cached_image = None, hc_description = None\<rparr>) = ''Unknown Title''"
  by (simp add: scan_hc_found_def hc_hit_def str_or_def js_or_str_def)

section \<open>Witnesses\<close>

theorem scanner_inert_witness:
  "sc_data (scanner_after (IsbnDetected ''9780441013593'' (Some []) OlNotOk) (scanner_after OpenScanner (scanner_init ed_form))) = None \<and>
   sc_form (scanner_after (IsbnDetected ''9780441013593'' (Some []) OlNotOk) (scanner_after OpenScanner (scanner_init ed_form))) = ed_form"
proof -
  have r: "scanner_reach ed_form (scanner_after (IsbnDetected ''9780441013593'' (Some []) OlNotOk)
                                   (scanner_after OpenScanner (scanner_init ed_form)))"
    by (intro scanner_reach.call scanner_reach.init)
  show ?thesis using scanner_inert [OF r] by simp
qed

end
