(* ===== verification/Auth_Forms.thy ===== *)
theory Auth_Forms
  imports Sync
begin

text \<open>The sign-in screen and the signed-in user's header of \<open>src/app.js\<close> (lines
  308-412): \<open>switchAuthTab\<close>, \<open>authSignIn\<close>, \<open>authSignUp\<close>, \<open>authWithGoogle\<close>,
  \<open>authForgotPassword\<close>, \<open>showAuthError\<close>, \<open>friendlyAuthError\<close> and
  \<open>updateUserUI\<close>, with the part of \<open>_onAuthReady\<close> (line 414) that shows the user.
  Firebase Auth is not modelled: each call's outcome is an argument, the call itself is
  recorded in a log. \<open>authSignUp\<close> awaits the account creation; the auth listener runs
  \<open>_onAuthReady\<close> for the new user at a moment the code does not fix, so the two
  orders of the sign-up's continuation and the listener are both modelled.\<close>

section \<open>Firebase calls\<close>

text \<open>The outcome of a Firebase Auth call: success, or an error with its \<open>code\<close>
  (\<open>None\<close> when the error has none).\<close>

datatype fb_reply = FbOk | FbFail "string option"

datatype fb_call = FbSignIn string string | FbCreate string string | FbGoogle | FbReset string

section \<open>Error messages\<close>

text \<open>\<open>friendlyAuthError(code)\<close>: the message of a known code, a generic one otherwise.
  Firebase's codes have the form \<open>auth/...\<close>, so none is a property name of
  \<open>Object.prototype\<close> and the object literal behaves as this table.\<close>

definition auth_messages :: "(string \<times> string) list" where
  "auth_messages =
     [(''auth/invalid-email'', ''Invalid email address.''),
      (''auth/user-not-found'', ''No account found with this email.''),
      (''auth/wrong-password'', ''Incorrect password.''),
      (''auth/email-already-in-use'', ''An account already exists with this email.''),
      (''auth/weak-password'', ''Password must be at least 6 characters.''),
      (''auth/too-many-requests'', ''Too many attempts. Please try again later.''),
      (''auth/network-request-failed'', ''Network error. Check your connection.''),
      (''auth/invalid-credential'', ''Invalid email or password.'')]"

definition friendly_auth_error :: "string option \<Rightarrow> string" where
  "friendly_auth_error c =
     (case Option.bind c (map_of auth_messages) of
        Some m \<Rightarrow> m
      | None \<Rightarrow> ''Something went wrong. Please try again.'')"

section \<open>The forms\<close>

text \<open>The two tab buttons, the two panels, the two error lines (text and whether the
  \<open>show\<close> class is set), the toasts (text and kind) and the log of Firebase calls.\<close>

record auth_ui =
  tab_signin_btn :: bool
  tab_signup_btn :: bool
  panel_signin :: bool
  panel_signup :: bool
  signin_err :: string
  signin_err_shown :: bool
  signup_err :: string
  signup_err_shown :: bool
  auth_toasts :: "(string \<times> string) list"
  fb_calls :: "fb_call list"

text \<open>\<open>switchAuthTab(tab)\<close>: tab button \<open>i\<close> is active when \<open>(i === 0) === (tab === 'signin')\<close>.\<close>

definition switch_auth_tab :: "string \<Rightarrow> auth_ui \<Rightarrow> auth_ui" where
  "switch_auth_tab tab ui =
     ui\<lparr>tab_signin_btn := (tab = ''signin''), tab_signup_btn := (tab \<noteq> ''signin''),
        panel_signin := (tab = ''signin''), panel_signup := (tab = ''signup'')\<rparr>"

datatype auth_el = SigninError | SignupError

definition show_auth_error :: "auth_el \<Rightarrow> string \<Rightarrow> auth_ui \<Rightarrow> auth_ui" where
  "show_auth_error el msg ui =
     (case el of
        SigninError \<Rightarrow> ui\<lparr>signin_err := msg, signin_err_shown := True\<rparr>
      | SignupError \<Rightarrow> ui\<lparr>signup_err := msg, signup_err_shown := True\<rparr>)"

definition hide_auth_error :: "auth_el \<Rightarrow> auth_ui \<Rightarrow> auth_ui" where
  "hide_auth_error el ui =
     (case el of
        SigninError \<Rightarrow> ui\<lparr>signin_err_shown := False\<rparr>
      | SignupError \<Rightarrow> ui\<lparr>signup_err_shown := False\<rparr>)"

definition log_call :: "fb_call \<Rightarrow> auth_ui \<Rightarrow> auth_ui" where
  "log_call c ui = ui\<lparr>fb_calls := fb_calls ui @ [c]\<rparr>"

text \<open>\<open>authSignIn()\<close>: the email is trimmed, the password is not.\<close>

definition auth_sign_in :: "string \<Rightarrow> string \<Rightarrow> fb_reply \<Rightarrow> auth_ui \<Rightarrow> auth_ui" where
  "auth_sign_in email_raw pw r ui =
     (let email = js_trim email_raw; ui1 = hide_auth_error SigninError ui
      in if email = [] \<or> pw = [] then show_auth_error SigninError ''Please fill in all fields'' ui1
         else (let ui2 = log_call (FbSignIn email pw) ui1
               in case r of
                    FbOk \<Rightarrow> ui2
                  | FbFail c \<Rightarrow> show_auth_error SigninError (friendly_auth_error c) ui2))"

text \<open>\<open>authSignUp()\<close> up to its \<open>await\<close>: the validation and the call of
  \<open>createUserWithEmailAndPassword\<close>.\<close>

definition auth_sign_up_start :: "string \<Rightarrow> string \<Rightarrow> auth_ui \<Rightarrow> auth_ui" where
  "auth_sign_up_start email_raw pw ui =
     (let email = js_trim email_raw; ui1 = hide_auth_error SignupError ui
      in if email = [] \<or> pw = [] then show_auth_error SignupError ''Please fill in all fields'' ui1
         else log_call (FbCreate email pw) ui1)"

text \<open>The continuation of \<open>authSignUp()\<close> once the account creation settles: on success a
  non-empty name goes into \<open>settings.displayName\<close> and \<open>saveSettingsToFirestore()\<close>
  runs, which does nothing while \<open>currentUser\<close> is still \<open>null\<close>.\<close>

definition auth_sign_up_finish :: "string \<Rightarrow> fb_reply \<Rightarrow> session \<times> auth_ui \<Rightarrow> session \<times> auth_ui" where
  "auth_sign_up_finish name_raw r su =
     (let (s, ui) = su; name = js_trim name_raw
      in case r of
           FbOk \<Rightarrow> (if name \<noteq> [] then (schedule_settings_write (update_settings s (\<lambda>st. st\<lparr>displayName := Some name\<rparr>)), ui)
                   else (s, ui))
         | FbFail c \<Rightarrow> (s, show_auth_error SignupError (friendly_auth_error c) ui))"

definition auth_with_google :: "fb_reply \<Rightarrow> auth_ui \<Rightarrow> auth_ui" where
  "auth_with_google r ui =
     (let ui1 = log_call FbGoogle ui
      in case r of
           FbOk \<Rightarrow> ui1
         | FbFail c \<Rightarrow>
             if c = Some ''auth/popup-closed-by-user'' then ui1
             else ui1\<lparr>auth_toasts := auth_toasts ui1 @ [(''Google sign-in failed: '' @ friendly_auth_error c, ''error'')]\<rparr>)"

text \<open>\<open>authForgotPassword()\<close> reads the sign-in email; it does not hide an earlier error.\<close>

definition auth_forgot_password :: "string \<Rightarrow> fb_reply \<Rightarrow> auth_ui \<Rightarrow> auth_ui" where
  "auth_forgot_password email_raw r ui =
     (let email = js_trim email_raw
      in if email = [] then show_auth_error SigninError ''Enter your email address first'' ui
         else (let ui1 = log_call (FbReset email) ui
               in case r of
                    FbOk \<Rightarrow> ui1\<lparr>auth_toasts := auth_toasts ui1 @ [(''Password reset email sent!'', ''success'')]\<rparr>
                  | FbFail c \<Rightarrow> show_auth_error SigninError (friendly_auth_error c) ui1))"

section \<open>The signed-in user's header\<close>

text \<open>The fields of a Firebase user \<open>updateUserUI\<close> reads.\<close>

record fb_user =
  fu_uid :: string
  fu_email :: "string option"
  fu_name :: "string option"
  fu_photo :: "string option"

text \<open>\<open>s.split(sep)[0]\<close>.\<close>

definition first_piece :: "char \<Rightarrow> string \<Rightarrow> string" where
  "first_piece c s = hd (js_split [c] s)"

text \<open>\<open>user.displayName || settings.displayName || user.email?.split('@')[0] || 'Reader'\<close>.\<close>

definition display_name :: "fb_user \<Rightarrow> settings \<Rightarrow> string" where
  "display_name u st =
     str_or (fu_name u) (str_or (displayName st)
       (str_or (map_option (first_piece (CHR ''@'')) (fu_email u)) ''Reader''))"

text \<open>The avatar: the photo, or the first character of the name, which the page shows
  upper-cased.\<close>

datatype avatar = AvatarEmpty | AvatarPhoto string | AvatarInitial char

record user_view =
  uv_name :: string
  uv_avatar :: avatar
  uv_greeting :: string
  uv_auth_hidden :: bool

text \<open>\<open>updateUserUI(user)\<close>: \<open>None\<close> is the \<open>TypeError\<close> that
  \<open>displayName[0].toUpperCase()\<close> would throw on an empty name.\<close>

definition update_user_ui :: "fb_user option \<Rightarrow> settings \<Rightarrow> user_view \<Rightarrow> user_view option" where
  "update_user_ui u st uv =
     (case u of
        None \<Rightarrow> Some uv
      | Some fu \<Rightarrow>
          (let n = display_name fu st
           in case fu_photo fu of
                Some p \<Rightarrow> if p \<noteq> [] then Some (uv\<lparr>uv_name := n, uv_avatar := AvatarPhoto p,
                                                  uv_greeting := first_piece (CHR '' '') n\<rparr>)
                          else (case n of [] \<Rightarrow> None
                                | c # _ \<Rightarrow> Some (uv\<lparr>uv_name := n, uv_avatar := AvatarInitial c,
                                                     uv_greeting := first_piece (CHR '' '') n\<rparr>))
              | None \<Rightarrow> (case n of [] \<Rightarrow> None
                         | c # _ \<Rightarrow> Some (uv\<lparr>uv_name := n, uv_avatar := AvatarInitial c,
                                              uv_greeting := first_piece (CHR '' '') n\<rparr>))))"

text \<open>\<open>_onAuthReady(user)\<close> with its page: for a user, \<open>currentUser\<close> is set, the auth
  screen hidden and \<open>updateUserUI\<close> run with the settings in memory before
  \<open>loadSettings\<close>; then the session part of the reconciliation layer (\<open>auth_ready\<close>).
  An exception of \<open>updateUserUI\<close> rejects the handler before \<open>loadSettings\<close>, leaving
  only \<open>currentUser\<close> set.\<close>

fun auth_ready_ui :: "fb_user option \<Rightarrow> session \<times> user_view \<Rightarrow> session \<times> user_view" where
  "auth_ready_ui (Some fu) (s, uv) =
     (case update_user_ui (Some fu) (s_settings s) (uv\<lparr>uv_auth_hidden := True\<rparr>) of
        None \<Rightarrow> (s\<lparr>current_user := Some (fu_uid fu)\<rparr>, uv\<lparr>uv_auth_hidden := True\<rparr>)
      | Some uv' \<Rightarrow> (auth_ready s (Some (fu_uid fu)), uv'))"
| "auth_ready_ui None (s, uv) = (auth_ready s None, uv\<lparr>uv_auth_hidden := False\<rparr>)"

section \<open>Sign-up and the auth listener\<close>

text \<open>After a successful account creation two callbacks are pending: the auth listener's
  \<open>_onAuthReady(user)\<close> and the continuation of \<open>authSignUp\<close>. Either may run first.\<close>

datatype signup_order = ListenerFirst | ContinuationFirst

definition sign_up_race ::
  "signup_order \<Rightarrow> string \<Rightarrow> fb_user \<Rightarrow> session \<times> auth_ui \<times> user_view \<Rightarrow> session \<times> auth_ui \<times> user_view" where
  "sign_up_race ord name_raw fu st =
     (let (s, ui, uv) = st
      in case ord of
           ListenerFirst \<Rightarrow>
             (let (s1, uv1) = auth_ready_ui (Some fu) (s, uv); (s2, ui2) = auth_sign_up_finish name_raw FbOk (s1, ui)
              in (s2, ui2, uv1))
         | ContinuationFirst \<Rightarrow>
             (let (s1, ui1) = auth_sign_up_finish name_raw FbOk (s, ui); (s2, uv2) = auth_ready_ui (Some fu) (s1, uv)
              in (s2, ui1, uv2)))"

section \<open>Runs of the forms\<close>

datatype auth_action =
    SwitchTab string
  | SignIn string string fb_reply
  | SignUp string string string fb_reply
  | Google fb_reply
  | ForgotPassword string fb_reply

text \<open>Without interleaving: a sign-up's continuation runs right after its call.\<close>

fun auth_action_fn :: "auth_action \<Rightarrow> session \<times> auth_ui \<Rightarrow> session \<times> auth_ui" where
  "auth_action_fn (SwitchTab t) (s, ui) = (s, switch_auth_tab t ui)"
| "auth_action_fn (SignIn e p r) (s, ui) = (s, auth_sign_in e p r ui)"
| "auth_action_fn (SignUp n e p r) (s, ui) =
     (let ui1 = auth_sign_up_start e p ui
      in if fb_calls ui1 = fb_calls ui then (s, ui1) else auth_sign_up_finish n r (s, ui1))"
| "auth_action_fn (Google r) (s, ui) = (s, auth_with_google r ui)"
| "auth_action_fn (ForgotPassword e r) (s, ui) = (s, auth_forgot_password e r ui)"

definition auth_run :: "auth_action list \<Rightarrow> session \<times> auth_ui \<Rightarrow> session \<times> auth_ui" where
  "auth_run acts su = foldl (\<lambda>su a. auth_action_fn a su) su acts"

text \<open>What the properties below quantify over: a call to Firebase with a trimmed,
  non-empty email and a non-empty password, and the texts an error line can show.\<close>

fun call_ok :: "fb_call \<Rightarrow> bool" where
  "call_ok (FbSignIn e p) \<longleftrightarrow> e \<noteq> [] \<and> js_trim e = e \<and> p \<noteq> []"
| "call_ok (FbCreate e p) \<longleftrightarrow> e \<noteq> [] \<and> js_trim e = e \<and> p \<noteq> []"
| "call_ok FbGoogle \<longleftrightarrow> True"
| "call_ok (FbReset e) \<longleftrightarrow> e \<noteq> [] \<and> js_trim e = e"

definition auth_texts :: "string set" where
  "auth_texts = {''Please fill in all fields'', ''Enter your email address first'',
                 ''Something went wrong. Please try again.''} \<union> snd ` set auth_messages"

definition auth_ui_ok :: "auth_ui \<Rightarrow> bool" where
  "auth_ui_ok ui \<longleftrightarrow>
     list_all call_ok (fb_calls ui) \<and> (signin_err_shown ui \<longrightarrow> signin_err ui \<in> auth_texts) \<and>
     (signup_err_shown ui \<longrightarrow> signup_err ui \<in> auth_texts)"

text \<open>The sign-in screen as the page loads it.\<close>

definition auth_ui_init :: auth_ui where
  "auth_ui_init =
     \<lparr>tab_signin_btn = True, tab_signup_btn = False, panel_signin = True, panel_signup = False,
      signin_err = [], signin_err_shown = False, signup_err = [], signup_err_shown = False,
      auth_toasts = [], fb_calls = []\<rparr>"

section \<open>Lemmas\<close>

lemma hd_js_split_aux: "hd (js_split_aux [c] s cur) = rev cur @ takeWhile (\<lambda>x. x \<noteq> c) s"
  by (induction s arbitrary: cur) auto

lemma first_piece_takeWhile: "first_piece c s = takeWhile (\<lambda>x. x \<noteq> c) s"
  by (simp add: first_piece_def js_split_def hd_js_split_aux)

lemma str_or_ne: "d \<noteq> [] \<Longrightarrow> str_or a d \<noteq> []"
  by (simp add: str_or_def js_or_str_def split: option.splits if_splits)

lemma display_name_ne: "display_name u st \<noteq> []"
  by (simp add: display_name_def str_or_ne)

lemma update_user_ui_Some:
  "update_user_ui (Some fu) st uv =
     Some (uv\<lparr>uv_name := display_name fu st,
              uv_avatar := (case fu_photo fu of Some p \<Rightarrow> if p \<noteq> [] then AvatarPhoto p else AvatarInitial (hd (display_name fu st))
                            | None \<Rightarrow> AvatarInitial (hd (display_name fu st))),
              uv_greeting := first_piece (CHR '' '') (display_name fu st)\<rparr>)"
  using display_name_ne [of fu st]
  by (cases "display_name fu st") (auto simp: update_user_ui_def Let_def split: option.splits)

lemma friendly_auth_error_text: "friendly_auth_error c \<in> auth_texts"
proof (cases "Option.bind c (map_of auth_messages)")
  case (Some m)
  then have "m \<in> snd ` set auth_messages"
    by (cases c) (auto dest: map_of_SomeD intro: rev_image_eqI)
  then show ?thesis using Some by (simp add: friendly_auth_error_def auth_texts_def)
qed (simp add: friendly_auth_error_def auth_texts_def)

lemma auth_ui_ok_show: "auth_ui_ok ui \<Longrightarrow> m \<in> auth_texts \<Longrightarrow> auth_ui_ok (show_auth_error el m ui)"
  by (cases el) (simp_all add: auth_ui_ok_def show_auth_error_def)

lemma auth_ui_ok_hide: "auth_ui_ok ui \<Longrightarrow> auth_ui_ok (hide_auth_error el ui)"
  by (cases el) (simp_all add: auth_ui_ok_def hide_auth_error_def)

lemma auth_ui_ok_log: "auth_ui_ok ui \<Longrightarrow> call_ok c \<Longrightarrow> auth_ui_ok (log_call c ui)"
  by (simp add: auth_ui_ok_def log_call_def)

lemma auth_ui_ok_toast: "auth_ui_ok ui \<Longrightarrow> auth_ui_ok (ui\<lparr>auth_toasts := ts\<rparr>)"
  by (simp add: auth_ui_ok_def)

lemma auth_texts_fixed [simp]:
  "''Please fill in all fields'' \<in> auth_texts" "''Enter your email address first'' \<in> auth_texts"
  by (simp_all add: auth_texts_def)

lemmas auth_ok_intros = auth_ui_ok_show auth_ui_ok_hide auth_ui_ok_log auth_ui_ok_toast friendly_auth_error_text

lemma auth_action_ok:
  assumes ok: "auth_ui_ok ui"
  shows "auth_ui_ok (snd (auth_action_fn a (s, ui)))"
  using ok
proof (cases a)
  case (SwitchTab t)
  then show ?thesis using ok by (simp add: switch_auth_tab_def auth_ui_ok_def)
next
  case (SignUp n e p r)
  have start: "auth_ui_ok (auth_sign_up_start e p ui)"
    using ok by (simp add: auth_sign_up_start_def Let_def auth_ok_intros)
  show ?thesis
    using SignUp start by (auto simp: Let_def auth_sign_up_finish_def auth_ok_intros split: fb_reply.splits)
qed (simp_all add: auth_sign_in_def auth_with_google_def auth_forgot_password_def Let_def auth_ok_intros
                split: fb_reply.splits)

lemma auth_run_Cons: "auth_run (a # acts) su = auth_run acts (auth_action_fn a su)"
  by (simp add: auth_run_def)

section \<open>Properties\<close>

text \<open>C29. The auth forms never call Firebase with an empty or untrimmed email or an
  empty password, and an error line that is shown holds one of the form's own messages
  or a message of \<open>friendlyAuthError\<close>, never a raw error code: this holds after any
  sequence of tab switches, sign-ins, sign-ups, Google sign-ins and password resets,
  whatever Firebase answers.\<close>

theorem auth_forms_safe:
  assumes "auth_ui_ok ui"
  shows "auth_ui_ok (snd (auth_run acts (s, ui)))"
  using assms
proof (induction acts arbitrary: s ui)
  case Nil
  then show ?case by (simp add: auth_run_def)
next
  case (Cons a acts)
  obtain s1 ui1 where e: "auth_action_fn a (s, ui) = (s1, ui1)" by fastforce
  have "auth_ui_ok ui1" using auth_action_ok [OF Cons.prems, of a s] e by simp
  then show ?case using Cons.IH [of ui1 s1] e by (simp add: auth_run_Cons)
qed

text \<open>\<open>_onAuthReady(user)\<close> always gets past \<open>updateUserUI\<close>: the displayed name is
  never empty (it falls back to \<open>Reader\<close>), so \<open>displayName[0].toUpperCase()\<close> never
  throws, and the handler goes on to load the settings and subscribe for the user;
  the greeting is the name's first word.\<close>

lemma auth_ready_shows_user:
  "auth_ready_ui (Some fu) (s, uv) =
     (auth_ready s (Some (fu_uid fu)),
      uv\<lparr>uv_auth_hidden := True, uv_name := display_name fu (s_settings s),
         uv_avatar := (case fu_photo fu of Some p \<Rightarrow> if p \<noteq> [] then AvatarPhoto p else AvatarInitial (hd (display_name fu (s_settings s)))
                       | None \<Rightarrow> AvatarInitial (hd (display_name fu (s_settings s)))),
         uv_greeting := takeWhile (\<lambda>c. c \<noteq> CHR '' '') (display_name fu (s_settings s))\<rparr>) \<and>
   display_name fu (s_settings s) \<noteq> []"
  by (simp add: update_user_ui_Some display_name_ne first_piece_takeWhile)

text \<open>C30. Signing up with a name races with the auth listener. If \<open>_onAuthReady\<close> runs
  first, the name is stored in the settings and the settings write is scheduled, but the
  greeting was already drawn from the settings in memory, which may still be the
  previous user's; if the sign-up's continuation runs first, the greeting shows the new
  name but \<open>saveSettingsToFirestore\<close> returned at once for want of a user, so no write
  is scheduled and the name is not saved.\<close>

theorem sign_up_race_outcomes:
  assumes "js_trim nm \<noteq> []" and "current_user s = None" and "sync_timer s = None"
    and "fu_name fu = None" and "r_settings (remote s (fu_uid fu)) = None"
  shows "(case sign_up_race ListenerFirst nm fu (s, ui, uv) of (s', ui', uv') \<Rightarrow>
            displayName (s_settings s') = Some (js_trim nm) \<and> sync_timer s' = Some (clock s + 800) \<and>
            uv_greeting uv' = first_piece (CHR '' '') (display_name fu (s_settings s))) \<and>
         (case sign_up_race ContinuationFirst nm fu (s, ui, uv) of (s', ui', uv') \<Rightarrow>
            displayName (s_settings s') = Some (js_trim nm) \<and> sync_timer s' = None \<and>
            uv_greeting uv' = first_piece (CHR '' '') (js_trim nm))"
proof -
  have d: "display_name fu (s_settings s\<lparr>displayName := Some (js_trim nm)\<rparr>) = js_trim nm"
    using assms(1,4) by (simp add: display_name_def str_or_def js_or_str_def)
  show ?thesis
    using assms d
    by (simp add: sign_up_race_def auth_sign_up_finish_def update_user_ui_Some schedule_settings_write_def
                  update_settings_def subscribe_def load_settings_def Let_def)
qed

section \<open>Witnesses\<close>

theorem auth_forms_safe_witness:
  "auth_ui_ok (snd (auth_run [SwitchTab ''signup'', SignUp ''Ann'' '' ann@example.com '' [] FbOk,
                               SignIn ''ann@example.com'' ''pw'' (FbFail (Some ''auth/wrong-password''))]
                              (fresh_session, auth_ui_init)))"
  using auth_forms_safe [of auth_ui_init] by (simp add: auth_ui_ok_def auth_ui_init_def)

theorem sign_up_race_outcomes_witness:
  "(case sign_up_race ListenerFirst ''Carol Ann'' \<lparr>fu_uid = ''carol'', fu_email = Some ''carol@example.com'',
           fu_name = None, fu_photo = None\<rparr> (fresh_session, auth_ui_init, \<lparr>uv_name = [], uv_avatar = AvatarEmpty,
           uv_greeting = [], uv_auth_hidden = False\<rparr>) of (s', ui', uv') \<Rightarrow>
      sync_timer s' = Some 800 \<and> uv_greeting uv' = ''carol'') \<and>
   (case sign_up_race ContinuationFirst ''Carol Ann'' \<lparr>fu_uid = ''carol'', fu_email = Some ''carol@example.com'',
           fu_name = None, fu_photo = None\<rparr> (fresh_session, auth_ui_init, \<lparr>uv_name = [], uv_avatar = AvatarEmpty,
           uv_greeting = [], uv_auth_hidden = False\<rparr>) of (s', ui', uv') \<Rightarrow>
      sync_timer s' = None \<and> uv_greeting uv' = ''Carol'')"
proof -
  let ?fu = "\<lparr>fu_uid = ''carol'', fu_email = Some ''carol@example.com'', fu_name = None, fu_photo = None\<rparr>"
  have f: "current_user fresh_session = None" "sync_timer fresh_session = None" "clock fresh_session = 0"
    "r_settings (remote fresh_session ''carol'') = None" "displayName (s_settings fresh_session) = None"
    by (simp_all add: session_defs initial_settings_def)
  have t: "js_trim ''Carol Ann'' = ''Carol Ann''" by code_simp
  have g: "first_piece (CHR '' '') ''Carol Ann'' = ''Carol''"
    "first_piece (CHR '' '') (display_name ?fu (s_settings fresh_session)) = ''carol''"
    using f(5) by (simp_all add: first_piece_takeWhile display_name_def str_or_def js_or_str_def)
  show ?thesis
    using sign_up_race_outcomes [where nm = "''Carol Ann''" and s = fresh_session and fu = ?fu and ui = auth_ui_init
                                 and uv = "\<lparr>uv_name = [], uv_avatar = AvatarEmpty, uv_greeting = [], uv_auth_hidden = False\<rparr>"] f t g
    by (auto split: prod.splits)
qed

end
