(* ===== verification/Display.thy ===== *)
theory Display
  imports Books "HOL-Library.Word"
begin

text \<open>Display helpers of \<open>src/app.js\<close>: \<open>escHtml\<close> (line 6), \<open>timeAgo\<close> (lines 8-14) and
  the placeholder spine colour \<open>getSpineColor\<close> (lines 1005-1016). Characters are the
  8-bit characters of the rest of the development, so \<open>charCodeAt\<close> is \<open>of_char\<close>.
  \<open>getSpineColor\<close> mixes 32-bit and double arithmetic: \<open>hash << 5\<close> converts \<open>hash\<close>
  to a signed 32-bit integer and shifts it with wrap-around, the subtraction and the
  addition are double arithmetic, which is exact on integers below \<open>2^53\<close>. The model
  keeps the hash an \<open>int\<close> and the shift a \<open>32 word\<close> operation; theorem
  \<open>spine_hash_bound\<close> shows the hash stays below \<open>2^53\<close> for titles shorter than
  \<open>2^21\<close> characters, where the model and the doubles agree.\<close>

unbundle bit_operations_syntax

section \<open>escHtml\<close>

text \<open>\<open>s.replace(/c/g, r)\<close> for a one-character pattern.\<close>

definition replace_all :: "char \<Rightarrow> string \<Rightarrow> string \<Rightarrow> string" where
  "replace_all c r s = concat (map (\<lambda>x. if x = c then r else [x]) s)"

text \<open>\<open>String(s||'')\<close> then the four replacements, in the code's order.\<close>

definition esc_html :: "string \<Rightarrow> string" where
  "esc_html s =
     replace_all (CHR 0x22) ''&quot;'' (replace_all (CHR ''>'') ''&gt;''
       (replace_all (CHR ''<'') ''&lt;'' (replace_all (CHR ''&'') ''&amp;'' s)))"

text \<open>The per-character escape the four passes amount to, and the browser's decoding of
  the four entities, against which the escape is checked.\<close>

fun esc_char :: "char \<Rightarrow> string" where
  "esc_char c =
     (if c = CHR ''&'' then ''&amp;'' else if c = CHR ''<'' then ''&lt;''
      else if c = CHR ''>'' then ''&gt;'' else if c = CHR 0x22 then ''&quot;'' else [c])"

fun html_decode :: "string \<Rightarrow> string" where
  "html_decode [] = []"
| "html_decode (c # cs) =
     (if c = CHR ''&'' then
        (if take 4 cs = ''amp;'' then CHR ''&'' # html_decode (drop 4 cs)
         else if take 3 cs = ''lt;'' then CHR ''<'' # html_decode (drop 3 cs)
         else if take 3 cs = ''gt;'' then CHR ''>'' # html_decode (drop 3 cs)
         else if take 5 cs = ''quot;'' then CHR 0x22 # html_decode (drop 5 cs)
         else c # html_decode cs)
      else c # html_decode cs)"

section \<open>timeAgo\<close>

text \<open>\<open>timeAgo(ts)\<close> at the time \<open>now\<close>, both in milliseconds. \<open>Math.floor(x / n)\<close> on
  integers is \<open>x div n\<close> (the double quotient is exact enough for any difference below
  \<open>2^43\<close> ms, some 278 years).\<close>

definition time_ago :: "int \<Rightarrow> int \<Rightarrow> string" where
  "time_ago now ts =
     (let s = (now - ts) div 1000
      in if s < 60 then ''just now''
         else if s < 3600 then js_int_string (s div 60) @ ''m ago''
         else if s < 86400 then js_int_string (s div 3600) @ ''h ago''
         else js_int_string (s div 86400) @ ''d ago'')"

section \<open>The spine colour\<close>

definition SPINE_COLORS :: "(string \<times> string) list" where
  "SPINE_COLORS =
     [(''#7c3f1e'', ''#a0552a''), (''#1e3a5f'', ''#2a5080''), (''#2d5a1b'', ''#3d7a26''),
      (''#5a1e3f'', ''#7a2a55''), (''#3f3f1e'', ''#5a5a2a''), (''#1e4a4a'', ''#2a6a6a''),
      (''#5a2d1e'', ''#7a3f2a''), (''#1e1e5a'', ''#2a2a7a''), (''#4a1e5a'', ''#6a2a7a''),
      (''#5a1e1e'', ''#7a2a2a''), (''#1e5a3a'', ''#2a7a50''), (''#3a1e5a'', ''#502a7a'')]"

text \<open>One turn of the loop: \<open>hash = ((hash << 5) - hash) + title.charCodeAt(i)\<close>.\<close>

definition spine_step :: "int \<Rightarrow> char \<Rightarrow> int" where
  "spine_step h c = sint (push_bit 5 (word_of_int h :: 32 word)) - h + int (of_char c)"

definition spine_hash :: "string \<Rightarrow> int" where
  "spine_hash t = foldl spine_step 0 t"

definition get_spine_color :: "string \<Rightarrow> string \<times> string" where
  "get_spine_color t = SPINE_COLORS ! (nat \<bar>spine_hash t\<bar> mod length SPINE_COLORS)"

text \<open>The usual 32-bit string hash \<open>h * 31 + c\<close>, wrapping at every step, against which
  the loop is compared.\<close>

definition java_hash :: "string \<Rightarrow> 32 word" where
  "java_hash t = foldl (\<lambda>h c. h * 31 + of_nat (of_char c)) 0 t"

section \<open>Lemmas\<close>

lemma replace_all_append [simp]: "replace_all c r (xs @ ys) = replace_all c r xs @ replace_all c r ys"
  by (simp add: replace_all_def)

lemma replace_all_Cons [simp]: "replace_all c r (x # xs) = (if x = c then r else [x]) @ replace_all c r xs"
  by (simp add: replace_all_def)

lemma replace_all_Nil [simp]: "replace_all c r [] = []"
  by (simp add: replace_all_def)

text \<open>The four passes are the per-character escape: no pass meets a character an
  earlier pass wrote.\<close>

lemma esc_html_map: "esc_html s = concat (map esc_char s)"
  by (induction s) (simp_all add: esc_html_def)

lemma html_decode_esc: "html_decode (concat (map esc_char s)) = s"
  by (induction s) simp_all

lemma esc_char_safe: "set (esc_char c) \<inter> {CHR ''<'', CHR ''>'', CHR 0x22} = {}"
  by simp

lemma spine_step_word: "(word_of_int (spine_step h c) :: 32 word) = word_of_int h * 31 + of_nat (of_char c)"
  by (simp add: spine_step_def push_bit_eq_mult wi_hom_syms)

lemma foldl_spine_low_bits:
  "(word_of_int (foldl spine_step h t) :: 32 word) = foldl (\<lambda>h c. h * 31 + of_nat (of_char c)) (word_of_int h) t"
  by (induction t arbitrary: h) (simp_all add: spine_step_word)

lemma sint32_abs: "\<bar>sint (w :: 32 word)\<bar> \<le> 2 ^ 31"
  using sint_ge [of w] sint_lt [of w] by simp

lemma spine_step_bound: "\<bar>spine_step h c\<bar> \<le> \<bar>h\<bar> + (2 ^ 31 + 255)"
proof -
  define k where "k = int (of_char c)"
  have l: "(of_char c :: nat) < 256" by (rule nat_of_char_less_256)
  have k: "0 \<le> k \<and> k \<le> 255" unfolding k_def using l by linarith
  have b: "\<bar>sint w - h + k\<bar> \<le> \<bar>h\<bar> + (2 ^ 31 + 255)" for w :: "32 word"
    using sint32_abs [of w] k by arith
  show ?thesis unfolding spine_step_def k_def [symmetric] by (rule b)
qed

lemma foldl_spine_bound: "\<bar>foldl spine_step h t\<bar> \<le> \<bar>h\<bar> + int (length t) * (2 ^ 31 + 255)"
proof (induction t arbitrary: h)
  case (Cons c t)
  show ?case using Cons.IH [of "spine_step h c"] spine_step_bound [of h c] by (simp add: algebra_simps)
qed simp

lemma div_1000_div: "0 < n \<Longrightarrow> (d :: int) div 1000 div n = d div (1000 * n)"
  by (simp add: zdiv_zmult2_eq)

section \<open>Properties\<close>

text \<open>C31. \<open>escHtml\<close> escapes for HTML text and attributes: its output contains no
  \<open><\<close>, \<open>>\<close> or double quote, and the browser's decoding of the four entities gives the
  input back; the four \<open>replace\<close> passes, in the code's order, never re-escape what an
  earlier pass wrote.\<close>

theorem esc_html_roundtrip:
  "html_decode (esc_html s) = s \<and> set (esc_html s) \<inter> {CHR ''<'', CHR ''>'', CHR 0x22} = {}"
  using esc_char_safe by (auto simp: esc_html_map html_decode_esc)

text \<open>\<open>timeAgo\<close> says \<open>just now\<close> for anything less than a minute old, including
  a time in the future, and otherwise shows a whole number of minutes between 1 and 59,
  of hours between 1 and 23, or of days from 1 on, each the elapsed time rounded down.\<close>

lemma time_ago_bounds:
  "(now - ts < 60000 \<and> time_ago now ts = ''just now'') \<or>
   (60000 \<le> now - ts \<and> now - ts < 3600000 \<and> 1 \<le> (now - ts) div 60000 \<and> (now - ts) div 60000 \<le> 59 \<and>
      time_ago now ts = js_int_string ((now - ts) div 60000) @ ''m ago'') \<or>
   (3600000 \<le> now - ts \<and> now - ts < 86400000 \<and> 1 \<le> (now - ts) div 3600000 \<and> (now - ts) div 3600000 \<le> 23 \<and>
      time_ago now ts = js_int_string ((now - ts) div 3600000) @ ''h ago'') \<or>
   (86400000 \<le> now - ts \<and> 1 \<le> (now - ts) div 86400000 \<and>
      time_ago now ts = js_int_string ((now - ts) div 86400000) @ ''d ago'')"
proof -
  define d where "d = now - ts"
  have m: "d div 1000 div 60 = d div 60000" "d div 1000 div 3600 = d div 3600000"
    "d div 1000 div 86400 = d div 86400000" by (simp_all add: div_1000_div)
  have "d div 1000 < 60 \<longleftrightarrow> d < 60000" "d div 1000 < 3600 \<longleftrightarrow> d < 3600000"
    "d div 1000 < 86400 \<longleftrightarrow> d < 86400000" by linarith+
  moreover have "60000 \<le> d \<Longrightarrow> 1 \<le> d div 60000" "d < 3600000 \<Longrightarrow> d div 60000 \<le> 59"
    "3600000 \<le> d \<Longrightarrow> 1 \<le> d div 3600000" "d < 86400000 \<Longrightarrow> d div 3600000 \<le> 23"
    "86400000 \<le> d \<Longrightarrow> 1 \<le> d div 86400000" by linarith+
  ultimately show ?thesis
    unfolding d_def [symmetric] time_ago_def Let_def m by auto
qed

text \<open>C32. The low 32 bits of the spine hash are the usual 32-bit string hash
  (\<open>h * 31 + c\<close> with wrap-around at every step): the one 32-bit operation of the loop,
  \<open><< 5\<close>, agrees with multiplication by 32 modulo \<open>2^32\<close>, and the double-precision
  subtraction and addition do not disturb the low bits.\<close>

theorem spine_hash_low_bits: "(word_of_int (spine_hash t) :: 32 word) = java_hash t"
  by (simp add: spine_hash_def java_hash_def foldl_spine_low_bits)

text \<open>C33. The spine hash is not kept to 32 bits: each character adds at most
  \<open>2^31 + 255\<close> to its magnitude, so for titles shorter than \<open>2^21\<close> characters it stays
  below \<open>2^53\<close>, where the double arithmetic of the loop is exact; the colour is one of
  the twelve pairs.\<close>

theorem spine_hash_bound:
  assumes "length t < 2 ^ 21"
  shows "\<bar>spine_hash t\<bar> \<le> int (length t) * (2 ^ 31 + 255) \<and> \<bar>spine_hash t\<bar> < 2 ^ 53 \<and>
         get_spine_color t \<in> set SPINE_COLORS"
proof -
  have b: "\<bar>spine_hash t\<bar> \<le> int (length t) * (2 ^ 31 + 255)"
    using foldl_spine_bound [of 0 t] by (simp add: spine_hash_def)
  have "int (length t) * (2 ^ 31 + 255) < 2 ^ 53"
    using assms by (simp add: of_nat_less_iff [symmetric])
  moreover have "get_spine_color t \<in> set SPINE_COLORS"
    unfolding get_spine_color_def by (rule nth_mem) (simp add: SPINE_COLORS_def)
  ultimately show ?thesis using b by linarith
qed

text \<open>The hash leaves the 32-bit range and then differs from the 32-bit string hash:
  \<open>Beloved\<close> hashes to -2854558545 and gets colour 9, where the 32-bit hash
  1440408751 would give colour 7.\<close>

lemma spine_hash_leaves_int32:
  "spine_hash ''Beloved'' = -2854558545 \<and> sint (java_hash ''Beloved'') = 1440408751 \<and>
   get_spine_color ''Beloved'' = SPINE_COLORS ! 9 \<and>
   SPINE_COLORS ! (nat \<bar>sint (java_hash ''Beloved'')\<bar> mod length SPINE_COLORS) = SPINE_COLORS ! 7"
proof -
  have h: "spine_hash ''Beloved'' = -2854558545"
    by (simp add: spine_hash_def spine_step_def push_bit_eq_mult)
  have j: "sint (java_hash ''Beloved'') = 1440408751"
    by (simp add: java_hash_def)
  have l: "length SPINE_COLORS = 12" by (simp add: SPINE_COLORS_def)
  show ?thesis using h j l by (simp add: get_spine_color_def del: SPINE_COLORS_def)
qed

section \<open>Witnesses\<close>

theorem spine_hash_bound_witness:
  "\<bar>spine_hash ''Beloved''\<bar> < 2 ^ 53 \<and> get_spine_color ''Beloved'' \<in> set SPINE_COLORS"
  using spine_hash_bound [of "''Beloved''"] by simp

end
