(* ===== verification/Feed.thy ===== *)
theory Feed
  imports Import_Export Stats Display
begin

text \<open>What the dashboard, the collections page and the book detail modal of
  \<open>src/app.js\<close> derive from the state: the activity log (\<open>addActivity\<close>, lines
  1417-1421, fed by \<open>saveBook\<close> and \<open>deleteCurrentBook\<close>, shown by
  \<open>refreshDashboard\<close>, lines 1499-1510), the collection cards of \<open>renderCollections\<close>
  (lines 1390-1414) and the dashboard's collection pills (lines 1512-1518), and the
  values \<open>openBookDetail\<close> (lines 1318-1368) computes before it writes the modal. The
  HTML around these values is not modelled; where a value is written as HTML without
  \<open>escHtml\<close>, the text is kept as the code builds it.\<close>

section \<open>The activity log\<close>

datatype act_kind = ActUpdated | ActAdded | ActRemoved

text \<open>An entry of \<open>activityLog\<close>: its HTML text, its icon and colour (one per kind) and
  \<open>Date.now()\<close> when it was added.\<close>

record activity =
  act_text :: string
  act_kind :: act_kind
  act_time :: int

text \<open>\<open>addActivity\<close>: \<open>unshift\<close>, then one \<open>pop\<close> when the log has grown past 20.\<close>

definition add_activity :: "activity \<Rightarrow> activity list \<Rightarrow> activity list" where
  "add_activity a lg = (let l = a # lg in if 20 < length l then butlast l else l)"

text \<open>The entries \<open>saveBook\<close> adds, with its trimmed \<open>title\<close> and \<open>author\<close>, and the
  one \<open>deleteCurrentBook\<close> adds with the stored title.\<close>

definition save_activity :: "bool \<Rightarrow> string \<Rightarrow> string \<Rightarrow> int \<Rightarrow> activity" where
  "save_activity editing t a now =
     (if editing then \<lparr>act_text = ''Updated <strong>'' @ t @ ''</strong>'', act_kind = ActUpdated, act_time = now\<rparr>
      else \<lparr>act_text = ''Added <strong>'' @ t @ ''</strong> by '' @ (if a = [] then ''Unknown'' else a),
            act_kind = ActAdded, act_time = now\<rparr>)"

definition delete_activity :: "string \<Rightarrow> int \<Rightarrow> activity" where
  "delete_activity t now = \<lparr>act_text = ''Removed <strong>'' @ t @ ''</strong>'', act_kind = ActRemoved, act_time = now\<rparr>"

text \<open>The dashboard's list: the first eight entries, each as its HTML text (written
  unescaped) and \<open>timeAgo\<close> of its time.\<close>

definition activity_feed :: "int \<Rightarrow> activity list \<Rightarrow> (string \<times> string) list" where
  "activity_feed now lg = map (\<lambda>a. (act_text a, time_ago now (act_time a))) (take 8 lg)"

section \<open>Collection cards\<close>






section \<open>The book detail modal\<close>

text \<open>\<open>s.repeat(n)\<close> as the number of copies; a negative count throws a
  \<open>RangeError\<close>, here \<open>None\<close>.\<close>

definition js_repeat_count :: "int \<Rightarrow> nat option" where
  "js_repeat_count n = (if n < 0 then None else Some (nat n))"

text \<open>\<open>book.rating ? full.repeat(rating) + empty.repeat(5 - rating) : ...\<close>: the numbers of
  full and empty stars.\<close>

definition detail_stars :: "int \<Rightarrow> (nat \<times> nat) option" where
  "detail_stars r =
     (if r = 0 then Some (0, 5)
      else (case js_repeat_count r of
              None \<Rightarrow> None
            | Some f \<Rightarrow> (case js_repeat_count (5 - r) of None \<Rightarrow> None | Some e \<Rightarrow> Some (f, e))))"

text \<open>The collections line: for each id the book lists, in its order, the collection of
  that id if it still exists.\<close>

definition detail_cols :: "collection list \<Rightarrow> book \<Rightarrow> collection list" where
  "detail_cols cs b =
     List.map_filter (\<lambda>cid. find (\<lambda>c. col_id c = cid) cs) (collections b)"

text \<open>\<open>description.substring(0, 400)\<close> followed by \<open>...\<close> when it was longer.\<close>

definition detail_desc :: "string \<Rightarrow> string" where
  "detail_desc d = take 400 d @ (if 400 < length d then ''...'' else [])"

record detail_view =
  dv_stars :: "nat \<times> nat"
  dv_progress :: int
  dv_cols :: "collection list"
  dv_desc :: string

datatype detail_outcome = DetailMissing | DetailThrows | DetailShown detail_view

text \<open>\<open>openBookDetail(bookId)\<close>: nothing for an unknown id; the star string is built
  before the modal is written, so a \<open>RangeError\<close> there leaves the modal closed.\<close>

definition book_detail :: "book list \<Rightarrow> collection list \<Rightarrow> string \<Rightarrow> detail_outcome" where
  "book_detail bs cs i =
     (case find (\<lambda>b. book_id b = i) bs of
        None \<Rightarrow> DetailMissing
      | Some b \<Rightarrow>
          (case detail_stars (rating b) of
             None \<Rightarrow> DetailThrows
           | Some st \<Rightarrow> DetailShown \<lparr>dv_stars = st, dv_progress = reading_progress b,
                                      dv_cols = detail_cols cs b, dv_desc = detail_desc (description b)\<rparr>))"

section \<open>Lemmas\<close>

lemma add_activity_take: "length lg \<le> 20 \<Longrightarrow> add_activity a lg = take 20 (a # lg)"
  by (cases "length lg = 20") (auto simp: add_activity_def Let_def butlast_conv_take)

lemma take_Cons_take: "k \<le> Suc n \<Longrightarrow> take k (a # take n ys) = take k (a # ys)"
  by (cases k) (simp_all add: min_def)

lemma foldl_add_activity:
  "length lg \<le> 20 \<Longrightarrow> foldl (\<lambda>l a. add_activity a l) lg acts = take 20 (rev acts @ lg)"
proof (induction acts arbitrary: lg)
  case (Cons a acts)
  have "length (take 20 (a # lg)) \<le> 20" by simp
  then show ?case
    using Cons.IH [of "take 20 (a # lg)"] Cons.prems
    by (simp add: add_activity_take take_Cons_take)
qed simp

lemma detail_stars_None: "detail_stars r = None \<longleftrightarrow> r < 0 \<or> 5 < r"
  by (simp add: detail_stars_def js_repeat_count_def)

lemma detail_stars_SomeD: "detail_stars r = Some st \<Longrightarrow> 0 \<le> r \<and> r \<le> 5"
  by (auto simp: detail_stars_def js_repeat_count_def split: if_splits option.splits)


section \<open>Properties\<close>

text \<open>C34. The activity log is a window on the last twenty actions: starting from any log
  of at most twenty entries, adding entries one by one leaves the newest twenty, newest
  first, so the log never holds more than twenty.\<close>

theorem activity_window:
  assumes "length lg \<le> 20"
  shows "foldl (\<lambda>l a. add_activity a l) lg acts = take 20 (rev acts @ lg) \<and>
         length (foldl (\<lambda>l a. add_activity a l) lg acts) \<le> 20"
  using foldl_add_activity [OF assms] by simp


text \<open>C36. \<open>openBookDetail\<close> fails exactly for the listed books whose rating lies outside
  0..5: \<open>repeat\<close> with a negative count throws, so the detail modal of such a book never
  opens. Nothing but the star picker keeps ratings in range: a Goodreads or backup
  import stores whatever number the file holds.\<close>

theorem book_detail_throws:
  "book_detail bs cs i = DetailThrows \<longleftrightarrow>
     (\<exists>b. find (\<lambda>b. book_id b = i) bs = Some b \<and> (rating b < 0 \<or> 5 < rating b))"
  by (auto simp: book_detail_def detail_stars_None split: option.splits dest: detail_stars_SomeD)

text \<open>A Goodreads row rated 7 imports a book whose detail modal cannot open.\<close>

lemma goodreads_rating_breaks_detail:
  "(case gr_book [] ''g1'' 0 [(''Title'', ''Dune''), (''My Rating'', ''7'')] of
      Some b \<Rightarrow> rating b = 7 \<and> book_detail [b] [] ''g1'' = DetailThrows
    | None \<Rightarrow> False)"
  by code_simp

section \<open>Witnesses\<close>

theorem activity_window_witness:
  "length (foldl (\<lambda>l a. add_activity a l) [] (replicate 22 (save_activity False ''Dune'' [] 0))) = 20"
  using activity_window [of "[]" "replicate 22 (save_activity False ''Dune'' [] 0)"] by simp

end
