(* ===== verification/Spec2Isabelle.thy ===== *)
theory Spec2Isabelle
  imports Stats Catalog Render Auth_Bridge Scanner Auth_Forms Display Feed
begin

text \<open>
  Verification development for ConnieReads, a single-page reading tracker
  (\<open>src/app.js\<close>, with \<open>src/firebase.js\<close> initialising the Firebase SDK and bridging the
  auth state to the main script). The program keeps a user's books, collections and
  settings in module-level variables, mirrors them from Firestore through realtime
  listeners, writes every change back to Firestore (settings through an 800 ms
  debounce), keeps a local-storage copy, renders a filtered and sorted library, a
  dashboard and statistics from the lists, edits books through a modal form, and
  imports and exports the library as CSV and JSON.

  \<^bold>\<open>Theories.\<close> Each imports the ones it calls; this theory imports them all.
  \<^item> \<open>Prelude\<close>: the JavaScript built-ins the code relies on, as HOL functions:
    \<open>toLowerCase\<close> and \<open>trim\<close> on ASCII (\<open>js_lower\<close>, \<open>js_trim\<close>), \<open>includes\<close>,
    \<open>localeCompare\<close> as code-point order, \<open>Array.prototype.sort\<close> with a comparator as a
    stable insertion sort (\<open>js_sort\<close>), counting into a plain object and
    \<open>Object.entries\<close> (\<open>count_keys\<close>, \<open>js_entries\<close>: integer-like keys first, in numeric
    order), \<open>parseInt\<close> (\<open>js_parse_int\<close>, \<open>None\<close> for NaN), \<open>Number.toString\<close>,
    \<open>Math.round\<close> of a quotient, \<open>||\<close> on strings that may be missing
    (\<open>js_or_str\<close>, \<open>str_or\<close>), and \<open>String.split\<close> / \<open>Array.join\<close> (\<open>js_split\<close>, a
    \<open>function\<close> with a measure, and \<open>js_join\<close>). Its lemmas show \<open>js_sort\<close> is a sorted,
    stable permutation for every comparator that is a weak order, that the counting
    dictionary counts, that the digits \<open>toString\<close> writes read back as the number, and
    that splitting a
    join at a separator absent from the pieces gives the pieces back.
  \<^item> \<open>Books\<close>: the book object written by \<open>saveBook\<close>, the collection object, and the
    settings object with the shallow merge \<open>{ ...a, ...b }\<close> (\<open>merge_settings\<close>) and
    \<open>applyTheme\<close>'s fallback.
  \<^item> \<open>Library_View\<close>: the filter and sort engine of \<open>_doRenderLibrary\<close>
    (\<open>book_passes\<close>, \<open>library_cmp\<close>, \<open>library_view\<close>), the facet options of
    \<open>buildFilterOptions\<close>, \<open>updateOwnedCounts\<close>, \<open>updateFilterBadge\<close>, and the filter-panel
    actions as a step function \<open>fp_step\<close>. \<open>facet_spec\<close> is the specification's facet
    semantics. Claims C1-C7: the view is the filtered books in sort order, the predicate
    refines \<open>facet_spec\<close>, stability, the sort orders, the rating sentinel, the genre
    options, and the panel invariant; idempotence, the view as a permutation and the
    top-12 author options are lemmas.
  \<^item> \<open>Sync\<close>: the reconciliation layer as a state machine. The \<open>session\<close> record holds the
    module state (\<open>books\<close>, \<open>collections\<close>, \<open>settings\<close>, \<open>currentUser\<close>, the two
    listeners, \<open>syncTimeout\<close>), the local cache and, as part of the world, the per-user
    Firestore documents and a log of remote writes. An \<open>event\<close> is a handler the browser
    runs; \<open>step\<close> advances the clock, fires a due debounce timer and runs the handler, and
    \<open>run\<close> folds \<open>step\<close> over timed events. Claims C8-C14: snapshot replacement, the
    single debounced write, the distinct-id invariant over every run, no write while
    signed out, the snapshot's order, the settings a new user inherits, and the user a
    pending settings write goes to; a save visible and a delete gone at the next
    snapshot are lemmas.
  \<^item> \<open>Render\<close>: the 50 ms render debounce (\<open>renderLibrary\<close>, \<open>_doRenderLibrary\<close>)
    joining \<open>Sync\<close> to \<open>Library_View\<close>: a \<open>ui\<close> record pairs a session with the page,
    the panel, the search text, the sort key, the render timer and the grid on screen.
    Claims C15-C16: the grid is the current view whenever no render is pending, and an
    idle moment 50 ms after the last event shows the latest state.
  \<^item> \<open>Stats\<close>: \<open>refreshDashboard\<close> and \<open>renderStats\<close> as functions of the book list.
    The bar sizes of the charts are \<open>year_bars\<close> to \<open>format_bars\<close>. Claims C17-C19:
    the year histogram, the goal percentage bounds, and every chart bar inside its
    track; the month histogram, the leaderboard, the author ranking and the
    reading-pace bounds are lemmas.
  \<^item> \<open>Book_Form\<close>: the tag input of the book modal as an inductive reachability relation
    \<open>tag_reach\<close> over the hidden input's values, and \<open>saveBook\<close>, \<open>deleteCurrentBook\<close>,
    \<open>saveCollection\<close> returning \<open>form_error + session\<close>, and the modal's inputs as a
    \<open>book_form\<close> that persists between openings, set by \<open>clearBookForm\<close>,
    \<open>openAddModal\<close> and \<open>openEditModal\<close>. Claims C20-C22: the tag invariant (rule
    induction), the validation errors, and the round trip of opening a book for edit and
    saving it unchanged.
  \<^item> \<open>Import_Export\<close>: \<open>parseCSV\<close>, \<open>importGoodreads\<close>, \<open>importShelfwise\<close> and
    \<open>exportData\<close>. Claims C23-C24: the CSV export read back by \<open>parseCSV\<close> and the
    shape of a parsed row; the duplicate-title test of the Goodreads import is a lemma.
  \<^item> \<open>Catalog\<close>: the catalog search and cover refresh with the providers' answers as
    arguments: \<open>searchHardcover\<close> and \<open>searchOpenLibrary\<close> mapping an answer to the
    result record \<open>hit\<close>, the fallback of \<open>searchBooks\<close>, \<open>addFromSearch\<close> into the
    modal of \<open>Book_Form\<close>, and \<open>refreshCover\<close> with its per-book click counter.
    \<open>lookup_contract\<close> is the specification's lookup contract. Claims C25-C27: the
    search refines the contract, a result added and saved becomes the expected book,
    and a refresh always shows a candidate chosen by the click count.
  \<^item> \<open>Scanner\<close>: the barcode scanner section as it runs after hoisting (the later of
    two declarations of a name wins): \<open>openScanner\<close>, \<open>handleISBNDetected\<close>,
    \<open>addScannedBook\<close>, \<open>stopCamera\<close>, \<open>closeScanner\<close>, over a \<open>scanner_state\<close>
    record, with reading an undeclared name an \<open>Inl (ReferenceError _)\<close> value and the
    ISBN lookup (Hardcover, then Open Library) with the answers as arguments.
    \<open>scanner_reach\<close> is the inductive reachability of the page's scanner states. Claim
    C28: no reachable state stores a scanned book, so nothing can be added from it.
  \<^item> \<open>Auth_Forms\<close>: the sign-in screen (\<open>authSignIn\<close>, \<open>authSignUp\<close> split at its
    \<open>await\<close>, \<open>authWithGoogle\<close>, \<open>authForgotPassword\<close>, \<open>friendlyAuthError\<close>) over
    an \<open>auth_ui\<close> record with a log of Firebase calls, and \<open>updateUserUI\<close> with the user
    branch of \<open>_onAuthReady\<close> over \<open>Sync\<close>'s session. \<open>sign_up_race\<close> runs the
    sign-up's continuation and the auth listener in either order. Claims C29-C30: no
    call with an empty credential and no raw error code shown, after any actions, and
    what each order of the race leaves; that the user header never throws is a lemma.
  \<^item> \<open>Display\<close>: \<open>escHtml\<close> as its four \<open>replace\<close> passes, \<open>timeAgo\<close>, and
    \<open>getSpineColor\<close>, whose loop mixes a 32-bit shift (a \<open>32 word\<close>) with double
    arithmetic (an \<open>int\<close>). Claims C31-C33: escaping round-trips and leaves no markup
    characters, the hash's low 32 bits are the usual string hash, and the hash stays
    below \<open>2^53\<close> (so the doubles are exact) for titles shorter than \<open>2^21\<close>
    characters; the \<open>timeAgo\<close> ranges are a lemma.
  \<^item> \<open>Feed\<close>: what the dashboard, the collections page and the book detail modal derive
    from the state: the activity log of \<open>addActivity\<close> and its list, the collection
    cards and pills, and the values of \<open>openBookDetail\<close> with its \<open>RangeError\<close>.
    Claims C34-C36: the log is the window of the last twenty actions, the cards agree
    with the pills, and the detail modal fails exactly for ratings outside 0..5.
  \<^item> \<open>Auth_Bridge\<close>: the retry loop of \<open>src/firebase.js\<close>, once as a recursion on the
    retry count with a measure (\<open>auth_poll\<close>) and once as the code writes it, a
    \<open>while_option\<close> loop over the counter and the interval state (\<open>interval_loop\<close>).
    Claims C38-C40: exactly when the user is delivered and when the bridge gives up, the
    loop always ends within 51 ticks, and the two forms agree.
  This theory holds C37, which spans components: a JSON backup exported from one
  session and imported into an empty signed-in account comes back through the listener.

  \<^bold>\<open>Modelling choices.\<close> An exception that a handler throws before its first write is
  an \<open>Inl\<close> value and leaves the state as it was. The one \<open>await\<close> whose continuation
  races with another handler in a way the code does not order, that of \<open>authSignUp\<close>
  against the auth listener, is modelled in both orders. JavaScript objects are records whose missing fields are their
  falsy defaults, as every reader in the code treats them. Strings are HOL strings and
  case conversion and trimming are ASCII. Each event runs to completion: the awaits
  inside \<open>clearAllData\<close>, \<open>_onAuthReady\<close> and the import loops do not interleave with
  other events. The outcome of a Firestore write, \<open>genId()\<close>, \<open>confirm()\<close> and the
  readiness of the main script are arguments. The Firestore security rules, which are
  not in the repository, are modelled only as far as a listener of a user who is no
  longer signed in being refused. \<open>JSON.stringify\<close> and \<open>JSON.parse\<close> of the backup are
  taken to be inverse, so a backup is the record of its three fields. No fuel is used:
  every loop is a fold over a list or a recursion with a measure (\<open>js_split_aux\<close>,
  \<open>auth_poll\<close> with 51 ticks, the code's own bound); the \<open>while_option\<close> form of the
  interval is proved to return \<open>Some\<close>, so its \<open>None\<close> case never happens.

  \<^bold>\<open>Not modelled.\<close> The HTML strings of cards, lists, charts and modals, beyond the
  values they show (\<open>Feed\<close>, the chart scaling of \<open>Stats\<close>) and the helpers they call
  (\<open>Display\<close>); the toast element of \<open>showToast\<close>; the HTTP requests of the catalog and ISBN lookups and the calls of the
  Firebase Auth SDK, whose answers are arguments; camera capture, of which the
  repository has no code; the file picker and \<open>FileReader\<close>; the Firebase
  configuration and SDK initialisation in \<open>src/firebase.js\<close>. These are browser
  and network effects with no state the modelled components read.
\<close>



end
